theory Spec2Isabelle
  imports Main "HOL-Library.Word"
begin

section \<open>JavaScript values as the code uses them\<close>

text \<open>
  Strings are byte strings (the identifiers, paths and base64 payloads the code handles
  are ASCII). An optional value is \<open>None\<close> when it is \<open>undefined\<close>. A thrown
  \<open>Error\<close> is a value carrying its message; a failure raised by the platform (file
  system, JSON parser, a call of something that is not a function) is
  \<open>SystemError\<close>.
\<close>

datatype js_error = Error string | SystemError string

definition error_text :: "js_error \<Rightarrow> string" where
  "error_text e = (case e of Error m \<Rightarrow> m | SystemError m \<Rightarrow> m)"

definition truthy :: "string option \<Rightarrow> bool" where
  "truthy v = (case v of None \<Rightarrow> False | Some s \<Rightarrow> s \<noteq> [])"

fun starts_with :: "string \<Rightarrow> string \<Rightarrow> bool" where
  "starts_with s [] = True"
| "starts_with [] (c # cs) = False"
| "starts_with (x # xs) (c # cs) = (x = c \<and> starts_with xs cs)"

fun js_includes :: "string \<Rightarrow> string \<Rightarrow> bool" where
  "js_includes [] sub = (sub = [])"
| "js_includes (x # xs) sub = (starts_with (x # xs) sub \<or> js_includes xs sub)"

fun split_char :: "char \<Rightarrow> string \<Rightarrow> string list" where
  "split_char c [] = [[]]"
| "split_char c (x # xs) =
     (if x = c then [] # split_char c xs
      else (case split_char c xs of r # rs \<Rightarrow> (x # r) # rs | [] \<Rightarrow> [[x]]))"

fun join_with :: "string \<Rightarrow> string list \<Rightarrow> string" where
  "join_with sep [] = []"
| "join_with sep [x] = x"
| "join_with sep (x # y # ys) = x @ sep @ join_with sep (y # ys)"

definition to_lower_char :: "char \<Rightarrow> char" where
  "to_lower_char c =
     (case map_of (zip ''ABCDEFGHIJKLMNOPQRSTUVWXYZ'' ''abcdefghijklmnopqrstuvwxyz'') c of
        Some l \<Rightarrow> l
      | None \<Rightarrow> c)"

definition toLowerCase :: "string \<Rightarrow> string" where
  "toLowerCase s = map to_lower_char s"

subsection \<open>Plain objects used as records\<close>

text \<open>
  A \<open>Record<string, string>\<close> is an association list in the order in which
  \<open>Object.keys\<close> enumerates it: keys that are array indices first, ascending, then
  the other keys in insertion order. Assigning the key \<open>__proto__\<close> a string
  creates no property.
\<close>

type_synonym obj = "(string \<times> string) list"

definition is_digit :: "char \<Rightarrow> bool" where
  "is_digit c = (48 \<le> (of_char c :: nat) \<and> (of_char c :: nat) \<le> 57)"

definition digits_value :: "string \<Rightarrow> nat" where
  "digits_value s = foldl (\<lambda>n c. 10 * n + ((of_char c :: nat) - 48)) 0 s"

definition is_array_index :: "string \<Rightarrow> bool" where
  "is_array_index s =
     (s \<noteq> [] \<and> list_all is_digit s \<and> (length s = 1 \<or> hd s \<noteq> CHR ''0'')
      \<and> digits_value s < 4294967295)"

fun insert_index :: "string \<Rightarrow> string \<Rightarrow> obj \<Rightarrow> obj" where
  "insert_index k v [] = [(k, v)]"
| "insert_index k v ((k', v') # r) =
     (if is_array_index k' \<and> digits_value k' < digits_value k
      then (k', v') # insert_index k v r
      else (k, v) # (k', v') # r)"

definition js_keys :: "obj \<Rightarrow> string list" where
  "js_keys ob = map fst ob"

definition js_values :: "obj \<Rightarrow> string list" where
  "js_values ob = map snd ob"

text \<open>
  A read \<open>ob[k]\<close> with a computed key finds an own property or else a member that
  every plain object inherits from \<open>Object.prototype\<close>. Such a member is a function,
  or for \<open>__proto__\<close> the prototype object itself; it is truthy, it equals no string,
  and \<open>js_to_string\<close> is the text it has inside a template literal. A value that
  the code takes for a model name is therefore a string or such a member.
\<close>

datatype js_value = Str string | Inherited string

definition Object_prototype :: "string list" where
  "Object_prototype =
     [''constructor'', ''__defineGetter__'', ''__defineSetter__'', ''hasOwnProperty'',
      ''__lookupGetter__'', ''__lookupSetter__'', ''isPrototypeOf'', ''propertyIsEnumerable'',
      ''toString'', ''valueOf'', ''__proto__'', ''toLocaleString'']"

definition js_get :: "obj \<Rightarrow> string \<Rightarrow> js_value option" where
  "js_get ob k =
     (case map_of ob k of
        Some v \<Rightarrow> Some (Str v)
      | None \<Rightarrow> if k \<in> set Object_prototype then Some (Inherited k) else None)"

definition truthy_value :: "js_value option \<Rightarrow> bool" where
  "truthy_value v =
     (case v of None \<Rightarrow> False | Some (Str s) \<Rightarrow> s \<noteq> [] | Some (Inherited k) \<Rightarrow> True)"

definition value_or :: "js_value option \<Rightarrow> js_value option \<Rightarrow> js_value option" where
  "value_or a b = (if truthy_value a then a else b)"

definition js_to_string :: "js_value \<Rightarrow> string" where
  "js_to_string v =
     (case v of
        Str s \<Rightarrow> s
      | Inherited k \<Rightarrow>
          if k = ''__proto__'' then ''[object Object]''
          else ''function '' @ (if k = ''constructor'' then ''Object'' else k)
                 @ ''() { [native code] }'')"

definition includes_value :: "string list \<Rightarrow> js_value \<Rightarrow> bool" where
  "includes_value xs v = (case v of Str s \<Rightarrow> s \<in> set xs | Inherited k \<Rightarrow> False)"

definition js_set :: "obj \<Rightarrow> string \<Rightarrow> string \<Rightarrow> obj" where
  "js_set ob k v =
     (if k = ''__proto__'' then ob
      else if k \<in> set (js_keys ob)
        then map (\<lambda>(k', v'). if k' = k then (k', v) else (k', v')) ob
      else if is_array_index k then insert_index k v ob
      else ob @ [(k, v)])"

section \<open>Provider identities and capability descriptors (providers/base.ts)\<close>

datatype ProviderType = OPENAI | STABILITY | REPLICATE | HUGGINGFACE

fun provider_id :: "ProviderType \<Rightarrow> string" where
  "provider_id OPENAI = ''openai''"
| "provider_id STABILITY = ''stability''"
| "provider_id REPLICATE = ''replicate''"
| "provider_id HUGGINGFACE = ''huggingface''"

fun provider_name :: "ProviderType \<Rightarrow> string" where
  "provider_name OPENAI = ''OpenAI''"
| "provider_name STABILITY = ''Stability AI''"
| "provider_name REPLICATE = ''Replicate''"
| "provider_name HUGGINGFACE = ''Hugging Face''"

fun envKey :: "ProviderType \<Rightarrow> string" where
  "envKey OPENAI = ''OPENAI_API_KEY''"
| "envKey STABILITY = ''STABILITY_API_KEY''"
| "envKey REPLICATE = ''REPLICATE_API_TOKEN''"
| "envKey HUGGINGFACE = ''HUGGINGFACE_API_KEY''"

record ProviderConfig =
  apiKey :: "string option"
  allowedModels :: "string list option"

text \<open>
  A constructed client: its class, its credential and its exposed catalog
  (\<open>this.allowedModels\<close>). \<open>console.warn\<close> calls are returned as a list.
\<close>

record provider =
  ptype :: ProviderType
  credential :: string
  catalog :: obj

datatype warning =
    is_InitFailed: InitFailed ProviderType string
  | UnknownModel ProviderType string
  | NoValidModels ProviderType

section \<open>Model catalogs\<close>

definition OPENAI_MODELS :: obj where
  "OPENAI_MODELS =
     [(''GPT_IMAGE'', ''gpt-image-1''), (''DALLE2'', ''dall-e-2''), (''DALLE3'', ''dall-e-3'')]"

definition STABILITY_MODELS :: obj where
  "STABILITY_MODELS =
     [(''STABLE_DIFFUSION_XL'', ''stable-diffusion-xl-1024-v1-0''),
      (''STABLE_DIFFUSION_V2_1'', ''stable-diffusion-v2-1''),
      (''STABLE_DIFFUSION_V1_6'', ''stable-diffusion-v1-6''),
      (''STABLE_DIFFUSION_512_V2_1'', ''stable-diffusion-512-v2-1'')]"

definition REPLICATE_MODELS :: obj where
  "REPLICATE_MODELS =
     [(''STABLE_DIFFUSION_XL'',
       ''stability-ai/sdxl:7762fd07cf82c948538e41f63f77d685e02b063e37e496e96eefd46c929f9bdc''),
      (''STABLE_DIFFUSION'',
       ''stability-ai/stable-diffusion:27b93a2413e7f36cd83da926f3656280b2931564ff050bf9575f1fdf9bcd7478''),
      (''FLUX_SCHNELL'',
       ''black-forest-labs/flux-schnell:bf2f2b6c6d3c4f7b7c5e8c6f4d2f1e6b8a9c0e8f''),
      (''PLAYGROUND_V2_5'',
       ''playgroundai/playground-v2.5-1024px-aesthetic:a45f82a1382bed5c7aeb861dac7c7d191b0fdf74d8d57c4a0e6ed7d4d0bf7d24''),
      (''KANDINSKY_2_2'',
       ''ai-forever/kandinsky-2.2:ad9d7879fbffa2874e1d909d1d37d9bc682889cc65b31f7bb00d2362619f194a'')]"

definition HUGGINGFACE_MODELS :: obj where
  "HUGGINGFACE_MODELS =
     [(''STABLE_DIFFUSION_XL'', ''stabilityai/stable-diffusion-xl-base-1.0''),
      (''STABLE_DIFFUSION_2_1'', ''stabilityai/stable-diffusion-2-1''),
      (''DALLE_MINI'', ''dalle-mini/dalle-mini''),
      (''FLUX_SCHNELL'', ''black-forest-labs/FLUX.1-schnell''),
      (''STABLE_DIFFUSION_3'', ''stabilityai/stable-diffusion-3-medium-diffusers''),
      (''PLAYGROUND_V2_5'', ''playgroundai/playground-v2.5-1024px-aesthetic'')]"

section \<open>Client constructors\<close>

text \<open>
  The \<open>forEach\<close> over the allow-list, shared by the four constructors: \<open>hit\<close> is
  the predicate given to \<open>find\<close> over the entries of the default catalog; an entry
  without a match is passed through as its own key and value when \<open>passthrough\<close>
  holds (Replicate, Hugging Face) and otherwise dropped with a warning (OpenAI,
  Stability).
\<close>

fun select_models ::
  "ProviderType \<Rightarrow> obj \<Rightarrow> (string \<Rightarrow> string \<times> string \<Rightarrow> bool) \<Rightarrow> bool \<Rightarrow>
   string list \<Rightarrow> obj \<Rightarrow> warning list \<Rightarrow> obj \<times> warning list" where
  "select_models pt defaults hit passthrough [] acc ws = (acc, ws)"
| "select_models pt defaults hit passthrough (modelName # rest) acc ws =
     (case find (hit modelName) defaults of
        Some (k, v) \<Rightarrow> select_models pt defaults hit passthrough rest (js_set acc k v) ws
      | None \<Rightarrow>
          if passthrough
          then select_models pt defaults hit passthrough rest (js_set acc modelName modelName) ws
          else select_models pt defaults hit passthrough rest acc
                 (ws @ [UnknownModel pt modelName]))"

definition choose_catalog ::
  "ProviderType \<Rightarrow> obj \<Rightarrow> obj \<Rightarrow> (string \<Rightarrow> string \<times> string \<Rightarrow> bool) \<Rightarrow> bool \<Rightarrow>
   string list option \<Rightarrow> obj \<times> warning list" where
  "choose_catalog pt defaults fallback hit passthrough allow =
     (case allow of
        None \<Rightarrow> (defaults, [])
      | Some ms \<Rightarrow>
          if length ms > 0 then
            (case select_models pt defaults hit passthrough ms [] [] of
               (acc, ws) \<Rightarrow>
                 if length (js_keys acc) = 0 then (fallback, ws @ [NoValidModels pt])
                 else (acc, ws))
          else (defaults, []))"

definition by_value :: "string \<Rightarrow> string \<times> string \<Rightarrow> bool" where
  "by_value modelName e = (snd e = modelName)"

definition replicate_hit :: "string \<Rightarrow> string \<times> string \<Rightarrow> bool" where
  "replicate_hit modelName e =
     (js_includes (toLowerCase (fst e)) (toLowerCase modelName) \<or> modelName = fst e)"

definition huggingface_hit :: "string \<Rightarrow> string \<times> string \<Rightarrow> bool" where
  "huggingface_hit modelName e = (snd e = modelName \<or> js_includes (snd e) modelName)"

definition OpenAIImageProvider ::
  "ProviderConfig \<Rightarrow> js_error + provider \<times> warning list" where
  "OpenAIImageProvider config =
     (if \<not> truthy (apiKey config) then Inl (Error ''OpenAI API key is required'')
      else case choose_catalog OPENAI OPENAI_MODELS OPENAI_MODELS by_value False
                  (allowedModels config) of
        (cat, ws) \<Rightarrow>
          Inr (\<lparr>ptype = OPENAI, credential = the (apiKey config), catalog = cat\<rparr>, ws))"

definition StabilityImageProvider ::
  "ProviderConfig \<Rightarrow> js_error + provider \<times> warning list" where
  "StabilityImageProvider config =
     (if \<not> truthy (apiKey config) then Inl (Error ''Stability AI API key is required'')
      else case choose_catalog STABILITY STABILITY_MODELS STABILITY_MODELS by_value False
                  (allowedModels config) of
        (cat, ws) \<Rightarrow>
          Inr (\<lparr>ptype = STABILITY, credential = the (apiKey config), catalog = cat\<rparr>, ws))"

definition ReplicateImageProvider ::
  "ProviderConfig \<Rightarrow> js_error + provider \<times> warning list" where
  "ReplicateImageProvider config =
     (if \<not> truthy (apiKey config) then Inl (Error ''Replicate API token is required'')
      else case choose_catalog REPLICATE REPLICATE_MODELS [(''STABLE_DIFFUSION_XL'', the (map_of REPLICATE_MODELS ''STABLE_DIFFUSION_XL''))]
                  replicate_hit True (allowedModels config) of
        (cat, ws) \<Rightarrow>
          Inr (\<lparr>ptype = REPLICATE, credential = the (apiKey config), catalog = cat\<rparr>, ws))"

definition HuggingFaceImageProvider ::
  "ProviderConfig \<Rightarrow> js_error + provider \<times> warning list" where
  "HuggingFaceImageProvider config =
     (if \<not> truthy (apiKey config) then Inl (Error ''Hugging Face API token is required'')
      else case choose_catalog HUGGINGFACE HUGGINGFACE_MODELS [(''STABLE_DIFFUSION_XL'', the (map_of HUGGINGFACE_MODELS ''STABLE_DIFFUSION_XL''))]
                  huggingface_hit True (allowedModels config) of
        (cat, ws) \<Rightarrow>
          Inr (\<lparr>ptype = HUGGINGFACE, credential = the (apiKey config), catalog = cat\<rparr>, ws))"

definition getAllowedModels :: "provider \<Rightarrow> obj" where
  "getAllowedModels p = catalog p"

definition getDefaultModel :: "provider \<Rightarrow> string option" where
  "getDefaultModel p = (case js_values (catalog p) of [] \<Rightarrow> None | v # _ \<Rightarrow> Some v)"

section \<open>The provider factory (providerFactory.ts)\<close>

record MultiProviderConfig =
  providers :: "ProviderType list"
  defaultProvider :: "ProviderType option"
  providerSettings :: "ProviderType \<Rightarrow> string list option"

text \<open>
  The registry: \<open>this.providers\<close> is a \<open>Map\<close>, an association list in
  insertion order; \<open>Map.set\<close> on a key already present replaces the value in place.
\<close>

record factory =
  live :: "(ProviderType \<times> provider) list"
  current_default :: "ProviderType option"

definition map_has :: "(ProviderType \<times> provider) list \<Rightarrow> ProviderType \<Rightarrow> bool" where
  "map_has m k = (k \<in> set (map fst m))"

definition map_set ::
  "(ProviderType \<times> provider) list \<Rightarrow> ProviderType \<Rightarrow> provider \<Rightarrow> (ProviderType \<times> provider) list"
  where
  "map_set m k v =
     (if map_has m k then map (\<lambda>(k', v'). if k' = k then (k', v) else (k', v')) m
      else m @ [(k, v)])"

definition createProvider ::
  "(string \<Rightarrow> string option) \<Rightarrow> MultiProviderConfig \<Rightarrow> ProviderType \<Rightarrow>
   js_error + provider \<times> warning list" where
  "createProvider env cfg providerType =
     (let key = env (envKey providerType) in
      if \<not> truthy key
      then Inl (Error (envKey providerType @ '' environment variable is required for ''
                        @ provider_name providerType))
      else
        (let config = \<lparr>apiKey = key, allowedModels = providerSettings cfg providerType\<rparr> in
         case providerType of
           OPENAI \<Rightarrow> OpenAIImageProvider config
         | STABILITY \<Rightarrow> StabilityImageProvider config
         | REPLICATE \<Rightarrow> ReplicateImageProvider config
         | HUGGINGFACE \<Rightarrow> HuggingFaceImageProvider config))"

fun init_loop ::
  "(string \<Rightarrow> string option) \<Rightarrow> MultiProviderConfig \<Rightarrow> ProviderType list \<Rightarrow>
   (ProviderType \<times> provider) list \<Rightarrow> warning list \<Rightarrow>
   (ProviderType \<times> provider) list \<times> warning list" where
  "init_loop env cfg [] m ws = (m, ws)"
| "init_loop env cfg (providerType # rest) m ws =
     (case createProvider env cfg providerType of
        Inr (p, ws') \<Rightarrow> init_loop env cfg rest (map_set m providerType p) (ws @ ws')
      | Inl e \<Rightarrow>
          init_loop env cfg rest m (ws @ [InitFailed providerType (error_text e)]))"

definition initializeProviders ::
  "(string \<Rightarrow> string option) \<Rightarrow> MultiProviderConfig \<Rightarrow> ProviderType option \<Rightarrow>
   (js_error + factory) \<times> warning list" where
  "initializeProviders env cfg dflt =
     (case init_loop env cfg (providers cfg) [] [] of
        (m, ws) \<Rightarrow>
          if length m = 0
          then (Inl (Error ''No providers were successfully initialized. Please check your configuration and API keys.''), ws)
          else if \<not> (case dflt of None \<Rightarrow> False | Some d \<Rightarrow> map_has m d)
          then (case m of
                  (firstProvider, _) # _ \<Rightarrow>
                    (Inr \<lparr>live = m, current_default = Some firstProvider\<rparr>, ws)
                | [] \<Rightarrow> (Inl (Error ''No providers were successfully initialized''), ws))
          else (Inr \<lparr>live = m, current_default = dflt\<rparr>, ws))"

definition ImageProviderFactory ::
  "(string \<Rightarrow> string option) \<Rightarrow> MultiProviderConfig \<Rightarrow> (js_error + factory) \<times> warning list"
  where
  "ImageProviderFactory env config =
     initializeProviders env config
       (case defaultProvider config of
          Some d \<Rightarrow> Some d
        | None \<Rightarrow> (case providers config of [] \<Rightarrow> None | p # _ \<Rightarrow> Some p))"

definition getAvailableProviders :: "factory \<Rightarrow> ProviderType list" where
  "getAvailableProviders f = map fst (live f)"

definition getProvider :: "factory \<Rightarrow> ProviderType option \<Rightarrow> js_error + provider" where
  "getProvider f providerType =
     (let targetProvider = (case providerType of Some p \<Rightarrow> Some p | None \<Rightarrow> current_default f) in
      case (case targetProvider of None \<Rightarrow> None | Some t \<Rightarrow> map_of (live f) t) of
        Some p \<Rightarrow> Inr p
      | None \<Rightarrow>
          Inl (Error (''Provider ''
                 @ (case targetProvider of None \<Rightarrow> ''undefined'' | Some t \<Rightarrow> provider_id t)
                 @ '' is not available. Available providers: ''
                 @ join_with '', '' (map provider_id (getAvailableProviders f)))))"

definition getDefaultProvider :: "factory \<Rightarrow> js_error + provider" where
  "getDefaultProvider f = getProvider f (current_default f)"

definition getAllProviderModels :: "factory \<Rightarrow> (string \<times> obj) list" where
  "getAllProviderModels f =
     map (\<lambda>(providerType, p).
            (provider_id providerType,
             map (\<lambda>(k, v). (provider_id providerType @ ''/'' @ k, v)) (getAllowedModels p)))
         (live f)"

definition lookup_or_self :: "obj \<Rightarrow> string \<Rightarrow> js_value" where
  "lookup_or_self models name =
     (if truthy_value (js_get models name) then the (js_get models name) else Str name)"

definition prefixed_match :: "factory \<Rightarrow> string \<Rightarrow> (provider \<times> js_value) option" where
  "prefixed_match f modelId =
     (if js_includes modelId ''/'' then
        (case take 2 (split_char CHR ''/'' modelId) of
           providerName # modelName # _ \<Rightarrow>
             (case find (\<lambda>(t, p). provider_id t = providerName) (live f) of
                Some (t, p) \<Rightarrow>
                  (let availableModels = getAllowedModels p in
                   if truthy_value (js_get availableModels modelName)
                      \<or> modelName \<in> set (js_values availableModels)
                   then Some (p, lookup_or_self availableModels modelName)
                   else None)
              | None \<Rightarrow> None)
         | _ \<Rightarrow> None)
      else None)"

definition getProviderFromModel :: "factory \<Rightarrow> string \<Rightarrow> js_error + provider \<times> js_value" where
  "getProviderFromModel f modelId =
     (case prefixed_match f modelId of
        Some r \<Rightarrow> Inr r
      | None \<Rightarrow>
          (case find (\<lambda>(t, p). modelId \<in> set (js_values (getAllowedModels p))
                               \<or> modelId \<in> set (js_keys (getAllowedModels p))) (live f) of
             Some (t, p) \<Rightarrow> Inr (p, lookup_or_self (getAllowedModels p) modelId)
           | None \<Rightarrow>
               (case getDefaultProvider f of
                  Inl e \<Rightarrow> Inl e
                | Inr p \<Rightarrow> Inr (p, Str modelId))))"

section \<open>Platform functions the code calls\<close>

text \<open>
  The Node.js library functions used by the persistence and edit code, for POSIX paths:
  \<open>Buffer.toString('base64')\<close>, \<open>Buffer.from(s, 'base64')\<close>, \<open>path.parse\<close>,
  \<open>path.join\<close>, \<open>path.basename\<close>, \<open>path.extname\<close> and
  \<open>String.prototype.split\<close> with a string separator.
\<close>

type_synonym bytes = "8 word list"

subsection \<open>Base64\<close>

definition b64_alphabet :: string where
  "b64_alphabet = ''ABCDEFGHIJKLMNOPQRSTUVWXYZabcdefghijklmnopqrstuvwxyz0123456789+/''"

definition b64_char :: "nat \<Rightarrow> char" where
  "b64_char i = b64_alphabet ! i"

text \<open>The decoder also accepts the URL-safe alphabet (\<open>-\<close> for 62, \<open>_\<close> for 63).\<close>

definition b64_index :: "char \<Rightarrow> nat option" where
  "b64_index c =
     (if c = CHR ''-'' then Some 62 else if c = CHR ''_'' then Some 63
      else map_of (zip b64_alphabet [0 ..< 64]) c)"

fun to_sextets :: "bytes \<Rightarrow> nat list" where
  "to_sextets [] = []"
| "to_sextets [a] = [unat a div 4, (unat a mod 4) * 16]"
| "to_sextets [a, b] =
     [unat a div 4, (unat a mod 4) * 16 + unat b div 16, (unat b mod 16) * 4]"
| "to_sextets (a # b # c # rest) =
     [unat a div 4, (unat a mod 4) * 16 + unat b div 16,
      (unat b mod 16) * 4 + unat c div 64, unat c mod 64] @ to_sextets rest"

definition base64_encode :: "bytes \<Rightarrow> string" where
  "base64_encode bs =
     map b64_char (to_sextets bs) @ replicate ((3 - length bs mod 3) mod 3) CHR ''=''"

fun from_sextets :: "nat list \<Rightarrow> bytes" where
  "from_sextets (s0 # s1 # s2 # s3 # rest) =
     [of_nat (s0 * 4 + s1 div 16), of_nat ((s1 mod 16) * 16 + s2 div 4),
      of_nat ((s2 mod 4) * 64 + s3)] @ from_sextets rest"
| "from_sextets [s0, s1, s2] =
     [of_nat (s0 * 4 + s1 div 16), of_nat ((s1 mod 16) * 16 + s2 div 4)]"
| "from_sextets [s0, s1] = [of_nat (s0 * 4 + s1 div 16)]"
| "from_sextets _ = []"

text \<open>
  Decoding stops at the first padding character and skips every character outside the
  two alphabets (white space among them).
\<close>

definition base64_decode :: "string \<Rightarrow> bytes" where
  "base64_decode s =
     from_sextets (List.map_filter b64_index (takeWhile (\<lambda>c. c \<noteq> CHR ''='') s))"

subsection \<open>Splitting at a separator string\<close>

function split_str :: "string \<Rightarrow> string \<Rightarrow> string \<Rightarrow> string list" where
  "split_str sep cur [] = [rev cur]"
| "split_str sep cur (x # xs) =
     (if sep \<noteq> [] \<and> starts_with (x # xs) sep
      then rev cur # split_str sep [] (drop (length sep) (x # xs))
      else split_str sep (x # cur) xs)"
  by pat_completeness auto
termination
  by (relation "measure (\<lambda>(sep, cur, s). length s)") auto

definition js_split :: "string \<Rightarrow> string \<Rightarrow> string list" where
  "js_split s sep = split_str sep [] s"

definition element_at :: "'a list \<Rightarrow> nat \<Rightarrow> 'a option" where
  "element_at xs i = (if i < length xs then Some (xs ! i) else None)"

subsection \<open>Paths\<close>

text \<open>
  \<open>path.parse\<close>, following the library's scan from the right end of the path:
  indices are integers and \<open>-1\<close> means "not seen yet".
\<close>

record parse_state =
  startDot :: int
  startPart :: int
  end_idx :: int
  matchedSlash :: bool
  preDotState :: int

function parse_scan :: "string \<Rightarrow> int \<Rightarrow> int \<Rightarrow> parse_state \<Rightarrow> parse_state" where
  "parse_scan path start i st =
     (if i < start \<or> i < 0 then st
      else if path ! nat i = CHR ''/'' then
        (if \<not> matchedSlash st then st\<lparr>startPart := i + 1\<rparr>
         else parse_scan path start (i - 1) st)
      else
        (let st1 = (if end_idx st = -1 then st\<lparr>matchedSlash := False, end_idx := i + 1\<rparr> else st);
             st2 = (if path ! nat i = CHR ''.'' then
                      (if startDot st1 = -1 then st1\<lparr>startDot := i\<rparr>
                       else if preDotState st1 \<noteq> 1 then st1\<lparr>preDotState := 1\<rparr> else st1)
                    else if startDot st1 \<noteq> -1 then st1\<lparr>preDotState := -1\<rparr> else st1)
         in parse_scan path start (i - 1) st2))"
  by pat_completeness auto
termination
  by (relation "measure (\<lambda>(path, start, i, st). nat (i + 1))") auto

definition slice :: "string \<Rightarrow> int \<Rightarrow> int \<Rightarrow> string" where
  "slice s a b = take (nat b - nat a) (drop (nat a) s)"

record parsed_path =
  dir :: string
  base :: string
  ext :: string

definition path_parse :: "string \<Rightarrow> parsed_path" where
  "path_parse path =
     (if length path = 0 then \<lparr>dir = [], base = [], ext = []\<rparr>
      else
        (let isAbsolute = (hd path = CHR ''/'');
             start = (if isAbsolute then 1 else 0);
             st = parse_scan path start (int (length path) - 1)
                    \<lparr>startDot = -1, startPart = 0, end_idx = -1, matchedSlash = True,
                     preDotState = 0\<rparr>;
             from = (if startPart st = 0 \<and> isAbsolute then 1 else startPart st);
             no_ext = (startDot st = -1 \<or> preDotState st = 0
                       \<or> (preDotState st = 1 \<and> startDot st = end_idx st - 1
                           \<and> startDot st = startPart st + 1));
             b = (if end_idx st \<noteq> -1 then slice path from (end_idx st) else []);
             e = (if end_idx st \<noteq> -1 \<and> \<not> no_ext then slice path (startDot st) (end_idx st)
                  else []);
             d = (if startPart st > 0 then slice path 0 (startPart st - 1)
                  else if isAbsolute then ''/'' else [])
         in \<lparr>dir = d, base = b, ext = e\<rparr>))"

text \<open>\<open>path.normalize\<close> and \<open>path.join\<close> of two segments.\<close>

fun normalize_segments :: "bool \<Rightarrow> string list \<Rightarrow> string list \<Rightarrow> string list" where
  "normalize_segments allowAboveRoot [] acc = rev acc"
| "normalize_segments allowAboveRoot (s # ss) acc =
     (if s = [] \<or> s = ''.'' then normalize_segments allowAboveRoot ss acc
      else if s = ''..'' then
        (case acc of
           [] \<Rightarrow> normalize_segments allowAboveRoot ss (if allowAboveRoot then [''..''] else [])
         | t # ts \<Rightarrow>
             if t = ''..'' then normalize_segments allowAboveRoot ss (''..'' # acc)
             else normalize_segments allowAboveRoot ss ts)
      else normalize_segments allowAboveRoot ss (s # acc))"

definition path_normalize :: "string \<Rightarrow> string" where
  "path_normalize path =
     (if length path = 0 then ''.''
      else
        (let isAbsolute = (hd path = CHR ''/'');
             trailingSeparator = (last path = CHR ''/'');
             p = join_with ''/'' (normalize_segments (\<not> isAbsolute) (split_char CHR ''/'' path) [])
         in if length p = 0
            then (if isAbsolute then ''/'' else if trailingSeparator then ''./'' else ''.'')
            else (if isAbsolute then ''/'' else []) @ p
                 @ (if trailingSeparator then ''/'' else [])))"

definition path_join :: "string \<Rightarrow> string \<Rightarrow> string" where
  "path_join a b =
     (case filter (\<lambda>s. length s > 0) [a, b] of
        [] \<Rightarrow> ''.''
      | parts \<Rightarrow> path_normalize (join_with ''/'' parts))"

definition path_basename :: "string \<Rightarrow> string" where
  "path_basename path =
     rev (takeWhile (\<lambda>c. c \<noteq> CHR ''/'') (dropWhile (\<lambda>c. c = CHR ''/'') (rev path)))"

text \<open>
  \<open>path.extname\<close> scans the whole path, so the last component is found after the
  last separator also when that is the leading one.
\<close>

definition path_extname :: "string \<Rightarrow> string" where
  "path_extname path =
     (let b = path_basename path;
          dots = filter (\<lambda>i. b ! i = CHR ''.'') [0 ..< length b]
      in if dots = [] \<or> last dots = 0 \<or> b = ''..'' then [] else drop (last dots) b)"


section \<open>Requests, responses and the outside world\<close>

text \<open>
  An optional property of a request object is \<open>Omitted\<close> when the key is absent,
  \<open>Undefined\<close> when the key is present with the value \<open>undefined\<close>, and
  \<open>Given v\<close> otherwise. The spread \<open>{ ...defaults, ...params }\<close> keeps a default
  only for an omitted key. The field \<open>num\<close> is the source's \<open>n\<close>,
  \<open>img_size\<close> its \<open>size\<close> and \<open>param_outputPath\<close> its \<open>outputPath\<close>;
  numbers are integers. The model of a request is whatever the caller hands over: a
  string, or a member of \<open>Object.prototype\<close> that the registry has looked up.
\<close>

datatype 'a field = Omitted | Undefined | Given 'a

definition defined :: "'a field \<Rightarrow> 'a option" where
  "defined f = (case f of Given v \<Rightarrow> Some v | _ \<Rightarrow> None)"

definition spread :: "'a option \<Rightarrow> 'a field \<Rightarrow> 'a option" where
  "spread dflt f = (case f of Omitted \<Rightarrow> dflt | Undefined \<Rightarrow> None | Given v \<Rightarrow> Some v)"

definition or_else :: "string option \<Rightarrow> string option \<Rightarrow> string option" where
  "or_else a b = (if truthy a then a else b)"

record CommonParams =
  prompt :: string
  model :: "js_value field"
  num :: "int field"
  img_size :: "string field"
  quality :: "string field"
  response_format :: "string field"
  output_format :: "string field"
  output_compression :: "int field"
  user :: "string field"
  param_outputPath :: "string field"

record ImageGenerationParams = CommonParams +
  style :: "string field"
  background :: "string field"
  moderation :: "string field"

record ImageEditParams = CommonParams +
  images :: "string list"
  mask :: "string field"

record ImageObject =
  url :: "string option"
  b64_json :: "string option"
  revised_prompt :: "string option"

record ImageGenerationResponse =
  created :: int
  data :: "ImageObject list"

text \<open>
  The request object after the spread, as it is validated and serialised: \<open>None\<close>
  is \<open>undefined\<close>, which \<open>JSON.stringify\<close> leaves out.
\<close>

record generation_body =
  rq_prompt :: string
  rq_model :: "js_value option"
  rq_n :: "int option"
  rq_size :: "string option"
  rq_response_format :: "string option"
  rq_style :: "string option"
  rq_background :: "string option"
  rq_quality :: "string option"
  rq_output_format :: "string option"
  rq_output_compression :: "int option"
  rq_moderation :: "string option"
  rq_user :: "string option"
  rq_outputPath :: "string option"

text \<open>
  The parts of a multipart form: a file with its name, a text, and a number appended
  as its own \<open>toString()\<close>, which is kept as the number.
\<close>

datatype form_part =
    FilePart string bytes string
  | TextPart string string
  | NumberPart string int

datatype request_payload =
    JsonBody generation_body
  | FormBody "form_part list"

record http_request =
  target :: string
  authorization :: string
  payload :: request_payload

text \<open>
  What \<open>fetch\<close> resolves to, as far as the code looks at it: a response that is not
  \<open>ok\<close>, with the message found in its JSON body (if any) and its status text; an
  \<open>ok\<close> response with its JSON body; or a response whose body is not JSON.
\<close>

datatype 'a http_reply =
    NotOk "string option" string
  | Ok 'a
  | BodyNotJson string

text \<open>
  Calls that leave the process, in the order issued. The backends and the file system
  answer through the functions of \<open>world\<close>; \<open>readFileSync\<close> answers
  \<open>Inl message\<close>, and \<open>mkdirSync\<close> and \<open>writeFileSync\<close> answer
  \<open>Some message\<close>, when they throw.
\<close>

record replicate_input =
  in_prompt :: string
  in_image :: "string option"
  in_mask :: "string option"
  in_num_outputs :: int
  in_size :: "string option"

record hf_request =
  hf_model :: js_value
  hf_inputs :: "bytes option"
  hf_prompt :: string

datatype net_call =
    Fetch http_request
  | ReplicateRun js_value replicate_input
  | Download string
  | ImageToImage hf_request
  | TextToImage hf_request

record world =
  existsSync :: "string \<Rightarrow> bool"
  readFileSync :: "string \<Rightarrow> string + bytes"
  mkdirSync_throws :: "string \<Rightarrow> string option"
  writeFileSync_throws :: "string \<Rightarrow> string option"
  now :: int
  fetch_images :: "http_request \<Rightarrow> ImageGenerationResponse http_reply"
  fetch_artifacts :: "http_request \<Rightarrow> string list http_reply"
  replicate_run :: "js_value \<Rightarrow> replicate_input \<Rightarrow> js_error + string list"
  download :: "string \<Rightarrow> js_error + bytes"
  imageToImage :: "hf_request \<Rightarrow> js_error + bytes"
  textToImage :: "hf_request \<Rightarrow> js_error + bytes"

definition validateParams :: "string \<Rightarrow> js_error option" where
  "validateParams p = (if p = [] then Some (Error ''Prompt is required'') else None)"

section \<open>The OpenAI client (providers/openaiProvider.ts)\<close>

definition OpenAI_baseUrl :: string where
  "OpenAI_baseUrl = ''https://api.openai.com/v1/images/generations''"

definition OpenAI_editUrl :: string where
  "OpenAI_editUrl = ''https://api.openai.com/v1/images/edits''"

definition model_not_allowed :: "js_value option \<Rightarrow> string list \<Rightarrow> js_error" where
  "model_not_allowed m allowed =
     Error (''Model '' @ [CHR 0x22]
            @ (case m of None \<Rightarrow> ''undefined'' | Some v \<Rightarrow> js_to_string v)
            @ [CHR 0x22] @ '' is not allowed. Allowed models: ''
            @ join_with '', '' allowed)"

definition api_reply :: "string \<Rightarrow> 'a http_reply \<Rightarrow> js_error + 'a" where
  "api_reply label r =
     (case r of
        NotOk m statusText \<Rightarrow>
          Inl (Error (label @ '' API error: '' @ (if truthy m then the m else statusText)))
      | Ok b \<Rightarrow> Inr b
      | BodyNotJson m \<Rightarrow> Inl (SystemError m))"

definition generation_requestParams :: "provider \<Rightarrow> ImageGenerationParams \<Rightarrow> generation_body" where
  "generation_requestParams p params =
     \<lparr>rq_prompt = prompt params,
      rq_model = spread (map_option Str (getDefaultModel p)) (model params),
      rq_n = spread (Some 1) (num params),
      rq_size = spread (Some ''1024x1024'') (img_size params),
      rq_response_format = spread (Some ''b64_json'') (response_format params),
      rq_style = spread (Some ''vivid'') (style params),
      rq_background = spread (Some ''auto'') (background params),
      rq_quality = spread (Some ''auto'') (quality params),
      rq_output_format = spread (Some ''png'') (output_format params),
      rq_output_compression = spread (Some 100) (output_compression params),
      rq_moderation = spread (Some ''low'') (moderation params),
      rq_user = spread None (user params),
      rq_outputPath = spread None (param_outputPath params)\<rparr>"

definition OpenAIImageProvider_generateImages ::
  "provider \<Rightarrow> world \<Rightarrow> ImageGenerationParams \<Rightarrow>
   (js_error + ImageGenerationResponse) \<times> net_call list" where
  "OpenAIImageProvider_generateImages p w params =
     (case validateParams (prompt params) of
        Some e \<Rightarrow> (Inl e, [])
      | None \<Rightarrow>
          (let requestParams = generation_requestParams p params in
           if truthy_value (rq_model requestParams)
              \<and> \<not> includes_value (js_values (catalog p)) (the (rq_model requestParams))
           then (Inl (model_not_allowed (rq_model requestParams) (js_values (catalog p))), [])
           else if rq_model requestParams = Some (Str ''dall-e-3'')
                   \<and> (case rq_n requestParams of None \<Rightarrow> False | Some k \<Rightarrow> k \<noteq> 0 \<and> k > 1)
           then (Inl (Error ''dall-e-3 model only supports n=1''), [])
           else
             (let requestParams =
                    (if rq_model requestParams \<noteq> Some (Str ''dall-e-3'')
                     then requestParams\<lparr>rq_style := None\<rparr> else requestParams) in
              if rq_model requestParams = Some (Str ''dall-e-2'') \<and> truthy (rq_size requestParams)
                 \<and> rq_size requestParams \<noteq> Some ''256x256''
                 \<and> rq_size requestParams \<noteq> Some ''512x512''
                 \<and> rq_size requestParams \<noteq> Some ''1024x1024''
              then (Inl (Error ''dall-e-2 only supports sizes 256x256, 512x512, or 1024x1024''), [])
              else if rq_model requestParams = Some (Str ''dall-e-3'') \<and> truthy (rq_size requestParams)
                 \<and> rq_size requestParams \<noteq> Some ''1024x1024''
                 \<and> rq_size requestParams \<noteq> Some ''1792x1024''
                 \<and> rq_size requestParams \<noteq> Some ''1024x1792''
              then (Inl (Error ''dall-e-3 only supports sizes 1024x1024, 1792x1024, or 1024x1792''), [])
              else if rq_background requestParams = Some ''transparent''
                 \<and> truthy (rq_output_format requestParams)
                 \<and> rq_output_format requestParams \<noteq> Some ''png''
                 \<and> rq_output_format requestParams \<noteq> Some ''webp''
              then (Inl (Error ''When background is transparent, output_format must be png or webp''), [])
              else
                (let cleanedParams =
                       (if rq_model requestParams \<noteq> Some (Str ''dall-e-2'')
                           \<and> rq_model requestParams \<noteq> Some (Str ''dall-e-3'')
                        then requestParams\<lparr>rq_response_format := None\<rparr> else requestParams);
                     request = \<lparr>target = OpenAI_baseUrl,
                                authorization = ''Bearer '' @ credential p,
                                payload = JsonBody cleanedParams\<rparr>
                 in (api_reply ''OpenAI'' (fetch_images w request), [Fetch request])))))"

text \<open>
  The earlier stand-alone client (libs/openaiImageClient.ts): the same checks in the
  same order, with the prompt check written inline.
\<close>

definition OpenAIImageClient_generateImages ::
  "provider \<Rightarrow> world \<Rightarrow> ImageGenerationParams \<Rightarrow>
   (js_error + ImageGenerationResponse) \<times> net_call list" where
  "OpenAIImageClient_generateImages p w params =
     (if prompt params = [] then (Inl (Error ''Prompt is required''), [])
      else
        (let params1 = generation_requestParams p params in
         if truthy_value (rq_model params1)
            \<and> \<not> includes_value (js_values (catalog p)) (the (rq_model params1))
         then (Inl (model_not_allowed (rq_model params1) (js_values (catalog p))), [])
         else if rq_model params1 = Some (Str ''dall-e-3'')
                 \<and> (case rq_n params1 of None \<Rightarrow> False | Some k \<Rightarrow> k \<noteq> 0 \<and> k > 1)
         then (Inl (Error ''dall-e-3 model only supports n=1''), [])
         else
           (let params2 =
                  (if rq_model params1 \<noteq> Some (Str ''dall-e-3'')
                   then params1\<lparr>rq_style := None\<rparr> else params1) in
            if rq_model params2 = Some (Str ''dall-e-2'') \<and> truthy (rq_size params2)
               \<and> rq_size params2 \<noteq> Some ''256x256''
               \<and> rq_size params2 \<noteq> Some ''512x512''
               \<and> rq_size params2 \<noteq> Some ''1024x1024''
            then (Inl (Error ''dall-e-2 only supports sizes 256x256, 512x512, or 1024x1024''), [])
            else if rq_model params2 = Some (Str ''dall-e-3'') \<and> truthy (rq_size params2)
               \<and> rq_size params2 \<noteq> Some ''1024x1024''
               \<and> rq_size params2 \<noteq> Some ''1792x1024''
               \<and> rq_size params2 \<noteq> Some ''1024x1792''
            then (Inl (Error ''dall-e-3 only supports sizes 1024x1024, 1792x1024, or 1024x1792''), [])
            else if rq_background params2 = Some ''transparent''
               \<and> truthy (rq_output_format params2)
               \<and> rq_output_format params2 \<noteq> Some ''png''
               \<and> rq_output_format params2 \<noteq> Some ''webp''
            then (Inl (Error ''When background is transparent, output_format must be png or webp''), [])
            else
              (let requestParams =
                     (if rq_model params2 \<noteq> Some (Str ''dall-e-2'') \<and> rq_model params2 \<noteq> Some (Str ''dall-e-3'')
                      then params2\<lparr>rq_response_format := None\<rparr> else params2);
                   request = \<lparr>target = OpenAI_baseUrl,
                              authorization = ''Bearer '' @ credential p,
                              payload = JsonBody requestParams\<rparr>
               in (api_reply ''OpenAI'' (fetch_images w request), [Fetch request])))))"

subsection \<open>Editing\<close>

text \<open>
  The loop that checks and reads the source images, stopping at the first that is
  missing or unreadable.
\<close>

fun read_images :: "world \<Rightarrow> string list \<Rightarrow> js_error + (string \<times> bytes) list" where
  "read_images w [] = Inr []"
| "read_images w (filePath # rest) =
     (if \<not> existsSync w filePath then Inl (Error (''Image file not found: '' @ filePath))
      else case readFileSync w filePath of
        Inl m \<Rightarrow> Inl (SystemError m)
      | Inr buffer \<Rightarrow>
          (case read_images w rest of
             Inl e \<Rightarrow> Inl e
           | Inr files \<Rightarrow> Inr ((filePath, buffer) # files)))"

definition read_mask :: "world \<Rightarrow> string option \<Rightarrow> js_error + (string \<times> bytes) option" where
  "read_mask w m =
     (if truthy m then
        (if \<not> existsSync w (the m) then Inl (Error (''Mask file not found: '' @ the m))
         else case readFileSync w (the m) of
           Inl msg \<Rightarrow> Inl (SystemError msg)
         | Inr maskBuffer \<Rightarrow> Inr (Some (the m, maskBuffer)))
      else Inr None)"

definition text_part_if :: "string \<Rightarrow> string option \<Rightarrow> form_part list" where
  "text_part_if name v = (if truthy v then [TextPart name (the v)] else [])"

text \<open>The checks made before any file is looked at.\<close>

definition OpenAI_edit_checks :: "provider \<Rightarrow> ImageEditParams \<Rightarrow> js_error option" where
  "OpenAI_edit_checks p params =
     (if length (images params) = 0
      then Some (Error ''At least one image file path is required'')
      else case validateParams (prompt params) of
        Some e \<Rightarrow> Some e
      | None \<Rightarrow>
          (let m = spread (Some (Str ''gpt-image-1'')) (model params);
               sz = spread (Some ''1024x1024'') (img_size params)
           in
           if truthy_value m \<and> \<not> includes_value (js_values (catalog p)) (the m)
           then Some (model_not_allowed m (js_values (catalog p)))
           else if truthy_value m \<and> m \<noteq> Some (Str ''dall-e-2'') \<and> m \<noteq> Some (Str ''gpt-image-1'')
           then Some (Error ''Only dall-e-2 and gpt-image-1 are supported for image editing'')
           else if m = Some (Str ''dall-e-2'') \<and> length (images params) \<noteq> 1
           then Some (Error ''dall-e-2 only supports a single image for editing'')
           else if m = Some (Str ''dall-e-2'') \<and> truthy sz \<and> sz \<noteq> Some ''256x256''
                   \<and> sz \<noteq> Some ''512x512'' \<and> sz \<noteq> Some ''1024x1024''
           then Some (Error ''dall-e-2 only supports sizes 256x256, 512x512, or 1024x1024'')
           else None))"

definition OpenAIImageProvider_editImages ::
  "provider \<Rightarrow> world \<Rightarrow> ImageEditParams \<Rightarrow>
   (js_error + ImageGenerationResponse) \<times> net_call list" where
  "OpenAIImageProvider_editImages p w params =
     (case OpenAI_edit_checks p params of
        Some e \<Rightarrow> (Inl e, [])
      | None \<Rightarrow>
          (let m = spread (Some (Str ''gpt-image-1'')) (model params);
               k = spread (Some 1) (num params);
               sz = spread (Some ''1024x1024'') (img_size params);
               rf = spread (Some ''b64_json'') (response_format params);
               q = spread (Some ''auto'') (quality params)
           in
           case read_images w (images params) of
             Inl e \<Rightarrow> (Inl e, [])
           | Inr files \<Rightarrow>
               (case read_mask w (defined (mask params)) of
                  Inl e \<Rightarrow> (Inl e, [])
                | Inr maskFile \<Rightarrow>
                    (let formData =
                           map (\<lambda>(filePath, buffer).
                                  FilePart ''image[]'' buffer (path_basename filePath)) files
                           @ (case maskFile of
                                None \<Rightarrow> []
                              | Some (maskPath, maskBuffer) \<Rightarrow>
                                  [FilePart ''mask'' maskBuffer (path_basename maskPath)])
                           @ [TextPart ''prompt'' (prompt params)]
                           @ (if truthy_value m then [TextPart ''model'' (js_to_string (the m))]
                              else [])
                           @ (case k of
                                None \<Rightarrow> []
                              | Some j \<Rightarrow> if j \<noteq> 0 then [NumberPart ''n'' j] else [])
                           @ text_part_if ''size'' sz
                           @ (if m \<noteq> Some (Str ''gpt-image-1'') then text_part_if ''response_format'' rf
                              else [])
                           @ text_part_if ''quality'' q
                           @ text_part_if ''user'' (defined (user params));
                         request = \<lparr>target = OpenAI_editUrl,
                                    authorization = ''Bearer '' @ credential p,
                                    payload = FormBody formData\<rparr>
                     in (api_reply ''OpenAI'' (fetch_images w request), [Fetch request])))))"

text \<open>The conditions \<open>generateImages\<close> tests after the spread, by name.\<close>

definition not_allowed :: "provider \<Rightarrow> generation_body \<Rightarrow> bool" where
  "not_allowed p r =
     (truthy_value (rq_model r) \<and> \<not> includes_value (js_values (catalog p)) (the (rq_model r)))"

definition too_many :: "generation_body \<Rightarrow> bool" where
  "too_many r = (rq_model r = Some (Str ''dall-e-3'') \<and> (\<exists>k. rq_n r = Some k \<and> k > 1))"

definition bad_size2 :: "generation_body \<Rightarrow> bool" where
  "bad_size2 r = (rq_model r = Some (Str ''dall-e-2'') \<and> truthy (rq_size r)
            \<and> the (rq_size r) \<notin> {''256x256'', ''512x512'', ''1024x1024''})"

definition bad_size3 :: "generation_body \<Rightarrow> bool" where
  "bad_size3 r = (rq_model r = Some (Str ''dall-e-3'') \<and> truthy (rq_size r)
            \<and> the (rq_size r) \<notin> {''1024x1024'', ''1792x1024'', ''1024x1792''})"

definition bad_transparency :: "generation_body \<Rightarrow> bool" where
  "bad_transparency r = (rq_background r = Some ''transparent'' \<and> truthy (rq_output_format r)
            \<and> the (rq_output_format r) \<notin> {''png'', ''webp''})"


section \<open>Editing with the other clients\<close>

definition image_objects :: "string \<Rightarrow> string list \<Rightarrow> ImageObject list" where
  "image_objects p b64s =
     map (\<lambda>b. \<lparr>url = None, b64_json = Some b, revised_prompt = Some p\<rparr>) b64s"

subsection \<open>Stability (providers/stabilityProvider.ts)\<close>

definition Stability_baseUrl :: string where
  "Stability_baseUrl = ''https://api.stability.ai/v1''"

definition number_or_one :: "int field \<Rightarrow> int" where
  "number_or_one f = (case defined f of None \<Rightarrow> 1 | Some k \<Rightarrow> if k = 0 then 1 else k)"

definition Stability_edit_model :: "provider \<Rightarrow> ImageEditParams \<Rightarrow> js_error + string" where
  "Stability_edit_model p params =
     (if length (images params) = 0
      then Inl (Error ''At least one image file path is required'')
      else case validateParams (prompt params) of
        Some e \<Rightarrow> Inl e
      | None \<Rightarrow>
          (let m = value_or (defined (model params)) (map_option Str (getDefaultModel p)) in
           case m of
             Some (Str v) \<Rightarrow>
               if v \<in> set (js_values (catalog p)) then Inr v
               else Inl (model_not_allowed m (js_values (catalog p)))
           | _ \<Rightarrow> Inl (model_not_allowed m (js_values (catalog p)))))"

definition StabilityImageProvider_editImages ::
  "provider \<Rightarrow> world \<Rightarrow> ImageEditParams \<Rightarrow>
   (js_error + ImageGenerationResponse) \<times> net_call list" where
  "StabilityImageProvider_editImages p w params =
     (case Stability_edit_model p params of
        Inl e \<Rightarrow> (Inl e, [])
      | Inr m \<Rightarrow>
          (let imagePath = hd (images params) in
           if \<not> existsSync w imagePath
           then (Inl (Error (''Image file not found: '' @ imagePath)), [])
           else case readFileSync w imagePath of
             Inl msg \<Rightarrow> (Inl (SystemError msg), [])
           | Inr imageBuffer \<Rightarrow>
               (case read_mask w (defined (mask params)) of
                  Inl e \<Rightarrow> (Inl e, [])
                | Inr maskFile \<Rightarrow>
                    (let formData =
                           [TextPart ''text_prompts[0][text]'' (prompt params),
                            TextPart ''text_prompts[0][weight]'' ''1'',
                            FilePart ''init_image'' imageBuffer (path_basename imagePath)]
                           @ (case maskFile of
                                None \<Rightarrow> []
                              | Some (maskPath, maskBuffer) \<Rightarrow>
                                  [FilePart ''mask_image'' maskBuffer (path_basename maskPath)])
                           @ [TextPart ''cfg_scale'' ''7'',
                              NumberPart ''samples'' (number_or_one (num params)),
                              TextPart ''steps'' ''30''];
                         request = \<lparr>target = Stability_baseUrl @ ''/generation/'' @ m
                                               @ ''/image-to-image'',
                                    authorization = ''Bearer '' @ credential p,
                                    payload = FormBody formData\<rparr>
                     in (case api_reply ''Stability AI'' (fetch_artifacts w request) of
                           Inl e \<Rightarrow> Inl e
                         | Inr artifacts \<Rightarrow>
                             Inr \<lparr>created = now w,
                                  data = image_objects (prompt params) artifacts\<rparr>,
                         [Fetch request])))))"

subsection \<open>Replicate (providers/replicateProvider.ts)\<close>

definition getMimeType :: "string \<Rightarrow> string" where
  "getMimeType filePath =
     (let e = toLowerCase (path_extname filePath) in
      if e = ''.png'' then ''image/png''
      else if e = ''.jpg'' \<or> e = ''.jpeg'' then ''image/jpeg''
      else if e = ''.webp'' then ''image/webp''
      else if e = ''.gif'' then ''image/gif''
      else ''image/png'')"

definition data_uri :: "string \<Rightarrow> bytes \<Rightarrow> string" where
  "data_uri filePath buffer =
     ''data:'' @ getMimeType filePath @ '';base64,'' @ base64_encode buffer"

text \<open>The loop that downloads every returned URL and encodes it.\<close>

fun download_all ::
  "world \<Rightarrow> string \<Rightarrow> string list \<Rightarrow> (js_error + ImageObject list) \<times> net_call list" where
  "download_all w p [] = (Inr [], [])"
| "download_all w p (imageUrl # rest) =
     (case download w imageUrl of
        Inl e \<Rightarrow> (Inl e, [Download imageUrl])
      | Inr buffer \<Rightarrow>
          (case download_all w p rest of
             (Inl e, calls) \<Rightarrow> (Inl e, Download imageUrl # calls)
           | (Inr objs, calls) \<Rightarrow>
               (Inr (\<lparr>url = Some imageUrl, b64_json = Some (base64_encode buffer),
                       revised_prompt = Some p\<rparr> # objs),
                Download imageUrl # calls)))"

text \<open>
  The body of the \<open>try\<close> block. Width and height are derived from the size string,
  which is recorded in their place.
\<close>

definition Replicate_edit_try ::
  "world \<Rightarrow> ImageEditParams \<Rightarrow> js_value option \<Rightarrow> js_value \<Rightarrow>
   (js_error + ImageGenerationResponse) \<times> net_call list" where
  "Replicate_edit_try w params m modelVersion =
     (let imagePath = hd (images params) in
      if \<not> existsSync w imagePath
      then (Inl (Error (''Image file not found: '' @ imagePath)), [])
      else case readFileSync w imagePath of
        Inl msg \<Rightarrow> (Inl (SystemError msg), [])
      | Inr imageBuffer \<Rightarrow>
          (case read_mask w (defined (mask params)) of
             Inl e \<Rightarrow> (Inl e, [])
           | Inr maskFile \<Rightarrow>
               (case m of
                  None \<Rightarrow>
                    (Inl (SystemError ''Cannot read properties of undefined (reading 'includes')''),
                     [])
                | Some (Inherited k) \<Rightarrow>
                    (Inl (SystemError ''model.includes is not a function''), [])
                | Some (Str v) \<Rightarrow>
                    (let input =
                           \<lparr>in_prompt = prompt params,
                            in_image = Some (data_uri imagePath imageBuffer),
                            in_mask = (case maskFile of
                                         None \<Rightarrow> None
                                       | Some (maskPath, maskBuffer) \<Rightarrow>
                                           Some (data_uri maskPath maskBuffer)),
                            in_num_outputs = number_or_one (num params),
                            in_size = (if js_includes v ''sdxl'' \<or> js_includes v ''inpaint''
                                       then or_else (defined (img_size params))
                                              (Some ''1024x1024'')
                                       else None)\<rparr>
                     in case replicate_run w modelVersion input of
                          Inl e \<Rightarrow> (Inl e, [ReplicateRun modelVersion input])
                        | Inr urls \<Rightarrow>
                            (case download_all w (prompt params) urls of
                               (Inl e, calls) \<Rightarrow>
                                 (Inl e, ReplicateRun modelVersion input # calls)
                             | (Inr objs, calls) \<Rightarrow>
                                 (Inr \<lparr>created = now w, data = objs\<rparr>,
                                  ReplicateRun modelVersion input # calls))))))"

text \<open>
  The checks before the \<open>try\<close> block: the model name and the version passed to the
  backend (\<open>None\<close> for the name when no model is given and the catalog has no key).
  The name is the key of the read \<open>this.allowedModels[model]\<close>, as a string.
\<close>

definition named_model ::
  "provider \<Rightarrow> ImageEditParams \<Rightarrow> js_error + js_value option \<times> js_value" where
  "named_model p params =
     (if length (images params) = 0
      then Inl (Error ''At least one image file path is required'')
      else case validateParams (prompt params) of
        Some e \<Rightarrow> Inl e
      | None \<Rightarrow>
          (let m = value_or (defined (model params))
                     (map_option Str (element_at (js_keys (catalog p)) 0));
               name = (case m of None \<Rightarrow> ''undefined'' | Some v \<Rightarrow> js_to_string v);
               modelVersion = value_or (js_get (catalog p) name) m
           in
           if \<not> truthy_value modelVersion then Inl (model_not_allowed m (js_keys (catalog p)))
           else Inr (m, the modelVersion)))"

definition ReplicateImageProvider_editImages ::
  "provider \<Rightarrow> world \<Rightarrow> ImageEditParams \<Rightarrow>
   (js_error + ImageGenerationResponse) \<times> net_call list" where
  "ReplicateImageProvider_editImages p w params =
     (case named_model p params of
        Inl e \<Rightarrow> (Inl e, [])
      | Inr (m, modelVersion) \<Rightarrow>
          (case Replicate_edit_try w params m modelVersion of
             (Inl e, calls) \<Rightarrow> (Inl (Error (''Replicate API error: '' @ error_text e)), calls)
           | (Inr r, calls) \<Rightarrow> (Inr r, calls)))"

subsection \<open>Hugging Face (providers/huggingfaceProvider.ts)\<close>

definition HuggingFace_edit_try ::
  "world \<Rightarrow> ImageEditParams \<Rightarrow> js_value \<Rightarrow>
   (js_error + ImageGenerationResponse) \<times> net_call list" where
  "HuggingFace_edit_try w params modelName =
     (let imagePath = hd (images params) in
      if \<not> existsSync w imagePath
      then (Inl (Error (''Image file not found: '' @ imagePath)), [])
      else case readFileSync w imagePath of
        Inl msg \<Rightarrow> (Inl (SystemError msg), [])
      | Inr imageBuffer \<Rightarrow>
          (let first = \<lparr>hf_model = modelName, hf_inputs = Some imageBuffer,
                        hf_prompt = prompt params\<rparr>;
               second = \<lparr>hf_model = modelName, hf_inputs = None,
                         hf_prompt = prompt params @ '', based on the provided image''\<rparr>
           in case imageToImage w first of
                Inr blob \<Rightarrow>
                  (Inr \<lparr>created = now w,
                        data = image_objects (prompt params) [base64_encode blob]\<rparr>,
                   [ImageToImage first])
              | Inl imageToImageError \<Rightarrow>
                  (case textToImage w second of
                     Inl e \<Rightarrow> (Inl e, [ImageToImage first, TextToImage second])
                   | Inr blob \<Rightarrow>
                       (Inr \<lparr>created = now w,
                             data = image_objects (prompt params) [base64_encode blob]\<rparr>,
                        [ImageToImage first, TextToImage second]))))"

definition HuggingFaceImageProvider_editImages ::
  "provider \<Rightarrow> world \<Rightarrow> ImageEditParams \<Rightarrow>
   (js_error + ImageGenerationResponse) \<times> net_call list" where
  "HuggingFaceImageProvider_editImages p w params =
     (case named_model p params of
        Inl e \<Rightarrow> (Inl e, [])
      | Inr (m, modelName) \<Rightarrow>
          (case HuggingFace_edit_try w params modelName of
             (Inl e, calls) \<Rightarrow> (Inl (Error (''HuggingFace API error: '' @ error_text e)), calls)
           | (Inr r, calls) \<Rightarrow> (Inr r, calls)))"

text \<open>The abstract method \<open>editImages\<close>, dispatched on the class of the client.\<close>

definition editImages ::
  "provider \<Rightarrow> world \<Rightarrow> ImageEditParams \<Rightarrow>
   (js_error + ImageGenerationResponse) \<times> net_call list" where
  "editImages p w params =
     (case ptype p of
        OPENAI \<Rightarrow> OpenAIImageProvider_editImages p w params
      | STABILITY \<Rightarrow> StabilityImageProvider_editImages p w params
      | REPLICATE \<Rightarrow> ReplicateImageProvider_editImages p w params
      | HUGGINGFACE \<Rightarrow> HuggingFaceImageProvider_editImages p w params)"


section \<open>Persisting an image (saveImageToTempFile)\<close>

text \<open>
  \<open>base64ToBuffer\<close> of providers/base.ts. \<open>saveImageToTempFile\<close> has the same text
  in the four clients and in the earlier stand-alone client, with the stripping of the
  data-URL prefix written inline; \<open>uuid\<close> is what \<open>uuidv4()\<close> returns to the call.
  The file-system calls that succeeded are returned in order.
\<close>

definition base64ToBuffer :: "string \<Rightarrow> bytes" where
  "base64ToBuffer base64 =
     (let base64Data =
            (if js_includes base64 ''base64,''
             then (case element_at (js_split base64 ''base64,'') 1 of Some s \<Rightarrow> s | None \<Rightarrow> [])
             else base64)
      in base64_decode base64Data)"

datatype fs_call = Mkdir string | WriteFile string bytes

definition ensure_directory :: "world \<Rightarrow> string \<Rightarrow> js_error option \<times> fs_call list" where
  "ensure_directory w d =
     (if \<not> existsSync w d then
        (case mkdirSync_throws w d of
           Some m \<Rightarrow> (Some (SystemError m), [])
         | None \<Rightarrow> (None, [Mkdir d]))
      else (None, []))"

definition saveImageToTempFile ::
  "world \<Rightarrow> string \<Rightarrow> string \<Rightarrow> string option \<Rightarrow> string option \<Rightarrow>
   (js_error + string) \<times> fs_call list" where
  "saveImageToTempFile w uuid imageData outputFormat outputPath =
     (let fmt = (case outputFormat of None \<Rightarrow> ''png'' | Some f \<Rightarrow> f);
          base64Data =
            (if js_includes imageData ''base64,''
             then (case element_at (js_split imageData ''base64,'') 1 of Some s \<Rightarrow> s | None \<Rightarrow> [])
             else imageData);
          buffer = base64_decode base64Data;
          resolved =
            (if truthy outputPath then
               (let parsedPath = path_parse (the outputPath) in
                if ext parsedPath \<noteq> [] then
                  (case ensure_directory w (dir parsedPath) of
                     (Some e, calls) \<Rightarrow> (Inl e, calls)
                   | (None, calls) \<Rightarrow> (Inr (the outputPath), calls))
                else
                  (case ensure_directory w (the outputPath) of
                     (Some e, calls) \<Rightarrow> (Inl e, calls)
                   | (None, calls) \<Rightarrow>
                       (Inr (path_join (the outputPath) (uuid @ ''.'' @ fmt)), calls)))
             else (Inr (path_join ''/tmp'' (uuid @ ''.'' @ fmt)), []))
      in case resolved of
           (Inl e, calls) \<Rightarrow> (Inl e, calls)
         | (Inr filePath, calls) \<Rightarrow>
             (case writeFileSync_throws w filePath of
                Some m \<Rightarrow> (Inl (SystemError m), calls)
              | None \<Rightarrow> (Inr filePath, calls @ [WriteFile filePath buffer])))"


section \<open>The two tools (index.ts)\<close>

text \<open>
  \<open>flatModels\<close> collects the prefixed catalogs with \<open>Object.assign\<close>;
  \<open>defaultModel\<close> is its first key, or else the default client's default model.
\<close>

definition flatModels :: "factory \<Rightarrow> obj" where
  "flatModels f =
     fold (\<lambda>(k, v) acc. js_set acc k v) (concat (map snd (getAllProviderModels f))) []"

definition defaultModel :: "factory \<Rightarrow> provider \<Rightarrow> string option" where
  "defaultModel f defaultProvider' =
     or_else (element_at (js_keys (flatModels f)) 0) (getDefaultModel defaultProvider')"

definition to_field :: "'a option \<Rightarrow> 'a field" where
  "to_field v = (case v of None \<Rightarrow> Undefined | Some x \<Rightarrow> Given x)"

text \<open>
  The choice of client and model, written the same way in both handlers: an explicit
  provider is looked up and the model is left as it is; without one, a model that is
  given is resolved by the registry.
\<close>

definition choose_target ::
  "factory \<Rightarrow> string option \<Rightarrow> ProviderType option \<Rightarrow> string option \<Rightarrow>
   js_error + provider \<times> js_value option" where
  "choose_target f dflt providerArg modelArg =
     (case getDefaultProvider f of
        Inl e \<Rightarrow> Inl e
      | Inr targetProvider \<Rightarrow>
          (let targetModel = or_else modelArg dflt in
           case providerArg of
             Some t \<Rightarrow>
               (case getProvider f (Some t) of
                  Inl e \<Rightarrow> Inl e
                | Inr p \<Rightarrow> Inr (p, map_option Str targetModel))
           | None \<Rightarrow>
               if truthy modelArg then
                 (case getProviderFromModel f (the modelArg) of
                    Inl e \<Rightarrow> Inl e
                  | Inr (p, m) \<Rightarrow> Inr (p, Some m))
               else Inr (targetProvider, map_option Str targetModel)))"

record text_to_image_args =
  arg_text :: string
  arg_outputPath :: "string option"
  arg_model :: "string option"
  arg_provider :: "ProviderType option"
  arg_size :: "string option"
  arg_style :: "string option"
  arg_output_format :: "string option"
  arg_output_compression :: "int option"
  arg_moderation :: "string option"
  arg_background :: "string option"
  arg_quality :: "string option"
  arg_n :: "int option"

record image_to_image_args =
  ed_images :: "string list"
  ed_prompt :: string
  ed_outputPath :: "string option"
  ed_mask :: "string option"
  ed_model :: "string option"
  ed_provider :: "ProviderType option"
  ed_size :: "string option"
  ed_output_format :: "string option"
  ed_output_compression :: "int option"
  ed_quality :: "string option"
  ed_n :: "int option"

text \<open>
  The callback of a tool returns the text of its response, the calls it made to a
  client (the client and the request object) and the file-system calls that succeeded.
  The parameters \<open>generateImages\<close> and \<open>editImages'\<close> stand for the method of
  the target client's class.
\<close>

definition first_image :: "ImageGenerationResponse \<Rightarrow> js_error + string" where
  "first_image result =
     (if length (data result) = 0 then Inl (Error ''No images were generated'')
      else if \<not> truthy (b64_json (hd (data result)))
      then Inl (Error ''Image data not found in response'')
      else Inr (the (b64_json (hd (data result)))))"

definition text_to_image_callback ::
  "factory \<Rightarrow> string option \<Rightarrow>
   (provider \<Rightarrow> ImageGenerationParams \<Rightarrow> js_error + ImageGenerationResponse) \<Rightarrow>
   world \<Rightarrow> string \<Rightarrow> text_to_image_args \<Rightarrow>
   string \<times> (provider \<times> ImageGenerationParams) list \<times> fs_call list" where
  "text_to_image_callback f dflt generateImages w uuid args =
     (case choose_target f dflt (arg_provider args) (arg_model args) of
        Inl e \<Rightarrow> (''Error generating image: '' @ error_text e, [], [])
      | Inr (targetProvider, targetModel) \<Rightarrow>
          (let params =
                 \<lparr>prompt = arg_text args, model = to_field targetModel,
                  num = to_field (arg_n args), img_size = to_field (arg_size args),
                  quality = to_field (arg_quality args),
                  response_format = Given ''b64_json'',
                  output_format = to_field (arg_output_format args),
                  output_compression = to_field (arg_output_compression args),
                  user = Omitted, param_outputPath = Omitted,
                  style = to_field (arg_style args),
                  background = to_field (arg_background args),
                  moderation = to_field (arg_moderation args)\<rparr>
           in case generateImages targetProvider params of
                Inl e \<Rightarrow>
                  (''Error generating image: '' @ error_text e, [(targetProvider, params)], [])
              | Inr result \<Rightarrow>
                  (case first_image result of
                     Inl e \<Rightarrow>
                       (''Error generating image: '' @ error_text e,
                        [(targetProvider, params)], [])
                   | Inr imageData \<Rightarrow>
                       (case saveImageToTempFile w uuid imageData (arg_output_format args)
                               (arg_outputPath args) of
                          (Inl e, calls) \<Rightarrow>
                            (''Error generating image: '' @ error_text e,
                             [(targetProvider, params)], calls)
                        | (Inr filePath, calls) \<Rightarrow>
                            (filePath, [(targetProvider, params)], calls)))))"

definition image_to_image_callback ::
  "factory \<Rightarrow> string option \<Rightarrow>
   (provider \<Rightarrow> ImageEditParams \<Rightarrow> js_error + ImageGenerationResponse) \<Rightarrow>
   world \<Rightarrow> string \<Rightarrow> image_to_image_args \<Rightarrow>
   string \<times> (provider \<times> ImageEditParams) list \<times> fs_call list" where
  "image_to_image_callback f dflt editImages' w uuid args =
     (case choose_target f dflt (ed_provider args) (ed_model args) of
        Inl e \<Rightarrow> (''Error editing image: '' @ error_text e, [], [])
      | Inr (targetProvider, targetModel) \<Rightarrow>
          (let params =
                 \<lparr>prompt = ed_prompt args, model = to_field targetModel,
                  num = to_field (ed_n args), img_size = to_field (ed_size args),
                  quality = to_field (ed_quality args),
                  response_format = Given ''b64_json'',
                  output_format = to_field (ed_output_format args),
                  output_compression = to_field (ed_output_compression args),
                  user = Omitted, param_outputPath = Omitted,
                  images = ed_images args, mask = to_field (ed_mask args)\<rparr>
           in case editImages' targetProvider params of
                Inl e \<Rightarrow>
                  (''Error editing image: '' @ error_text e, [(targetProvider, params)], [])
              | Inr result \<Rightarrow>
                  (case first_image result of
                     Inl e \<Rightarrow>
                       (''Error editing image: '' @ error_text e,
                        [(targetProvider, params)], [])
                   | Inr imageData \<Rightarrow>
                       (case saveImageToTempFile w uuid imageData (ed_output_format args)
                               (ed_outputPath args) of
                          (Inl e, calls) \<Rightarrow>
                            (''Error editing image: '' @ error_text e,
                             [(targetProvider, params)], calls)
                        | (Inr filePath, calls) \<Rightarrow>
                            (filePath, [(targetProvider, params)], calls)))))"

subsection \<open>The input schemas and the tools as the server runs them\<close>

text \<open>
  The values of the constant tables of providers/openaiProvider.ts that the schemas
  enumerate.
\<close>

definition SIZES :: "string list" where
  "SIZES = [''256x256'', ''512x512'', ''1024x1024'', ''1536x1024'', ''1024x1536'',
            ''1792x1024'', ''1024x1792'', ''auto'']"

definition STYLES :: "string list" where
  "STYLES = [''vivid'', ''natural'']"

definition QUALITIES :: "string list" where
  "QUALITIES = [''standard'', ''auto'', ''high'', ''medium'', ''low'']"

definition BACKGROUNDS :: "string list" where
  "BACKGROUNDS = [''transparent'', ''opaque'', ''auto'']"

definition OUTPUT_FORMATS :: "string list" where
  "OUTPUT_FORMATS = [''png'', ''jpeg'', ''webp'']"

definition MODERATION_LEVELS :: "string list" where
  "MODERATION_LEVELS = [''low'', ''auto'']"

text \<open>
  The arguments of a tool call as the client sends them: every property may be
  missing. The server parses them with the schema registered with the tool and runs the
  callback on the parsed value only; when the schema does not accept them the call is
  answered with an invalid-parameters error and the callback is not run.
  \<open>z.enum(vs).optional()\<close> accepts a missing value and the members of \<open>vs\<close>;
  \<open>.default(d)\<close> puts \<open>d\<close> in the place of a missing value, which is then checked
  like a given one (zod 3); \<open>z.string()\<close> and \<open>z.number()\<close> want a value.
\<close>

record text_to_image_input =
  tti_text :: "string option"
  tti_outputPath :: "string option"
  tti_model :: "string option"
  tti_provider :: "string option"
  tti_size :: "string option"
  tti_style :: "string option"
  tti_output_format :: "string option"
  tti_output_compression :: "int option"
  tti_moderation :: "string option"
  tti_background :: "string option"
  tti_quality :: "string option"
  tti_n :: "int option"

record image_to_image_input =
  iti_images :: "string list option"
  iti_prompt :: "string option"
  iti_outputPath :: "string option"
  iti_mask :: "string option"
  iti_model :: "string option"
  iti_provider :: "string option"
  iti_size :: "string option"
  iti_output_format :: "string option"
  iti_output_compression :: "int option"
  iti_quality :: "string option"
  iti_n :: "int option"

definition zod_default :: "'a option \<Rightarrow> 'a option \<Rightarrow> 'a option" where
  "zod_default d v = (case v of None \<Rightarrow> d | Some x \<Rightarrow> Some x)"

definition zod_enum_optional :: "string list \<Rightarrow> string option \<Rightarrow> bool" where
  "zod_enum_optional vs v = (case v of None \<Rightarrow> True | Some s \<Rightarrow> s \<in> set vs)"

definition provider_of_id :: "string \<Rightarrow> ProviderType option" where
  "provider_of_id s = find (\<lambda>t. provider_id t = s) [OPENAI, STABILITY, REPLICATE, HUGGINGFACE]"

definition text_to_image_schema ::
  "factory \<Rightarrow> string option \<Rightarrow> text_to_image_input \<Rightarrow> text_to_image_args option" where
  "text_to_image_schema f dflt input =
     (let model' = zod_default dflt (tti_model input);
          size' = zod_default (Some ''1024x1024'') (tti_size input);
          style' = zod_default (Some ''vivid'') (tti_style input);
          output_format' = zod_default (Some ''png'') (tti_output_format input);
          output_compression' = zod_default (Some 100) (tti_output_compression input);
          moderation' = zod_default (Some ''low'') (tti_moderation input);
          background' = zod_default (Some ''auto'') (tti_background input);
          quality' = zod_default (Some ''auto'') (tti_quality input);
          n' = zod_default (Some 1) (tti_n input)
      in
      if tti_text input \<noteq> None \<and> tti_outputPath input \<noteq> None
         \<and> zod_enum_optional (js_values (flatModels f)) model'
         \<and> zod_enum_optional (map provider_id (getAvailableProviders f)) (tti_provider input)
         \<and> zod_enum_optional SIZES size'
         \<and> zod_enum_optional STYLES style'
         \<and> zod_enum_optional OUTPUT_FORMATS output_format'
         \<and> zod_enum_optional MODERATION_LEVELS moderation'
         \<and> zod_enum_optional BACKGROUNDS background'
         \<and> zod_enum_optional QUALITIES quality'
      then Some \<lparr>arg_text = the (tti_text input), arg_outputPath = tti_outputPath input,
                 arg_model = model',
                 arg_provider = (case tti_provider input of
                                   None \<Rightarrow> None | Some s \<Rightarrow> provider_of_id s),
                 arg_size = size', arg_style = style', arg_output_format = output_format',
                 arg_output_compression = output_compression',
                 arg_moderation = moderation', arg_background = background',
                 arg_quality = quality', arg_n = n'\<rparr>
      else None)"

definition image_to_image_schema ::
  "factory \<Rightarrow> string option \<Rightarrow> image_to_image_input \<Rightarrow> image_to_image_args option" where
  "image_to_image_schema f dflt input =
     (let model' = zod_default dflt (iti_model input);
          size' = zod_default (Some ''1024x1024'') (iti_size input);
          output_format' = zod_default (Some ''png'') (iti_output_format input);
          output_compression' = zod_default (Some 100) (iti_output_compression input);
          quality' = zod_default (Some ''auto'') (iti_quality input);
          n' = zod_default (Some 1) (iti_n input)
      in
      if iti_images input \<noteq> None \<and> iti_prompt input \<noteq> None \<and> iti_outputPath input \<noteq> None
         \<and> zod_enum_optional (js_values (flatModels f)) model'
         \<and> zod_enum_optional (map provider_id (getAvailableProviders f)) (iti_provider input)
         \<and> zod_enum_optional SIZES size'
         \<and> zod_enum_optional OUTPUT_FORMATS output_format'
         \<and> zod_enum_optional QUALITIES quality'
      then Some \<lparr>ed_images = the (iti_images input), ed_prompt = the (iti_prompt input),
                 ed_outputPath = iti_outputPath input, ed_mask = iti_mask input,
                 ed_model = model',
                 ed_provider = (case iti_provider input of
                                  None \<Rightarrow> None | Some s \<Rightarrow> provider_of_id s),
                 ed_size = size', ed_output_format = output_format',
                 ed_output_compression = output_compression',
                 ed_quality = quality', ed_n = n'\<rparr>
      else None)"

text \<open>
  A tool call ends in one of three ways: the module did not load because
  \<open>getDefaultProvider\<close> threw while \<open>defaultModel\<close> was computed, the arguments
  were not accepted, or the callback ran and answered with a text.
\<close>

datatype tool_result = NotLoaded js_error | InvalidParams | Content string

definition text_to_image ::
  "factory \<Rightarrow>
   (provider \<Rightarrow> ImageGenerationParams \<Rightarrow> js_error + ImageGenerationResponse) \<Rightarrow>
   world \<Rightarrow> string \<Rightarrow> text_to_image_input \<Rightarrow>
   tool_result \<times> (provider \<times> ImageGenerationParams) list \<times> fs_call list" where
  "text_to_image f generateImages w uuid input =
     (case getDefaultProvider f of
        Inl e \<Rightarrow> (NotLoaded e, [], [])
      | Inr defaultProvider' \<Rightarrow>
          (let dflt = defaultModel f defaultProvider' in
           case text_to_image_schema f dflt input of
             None \<Rightarrow> (InvalidParams, [], [])
           | Some args \<Rightarrow>
               (case text_to_image_callback f dflt generateImages w uuid args of
                  (reply, calls, files) \<Rightarrow> (Content reply, calls, files))))"

definition image_to_image ::
  "factory \<Rightarrow>
   (provider \<Rightarrow> ImageEditParams \<Rightarrow> js_error + ImageGenerationResponse) \<Rightarrow>
   world \<Rightarrow> string \<Rightarrow> image_to_image_input \<Rightarrow>
   tool_result \<times> (provider \<times> ImageEditParams) list \<times> fs_call list" where
  "image_to_image f editImages' w uuid input =
     (case getDefaultProvider f of
        Inl e \<Rightarrow> (NotLoaded e, [], [])
      | Inr defaultProvider' \<Rightarrow>
          (let dflt = defaultModel f defaultProvider' in
           case image_to_image_schema f dflt input of
             None \<Rightarrow> (InvalidParams, [], [])
           | Some args \<Rightarrow>
               (case image_to_image_callback f dflt editImages' w uuid args of
                  (reply, calls, files) \<Rightarrow> (Content reply, calls, files))))"
section \<open>Concrete configurations used as examples\<close>

definition env_openai_only :: "string \<Rightarrow> string option" where
  "env_openai_only k = (if k = ''OPENAI_API_KEY'' then Some ''sk-test'' else None)"

definition env_empty :: "string \<Rightarrow> string option" where
  "env_empty k = None"

definition cfg_stability_openai :: MultiProviderConfig where
  "cfg_stability_openai =
     \<lparr>providers = [STABILITY, OPENAI], defaultProvider = Some STABILITY,
      providerSettings = (\<lambda>_. None)\<rparr>"

definition factory_openai_only :: factory where
  "factory_openai_only =
     \<lparr>live = [(OPENAI, \<lparr>ptype = OPENAI, credential = ''sk-test'', catalog = OPENAI_MODELS\<rparr>)],
      current_default = Some OPENAI\<rparr>"

definition env_openai_huggingface :: "string \<Rightarrow> string option" where
  "env_openai_huggingface k =
     (if k = ''OPENAI_API_KEY'' then Some ''sk-test''
      else if k = ''HUGGINGFACE_API_KEY'' then Some ''hf-test'' else None)"

definition cfg_openai_huggingface :: MultiProviderConfig where
  "cfg_openai_huggingface =
     \<lparr>providers = [OPENAI, HUGGINGFACE], defaultProvider = Some OPENAI,
      providerSettings = (\<lambda>_. None)\<rparr>"

definition cfg_openai_huggingface_turbo :: MultiProviderConfig where
  "cfg_openai_huggingface_turbo =
     \<lparr>providers = [OPENAI, HUGGINGFACE], defaultProvider = Some OPENAI,
      providerSettings = (\<lambda>_. Some [''stabilityai/sdxl-turbo''])\<rparr>"

definition openai_client :: provider where
  "openai_client = \<lparr>ptype = OPENAI, credential = ''sk-test'', catalog = OPENAI_MODELS\<rparr>"

definition huggingface_client :: provider where
  "huggingface_client =
     \<lparr>ptype = HUGGINGFACE, credential = ''hf-test'', catalog = HUGGINGFACE_MODELS\<rparr>"

definition huggingface_turbo_client :: provider where
  "huggingface_turbo_client =
     \<lparr>ptype = HUGGINGFACE, credential = ''hf-test'',
      catalog = [(''stabilityai/sdxl-turbo'', ''stabilityai/sdxl-turbo'')]\<rparr>"

definition factory_openai_huggingface :: factory where
  "factory_openai_huggingface =
     \<lparr>live = [(OPENAI, openai_client), (HUGGINGFACE, huggingface_client)],
      current_default = Some OPENAI\<rparr>"

definition factory_openai_huggingface_turbo :: factory where
  "factory_openai_huggingface_turbo =
     \<lparr>live = [(OPENAI, openai_client), (HUGGINGFACE, huggingface_turbo_client)],
      current_default = Some OPENAI\<rparr>"

definition stability_client :: provider where
  "stability_client = \<lparr>ptype = STABILITY, credential = ''sk-test'', catalog = STABILITY_MODELS\<rparr>"

definition replicate_client :: provider where
  "replicate_client = \<lparr>ptype = REPLICATE, credential = ''r8-test'', catalog = REPLICATE_MODELS\<rparr>"

text \<open>
  A world whose file system holds the directories \<open>/\<close> and \<open>/tmp\<close>, one readable
  file, \<open>/tmp/a.png\<close>, and one file that can be neither read nor written,
  \<open>/tmp/locked.png\<close>. \<open>mkdirSync\<close> throws on the empty path, as it does in
  Node, and under \<open>/readonly\<close>, and creates every other directory; every other file
  can be written; the backends answer with no image.
\<close>

definition world_one_file :: world where
  "world_one_file =
     \<lparr>existsSync = (\<lambda>f. f \<in> {''/'', ''/tmp'', ''/tmp/a.png'', ''/tmp/locked.png''}),
      readFileSync = (\<lambda>f. if f = ''/tmp/a.png'' then Inr [1, 2, 3]
                          else if f = ''/tmp/locked.png'' then Inl ''EACCES: permission denied''
                          else Inl ''ENOENT: no such file or directory''),
      mkdirSync_throws = (\<lambda>d. if d = [] then Some ''ENOENT: no such file or directory, mkdir''
                              else if starts_with d ''/readonly''
                              then Some ''EROFS: read-only file system''
                              else None),
      writeFileSync_throws = (\<lambda>f. if f = ''/tmp/locked.png''
                                  then Some ''EACCES: permission denied'' else None),
      now = 0,
      fetch_images = (\<lambda>r. Ok \<lparr>created = 0, data = []\<rparr>),
      fetch_artifacts = (\<lambda>r. Ok []),
      replicate_run = (\<lambda>v i. Inr []),
      download = (\<lambda>u. Inr []),
      imageToImage = (\<lambda>r. Inr []),
      textToImage = (\<lambda>r. Inr [])\<rparr>"

definition edit_request :: "string list \<Rightarrow> ImageEditParams" where
  "edit_request files =
     \<lparr>prompt = ''add a hat'', model = Omitted, num = Omitted, img_size = Omitted,
      quality = Omitted, response_format = Omitted, output_format = Omitted,
      output_compression = Omitted, user = Omitted, param_outputPath = Omitted,
      images = files, mask = Omitted\<rparr>"

definition generation_request :: "string \<Rightarrow> int \<Rightarrow> string field \<Rightarrow> ImageGenerationParams"
  where
  "generation_request m k sz =
     \<lparr>prompt = ''a red circle'', model = Given (Str m), num = Given k, img_size = sz,
      quality = Omitted, response_format = Omitted, output_format = Omitted,
      output_compression = Omitted, user = Omitted, param_outputPath = Omitted,
      style = Omitted, background = Omitted, moderation = Omitted\<rparr>"

definition uuid_example :: string where
  "uuid_example = ''3f2b8c1e-5a4d-4e6f-9b7a-0c1d2e3f4a5b''"

definition text_input :: "string option \<Rightarrow> string option \<Rightarrow> text_to_image_input" where
  "text_input t m =
     \<lparr>tti_text = Some ''a red circle'', tti_outputPath = Some ''/tmp/out.png'',
      tti_model = m, tti_provider = t, tti_size = None, tti_style = None,
      tti_output_format = None, tti_output_compression = None, tti_moderation = None,
      tti_background = None, tti_quality = None, tti_n = None\<rparr>"

definition edit_input :: "string option \<Rightarrow> string option \<Rightarrow> image_to_image_input" where
  "edit_input t m =
     \<lparr>iti_images = Some [''/tmp/a.png''], iti_prompt = Some ''add a hat'',
      iti_outputPath = Some ''/tmp/out.png'', iti_mask = None, iti_model = m,
      iti_provider = t, iti_size = None, iti_output_format = None,
      iti_output_compression = None, iti_quality = None, iti_n = None\<rparr>"

definition openai_gpt_only_client :: provider where
  "openai_gpt_only_client =
     \<lparr>ptype = OPENAI, credential = ''sk-test'', catalog = [(''GPT_IMAGE'', ''gpt-image-1'')]\<rparr>"

text \<open>
  The methods the callbacks call, in that world: \<open>editImages\<close> of the client's class,
  and for generation the method of the OpenAI client.
\<close>

definition example_generateImages ::
  "provider \<Rightarrow> ImageGenerationParams \<Rightarrow> js_error + ImageGenerationResponse" where
  "example_generateImages c r = fst (OpenAIImageProvider_generateImages c world_one_file r)"

definition example_editImages ::
  "provider \<Rightarrow> ImageEditParams \<Rightarrow> js_error + ImageGenerationResponse" where
  "example_editImages c r = fst (editImages c world_one_file r)"


section \<open>Basic facts\<close>

lemma truthy_simps [simp]:
  "truthy (Some s) = (s \<noteq> [])" "\<not> truthy None"
  by (simp_all add: truthy_def)

lemma error_text_simps [simp]:
  "error_text (Error m) = m" "error_text (SystemError m) = m"
  by (simp_all add: error_text_def)

section \<open>The registry: initialization and the default provider\<close>

lemma createProvider_Inl_iff:
  "(\<exists>e. createProvider env cfg p = Inl e) \<longleftrightarrow> \<not> truthy (env (envKey p))"
  by (cases p) (auto simp: createProvider_def Let_def OpenAIImageProvider_def StabilityImageProvider_def
      ReplicateImageProvider_def HuggingFaceImageProvider_def split: prod.splits)

lemma createProvider_Inl_message:
  "createProvider env cfg p = Inl e \<Longrightarrow>
   e = Error (envKey p @ '' environment variable is required for '' @ provider_name p)"
  by (cases p) (auto simp: createProvider_def Let_def OpenAIImageProvider_def StabilityImageProvider_def
      ReplicateImageProvider_def HuggingFaceImageProvider_def split: prod.splits if_splits)

lemma select_models_no_InitFailed:
  "select_models pt d h b ms acc ws = (acc', ws') \<Longrightarrow>
   filter is_InitFailed ws' = filter is_InitFailed ws"
  by (induction pt d h b ms acc ws rule: select_models.induct)
     (auto split: option.splits if_splits prod.splits)

lemma choose_catalog_no_InitFailed:
  "choose_catalog pt d fb h b allow = (cat, ws) \<Longrightarrow> filter is_InitFailed ws = []"
  by (auto simp: choose_catalog_def split: option.splits if_splits prod.splits
      dest: select_models_no_InitFailed)

lemma createProvider_no_InitFailed:
  "createProvider env cfg p = Inr (c, ws) \<Longrightarrow> filter is_InitFailed ws = []"
  by (cases p) (auto simp: createProvider_def Let_def OpenAIImageProvider_def StabilityImageProvider_def
      ReplicateImageProvider_def HuggingFaceImageProvider_def split: prod.splits if_splits
      dest: choose_catalog_no_InitFailed)

lemma map_fst_map_set:
  "map fst (map_set m k v) = (if k \<in> set (map fst m) then map fst m else map fst m @ [k])"
  by (auto simp: map_set_def map_has_def split: prod.splits)

lemma remdups_snoc: "remdups (ys @ [x]) = filter (\<lambda>y. y \<noteq> x) (remdups ys) @ [x]"
  by (induction ys) auto

lemma firsts_Cons:
  "rev (remdups (rev (x # xs))) = x # filter (\<lambda>y. y \<noteq> x) (rev (remdups (rev xs)))"
  by (simp add: remdups_snoc rev_filter)

lemma init_loop_keys:
  "map fst (fst (init_loop env cfg ps m ws)) =
   map fst m @ filter (\<lambda>p. p \<notin> set (map fst m))
      (rev (remdups (rev (filter (\<lambda>p. truthy (env (envKey p))) ps))))"
proof (induction ps arbitrary: m ws)
  case Nil
  then show ?case by simp
next
  case (Cons p ps)
  show ?case
  proof (cases "createProvider env cfg p")
    case (Inl e)
    then have "\<not> truthy (env (envKey p))" using createProvider_Inl_iff by blast
    with Inl Cons show ?thesis by simp
  next
    case (Inr r)
    then have t: "truthy (env (envKey p))" using createProvider_Inl_iff[of env cfg p] by auto
    obtain c ws' where r: "r = (c, ws')" by (cases r)
    show ?thesis
      using Inr r t Cons[of "map_set m p c" "ws @ ws'"]
      by (auto simp: map_fst_map_set firsts_Cons simp del: rev.simps remdups.simps
              intro: filter_cong)
  qed
qed

lemma init_loop_warnings:
  "filter is_InitFailed (snd (init_loop env cfg ps m ws)) =
   filter is_InitFailed ws @
   map (\<lambda>p. InitFailed p (envKey p @ '' environment variable is required for '' @ provider_name p))
     (filter (\<lambda>p. \<not> truthy (env (envKey p))) ps)"
proof (induction ps arbitrary: m ws)
  case Nil
  then show ?case by simp
next
  case (Cons p ps)
  show ?case
  proof (cases "createProvider env cfg p")
    case (Inl e)
    then have "\<not> truthy (env (envKey p))" using createProvider_Inl_iff by blast
    moreover have "error_text e = envKey p @ '' environment variable is required for '' @ provider_name p"
      using createProvider_Inl_message[OF Inl] by (simp add: error_text_def)
    ultimately show ?thesis using Inl Cons by simp
  next
    case (Inr r)
    then have t: "truthy (env (envKey p))" using createProvider_Inl_iff[of env cfg p] by auto
    obtain c ws' where r: "r = (c, ws')" by (cases r)
    have "filter is_InitFailed ws' = []" using createProvider_no_InitFailed Inr r by blast
    then show ?thesis using Inr r t Cons[of "map_set m p c" "ws @ ws'"] by simp
  qed
qed

lemma map_set_values:
  "(\<forall>(k, v) \<in> set m. P k v) \<Longrightarrow> P p c \<Longrightarrow> (\<forall>(k, v) \<in> set (map_set m p c). P k v)"
  by (auto simp: map_set_def split: if_splits)

lemma init_loop_clients:
  "(\<forall>(k, v) \<in> set m. \<exists>w. createProvider env cfg k = Inr (v, w)) \<Longrightarrow>
   (\<forall>(k, v) \<in> set (fst (init_loop env cfg ps m ws)). \<exists>w. createProvider env cfg k = Inr (v, w))"
proof (induction ps arbitrary: m ws)
  case Nil
  then show ?case by simp
next
  case (Cons p ps)
  show ?case
  proof (cases "createProvider env cfg p")
    case (Inl e)
    then show ?thesis using Cons by simp
  next
    case (Inr r)
    obtain c ws' where r: "r = (c, ws')" by (cases r)
    have "\<forall>(k, v) \<in> set (map_set m p c). \<exists>w. createProvider env cfg k = Inr (v, w)"
      using Cons.prems Inr r by (intro map_set_values) auto
    from Cons.IH[OF this] show ?thesis using Inr r by simp
  qed
qed

text \<open>
  Claim C2. \<open>initializeProviders\<close> tries every configured provider in turn. A
  provider whose credential variable is unset or empty is skipped with one
  \<open>InitFailed\<close> warning and the loop goes on. If no configured provider has a
  credential the result is the fatal configuration error; otherwise the registry holds
  exactly the providers with a credential, in configuration order (each at its first
  occurrence), each with the client \<open>createProvider\<close> built for it.
\<close>

theorem initializeProviders_skips_and_fails_fast:
  assumes "initializeProviders env cfg dflt = (res, ws)"
  shows "filter is_InitFailed ws =
           map (\<lambda>p. InitFailed p (envKey p @ '' environment variable is required for '' @ provider_name p))
             (filter (\<lambda>p. \<not> truthy (env (envKey p))) (providers cfg))
       \<and> (if filter (\<lambda>p. truthy (env (envKey p))) (providers cfg) = []
          then res = Inl (Error ''No providers were successfully initialized. Please check your configuration and API keys.'')
          else (\<exists>f. res = Inr f
                 \<and> getAvailableProviders f =
                     rev (remdups (rev (filter (\<lambda>p. truthy (env (envKey p))) (providers cfg))))
                 \<and> (\<forall>(p, c) \<in> set (live f). \<exists>w. createProvider env cfg p = Inr (c, w))))"
proof -
  obtain m ws0 where l: "init_loop env cfg (providers cfg) [] [] = (m, ws0)"
    by (cases "init_loop env cfg (providers cfg) [] []")
  have k: "map fst m = rev (remdups (rev (filter (\<lambda>p. truthy (env (envKey p))) (providers cfg))))"
    using init_loop_keys[of env cfg "providers cfg" "[]" "[]"] l by simp
  have w: "filter is_InitFailed ws0 =
           map (\<lambda>p. InitFailed p (envKey p @ '' environment variable is required for '' @ provider_name p))
             (filter (\<lambda>p. \<not> truthy (env (envKey p))) (providers cfg))"
    using init_loop_warnings[of env cfg "providers cfg" "[]" "[]"] l by simp
  have c: "\<forall>(k, v) \<in> set m. \<exists>w. createProvider env cfg k = Inr (v, w)"
    using init_loop_clients[of "[]" env cfg "providers cfg" "[]"] l by simp
  have e: "(m = []) = (filter (\<lambda>p. truthy (env (envKey p))) (providers cfg) = [])"
    using k by (metis map_is_Nil_conv remdups_eq_nil_iff rev_is_Nil_conv)
  have wseq: "ws = ws0"
    using assms l by (auto simp: initializeProviders_def split: if_splits list.splits)
  show ?thesis
  proof (cases "m = []")
    case True
    then show ?thesis using assms l w e wseq by (simp add: initializeProviders_def)
  next
    case False
    then obtain f where "res = Inr f" "live f = m"
      using assms l by (auto simp: initializeProviders_def split: if_splits list.splits)
    then show ?thesis using False e w k c wseq by (simp add: getAvailableProviders_def)
  qed
qed

theorem initializeProviders_skips_and_fails_fast_witness:
  "(\<exists>f. fst (initializeProviders env_openai_only cfg_stability_openai (Some STABILITY)) = Inr f
        \<and> getAvailableProviders f = [OPENAI])
   \<and> filter is_InitFailed (snd (initializeProviders env_openai_only cfg_stability_openai (Some STABILITY)))
       = [InitFailed STABILITY ''STABILITY_API_KEY environment variable is required for Stability AI'']
   \<and> fst (initializeProviders env_empty cfg_stability_openai (Some STABILITY))
       = Inl (Error ''No providers were successfully initialized. Please check your configuration and API keys.'')"
  using initializeProviders_skips_and_fails_fast
          [OF surjective_pairing, of env_openai_only cfg_stability_openai "Some STABILITY"]
        initializeProviders_skips_and_fails_fast
          [OF surjective_pairing, of env_empty cfg_stability_openai "Some STABILITY"]
  by (auto simp: env_openai_only_def env_empty_def cfg_stability_openai_def truthy_def)

lemma hd_firsts: "xs \<noteq> [] \<Longrightarrow> hd (rev (remdups (rev xs))) = hd xs"
  by (cases xs) (simp_all add: firsts_Cons del: rev.simps remdups.simps)

lemma initializeProviders_Inr:
  assumes "initializeProviders env cfg dflt = (Inr f, ws)"
  shows "live f = fst (init_loop env cfg (providers cfg) [] []) \<and> live f \<noteq> []
       \<and> current_default f =
           (if (case dflt of None \<Rightarrow> False | Some d \<Rightarrow> map_has (live f) d) then dflt
            else Some (fst (hd (live f))))"
  using assms
  by (auto simp: initializeProviders_def split: prod.splits if_splits list.splits option.splits)

text \<open>
  Claim C8. On a successfully constructed factory the default identity is a key of the
  registry: it is the requested default when that provider is live, and otherwise the
  first live provider, which is the first configured provider with a credential; so
  \<open>getDefaultProvider\<close> returns a client.
\<close>

theorem default_provider_is_live:
  assumes "ImageProviderFactory env cfg = (Inr f, ws)"
  shows "\<exists>d c. current_default f = Some d \<and> map_of (live f) d = Some c
           \<and> getDefaultProvider f = Inr c
           \<and> getAvailableProviders f \<noteq> []
           \<and> hd (getAvailableProviders f) = hd (filter (\<lambda>p. truthy (env (envKey p))) (providers cfg))
           \<and> d = (case defaultProvider cfg of
                    Some r \<Rightarrow> if r \<in> set (getAvailableProviders f) then r
                              else hd (getAvailableProviders f)
                  | None \<Rightarrow> hd (getAvailableProviders f))"
proof -
  let ?usable = "filter (\<lambda>p. truthy (env (envKey p))) (providers cfg)"
  let ?d0 = "case defaultProvider cfg of Some d \<Rightarrow> Some d
             | None \<Rightarrow> (case providers cfg of [] \<Rightarrow> None | p # _ \<Rightarrow> Some p)"
  have i: "initializeProviders env cfg ?d0 = (Inr f, ws)"
    using assms by (simp add: ImageProviderFactory_def)
  note r = initializeProviders_Inr[OF i]
  have k: "getAvailableProviders f = rev (remdups (rev ?usable))"
    using r init_loop_keys[of env cfg "providers cfg" "[]" "[]"]
    by (simp add: getAvailableProviders_def)
  have lne: "live f \<noteq> []" using r by blast
  have ne: "getAvailableProviders f \<noteq> []"
    using lne by (simp add: getAvailableProviders_def)
  then have une: "?usable \<noteq> []" using k by auto
  have h: "hd (getAvailableProviders f) = hd ?usable"
    using k une hd_firsts by metis
  have hm: "fst (hd (live f)) = hd (getAvailableProviders f)"
    using lne by (simp add: getAvailableProviders_def hd_map)
  define d where "d = (case defaultProvider cfg of
                    Some r \<Rightarrow> if r \<in> set (getAvailableProviders f) then r
                              else hd (getAvailableProviders f)
                  | None \<Rightarrow> hd (getAvailableProviders f))"
  have cd: "current_default f = Some d"
  proof (cases "defaultProvider cfg")
    case (Some x)
    then show ?thesis using r hm
      by (auto simp: d_def map_has_def getAvailableProviders_def)
  next
    case None
    obtain p ps where pp: "providers cfg = p # ps" using une by (cases "providers cfg") auto
    show ?thesis
    proof (cases "p \<in> set (getAvailableProviders f)")
      case True
      then have "p \<in> set ?usable" using k by simp
      then have "truthy (env (envKey p))" by simp
      then have "hd ?usable = p" using pp by simp
      then show ?thesis using None pp r hm h True
        by (auto simp: d_def map_has_def getAvailableProviders_def)
    next
      case False
      then show ?thesis using None pp r hm
        by (auto simp: d_def map_has_def getAvailableProviders_def)
    qed
  qed
  have din: "d \<in> set (getAvailableProviders f)"
    using ne by (auto simp: d_def split: option.splits)
  then have "map_of (live f) d \<noteq> None"
    by (simp add: getAvailableProviders_def map_of_eq_None_iff)
  then obtain c where c: "map_of (live f) d = Some c" by blast
  have "getDefaultProvider f = Inr c"
    using cd c by (simp add: getDefaultProvider_def getProvider_def)
  then show ?thesis using cd c ne h d_def by blast
qed

theorem default_provider_is_live_witness:
  "ImageProviderFactory env_openai_only cfg_stability_openai
     = (Inr factory_openai_only,
        [InitFailed STABILITY ''STABILITY_API_KEY environment variable is required for Stability AI''])
   \<and> current_default factory_openai_only = Some OPENAI
   \<and> getDefaultProvider factory_openai_only
       = Inr \<lparr>ptype = OPENAI, credential = ''sk-test'', catalog = OPENAI_MODELS\<rparr>"
proof -
  have h: "ImageProviderFactory env_openai_only cfg_stability_openai
     = (Inr factory_openai_only,
        [InitFailed STABILITY ''STABILITY_API_KEY environment variable is required for Stability AI''])"
    by (simp add: ImageProviderFactory_def initializeProviders_def createProvider_def
        env_openai_only_def cfg_stability_openai_def truthy_def factory_openai_only_def
        OpenAIImageProvider_def choose_catalog_def map_set_def map_has_def)
  from default_provider_is_live[OF h] show ?thesis
    using h by (auto simp: factory_openai_only_def getAvailableProviders_def cfg_stability_openai_def)
qed
section \<open>Resolving model names\<close>

lemma factory_openai_huggingface_built:
  "fst (ImageProviderFactory env_openai_huggingface cfg_openai_huggingface)
     = Inr factory_openai_huggingface"
  by (simp add: ImageProviderFactory_def initializeProviders_def createProvider_def
        env_openai_huggingface_def cfg_openai_huggingface_def truthy_def
        factory_openai_huggingface_def openai_client_def huggingface_client_def
        OpenAIImageProvider_def HuggingFaceImageProvider_def choose_catalog_def
        map_set_def map_has_def)

lemma sdxl_turbo_no_hit:
  "find (huggingface_hit ''stabilityai/sdxl-turbo'') HUGGINGFACE_MODELS = None"
  by (simp add: huggingface_hit_def HUGGINGFACE_MODELS_def)

lemma sdxl_turbo_no_value:
  "find (by_value ''stabilityai/sdxl-turbo'') OPENAI_MODELS = None"
  by (simp add: by_value_def OPENAI_MODELS_def)

lemma factory_openai_huggingface_turbo_built:
  "fst (ImageProviderFactory env_openai_huggingface cfg_openai_huggingface_turbo)
     = Inr factory_openai_huggingface_turbo"
  by (simp add: ImageProviderFactory_def initializeProviders_def createProvider_def
        env_openai_huggingface_def cfg_openai_huggingface_turbo_def truthy_def
        factory_openai_huggingface_turbo_def openai_client_def huggingface_turbo_client_def
        OpenAIImageProvider_def HuggingFaceImageProvider_def choose_catalog_def
        map_set_def map_has_def sdxl_turbo_no_hit sdxl_turbo_no_value js_set_def js_keys_def
        is_array_index_def is_digit_def)

text \<open>
  Claim C1, evaluated where it fails. With OpenAI (the default) and Hugging Face live,
  both with their default catalogs, the model string
  \<open>huggingface/stabilityai/stable-diffusion-xl-base-1.0\<close> is a live provider's
  identity followed by a value of that provider's catalog. \<open>split('/', 2)\<close> keeps
  the first two of the three pieces, so the name looked up is \<open>stabilityai\<close>,
  nothing matches, and the resolver returns the default provider (OpenAI) with the raw
  string.
\<close>

theorem getProviderFromModel_prefixed_value_with_slash:
  "fst (ImageProviderFactory env_openai_huggingface cfg_openai_huggingface)
     = Inr factory_openai_huggingface
   \<and> map_of (live factory_openai_huggingface) HUGGINGFACE = Some huggingface_client
   \<and> ''stabilityai/stable-diffusion-xl-base-1.0'' \<in> set (js_values (getAllowedModels huggingface_client))
   \<and> getProviderFromModel factory_openai_huggingface
        ''huggingface/stabilityai/stable-diffusion-xl-base-1.0''
       = Inr (openai_client, Str ''huggingface/stabilityai/stable-diffusion-xl-base-1.0'')
   \<and> openai_client \<noteq> huggingface_client"
  by (simp add: factory_openai_huggingface_built)
     (simp add: factory_openai_huggingface_def getProviderFromModel_def prefixed_match_def
        getAllowedModels_def huggingface_client_def openai_client_def HUGGINGFACE_MODELS_def
        OPENAI_MODELS_def js_values_def js_keys_def js_get_def truthy_value_def Object_prototype_def lookup_or_self_def
        getDefaultProvider_def getProvider_def)

text \<open>
  Claim C9, evaluated where it fails. With the allow-list \<open>stabilityai/sdxl-turbo\<close>
  the Hugging Face client exposes that string as a pass-through key, and
  \<open>getAllProviderModels\<close> hands out \<open>huggingface/stabilityai/sdxl-turbo\<close>.
  Resolving that name gives the OpenAI client and the prefixed string, not the
  Hugging Face client and \<open>stabilityai/sdxl-turbo\<close>.
\<close>

theorem enumerated_name_does_not_resolve_back:
  "fst (ImageProviderFactory env_openai_huggingface cfg_openai_huggingface_turbo)
     = Inr factory_openai_huggingface_turbo
   \<and> map_of (getAllProviderModels factory_openai_huggingface_turbo) ''huggingface''
       = Some [(''huggingface/stabilityai/sdxl-turbo'', ''stabilityai/sdxl-turbo'')]
   \<and> getProviderFromModel factory_openai_huggingface_turbo ''huggingface/stabilityai/sdxl-turbo''
       = Inr (openai_client, Str ''huggingface/stabilityai/sdxl-turbo'')
   \<and> openai_client \<noteq> huggingface_turbo_client"
  by (simp add: factory_openai_huggingface_turbo_built)
     (simp add: factory_openai_huggingface_turbo_def getProviderFromModel_def prefixed_match_def
        getAllowedModels_def huggingface_turbo_client_def openai_client_def getAllProviderModels_def
        OPENAI_MODELS_def js_values_def js_keys_def js_get_def truthy_value_def Object_prototype_def lookup_or_self_def
        getDefaultProvider_def getProvider_def)
section \<open>Allow-lists and exposed catalogs\<close>

lemma select_models_no_hit:
  "\<forall>m \<in> set ms. find (hit m) d = None \<Longrightarrow>
   select_models pt d hit False ms acc ws = (acc, ws @ map (UnknownModel pt) ms)"
  by (induction ms arbitrary: ws) auto

lemma set_insert_index: "set (insert_index k v ob) = insert (k, v) (set ob)"
proof (induction ob)
  case Nil
  then show ?case by simp
next
  case (Cons a ob)
  obtain k' v' where a: "a = (k', v')" by (cases a)
  show ?case
  proof (cases "is_array_index k' \<and> digits_value k' < digits_value k")
    case True
    then show ?thesis using Cons a by (simp add: insert_commute)
  next
    case False
    then have "insert_index k v (a # ob) = (k, v) # a # ob" using a by auto
    then show ?thesis by simp
  qed
qed


lemma set_js_set_subset: "set (js_set ob k v) \<subseteq> insert (k, v) (set ob)"
proof -
  have "set (map (\<lambda>(k', v'). if k' = k then (k', v) else (k', v')) ob) \<subseteq> insert (k, v) (set ob)"
    by (induction ob) (auto split: if_splits)
  then show ?thesis
    by (auto simp: js_set_def set_insert_index)
qed

lemma keys_js_set:
  "set (js_keys (js_set ob k v)) =
     (if k = ''__proto__'' then set (js_keys ob) else insert k (set (js_keys ob)))"
proof (cases "k = ''__proto__''")
  case True
  then show ?thesis by (simp add: js_set_def)
next
  case False
  show ?thesis
  proof (cases "k \<in> set (js_keys ob)")
    case True
    have "js_keys (map (\<lambda>(k', v'). if k' = k then (k', v) else (k', v')) ob) = js_keys ob"
      unfolding js_keys_def by (induction ob) (auto split: if_splits)
    moreover have "js_set ob k v = map (\<lambda>(k', v'). if k' = k then (k', v) else (k', v')) ob"
      using True False by (simp add: js_set_def)
    moreover have "insert k (set (js_keys ob)) = set (js_keys ob)" using True by blast
    ultimately show ?thesis using False by simp
  next
    case n: False
    have "set (js_keys (insert_index k v ob)) = insert k (set (js_keys ob))"
      unfolding js_keys_def by (simp add: set_insert_index)
    moreover have "set (js_keys (ob @ [(k, v)])) = insert k (set (js_keys ob))"
      unfolding js_keys_def by simp
    moreover have "js_set ob k v = (if is_array_index k then insert_index k v ob else ob @ [(k, v)])"
      using n False by (simp add: js_set_def)
    ultimately show ?thesis using False by simp
  qed
qed

lemma select_models_passthrough:
  assumes "\<forall>m \<in> set ms. find (hit m) d = None"
  shows "\<exists>cat. select_models pt d hit True ms acc ws = (cat, ws)
       \<and> set (js_keys cat) = set (js_keys acc) \<union> (set ms - {''__proto__''})
       \<and> set cat \<subseteq> set acc \<union> (\<lambda>m. (m, m)) ` set ms"
  using assms
proof (induction ms arbitrary: acc)
  case Nil
  then show ?case by simp
next
  case (Cons m ms)
  then have nh: "\<forall>m \<in> set ms. find (hit m) d = None" and h: "find (hit m) d = None" by simp_all
  from Cons.IH[OF nh, of "js_set acc m m"]
  obtain cat where c: "select_models pt d hit True ms (js_set acc m m) ws = (cat, ws)"
    "set (js_keys cat) = set (js_keys (js_set acc m m)) \<union> (set ms - {''__proto__''})"
    "set cat \<subseteq> set (js_set acc m m) \<union> (\<lambda>m. (m, m)) ` set ms" by blast
  have 1: "select_models pt d hit True (m # ms) acc ws = (cat, ws)" using h c(1) by simp
  have 2: "set (js_keys cat) = set (js_keys acc) \<union> (set (m # ms) - {''__proto__''})"
    unfolding c(2) keys_js_set by auto
  have 3: "set cat \<subseteq> set acc \<union> (\<lambda>m. (m, m)) ` set (m # ms)"
    using c(3) set_js_set_subset[of acc m m] by auto
  show ?case using 1 2 3 by blast
qed


lemma choose_catalog_no_hit:
  assumes "ms \<noteq> []" "\<forall>m \<in> set ms. find (hit m) d = None"
  shows "choose_catalog pt d fb hit False (Some ms)
           = (fb, map (UnknownModel pt) ms @ [NoValidModels pt])"
  using assms(1) select_models_no_hit[OF assms(2), of pt "[]" "[]"]
  by (simp add: choose_catalog_def js_keys_def)

lemma choose_catalog_passthrough:
  assumes "ms \<noteq> []" "\<forall>m \<in> set ms. find (hit m) d = None"
  shows "\<exists>cat ws. choose_catalog pt d fb hit True (Some ms) = (cat, ws)
          \<and> (if set ms \<subseteq> {''__proto__''} then cat = fb \<and> ws = [NoValidModels pt]
              else set (js_keys cat) = set ms - {''__proto__''}
                   \<and> (\<forall>(k, v) \<in> set cat. v = k) \<and> ws = [])"
proof -
  from select_models_passthrough[OF assms(2), of pt "[]" "[]"]
  obtain cat where c: "select_models pt d hit True ms [] [] = (cat, [])"
    "set (js_keys cat) = set (js_keys []) \<union> (set ms - {''__proto__''})"
    "set cat \<subseteq> set [] \<union> (\<lambda>m. (m, m)) ` set ms" by blast
  have k: "set (js_keys cat) = set ms - {''__proto__''}" using c(2) by (simp add: js_keys_def)
  have d: "\<forall>(k, v) \<in> set cat. v = k" using c(3) by auto
  have "(length (js_keys cat) = 0) = (set (js_keys cat) = {})" by simp
  also have "\<dots> = (set ms \<subseteq> {''__proto__''})" unfolding k by blast
  finally have e: "(length (js_keys cat) = 0) = (set ms \<subseteq> {''__proto__''})" .
  show ?thesis
  proof (cases "set ms \<subseteq> {''__proto__''}")
    case True
    then show ?thesis using assms(1) c(1) e by (simp add: choose_catalog_def)
  next
    case False
    then show ?thesis using assms(1) c(1) e k d by (simp add: choose_catalog_def)
  qed
qed

lemma my_model_no_replicate_hit: "find (replicate_hit ''my-model'') REPLICATE_MODELS = None"
  by (simp add: replicate_hit_def REPLICATE_MODELS_def toLowerCase_def to_lower_char_def)

lemma my_model_no_huggingface_hit: "find (huggingface_hit ''my-model'') HUGGINGFACE_MODELS = None"
  by (simp add: huggingface_hit_def HUGGINGFACE_MODELS_def)

text \<open>
  Claim C7, as amended. Constructed with a credential and a non-empty allow-list of
  which no entry matches the default catalog: the OpenAI and the Stability client warn
  once per entry, warn that no model is valid, and expose their full default catalog.
  The Replicate and the Hugging Face client instead expose every such entry as a
  pass-through model whose key and value are the entry itself, without a warning;
  only when no property was created (every entry is \<open>__proto__\<close>) do they warn and
  fall back, to the single entry \<open>STABLE_DIFFUSION_XL\<close>.
\<close>

theorem unmatched_allow_list_catalog:
  assumes "truthy key" and "allow \<noteq> []"
  shows "((\<forall>m \<in> set allow. m \<notin> set (js_values OPENAI_MODELS)) \<longrightarrow>
           OpenAIImageProvider \<lparr>apiKey = key, allowedModels = Some allow\<rparr>
             = Inr (\<lparr>ptype = OPENAI, credential = the key, catalog = OPENAI_MODELS\<rparr>,
                    map (UnknownModel OPENAI) allow @ [NoValidModels OPENAI]))
       \<and> ((\<forall>m \<in> set allow. m \<notin> set (js_values STABILITY_MODELS)) \<longrightarrow>
           StabilityImageProvider \<lparr>apiKey = key, allowedModels = Some allow\<rparr>
             = Inr (\<lparr>ptype = STABILITY, credential = the key, catalog = STABILITY_MODELS\<rparr>,
                    map (UnknownModel STABILITY) allow @ [NoValidModels STABILITY]))
       \<and> ((\<forall>m \<in> set allow. find (replicate_hit m) REPLICATE_MODELS = None) \<longrightarrow>
           (\<exists>cat ws. ReplicateImageProvider \<lparr>apiKey = key, allowedModels = Some allow\<rparr>
                       = Inr (\<lparr>ptype = REPLICATE, credential = the key, catalog = cat\<rparr>, ws)
               \<and> (if set allow \<subseteq> {''__proto__''}
                    then cat = take 1 REPLICATE_MODELS \<and> ws = [NoValidModels REPLICATE]
                    else set (js_keys cat) = set allow - {''__proto__''}
                         \<and> (\<forall>(k, v) \<in> set cat. v = k) \<and> ws = [])))
       \<and> ((\<forall>m \<in> set allow. find (huggingface_hit m) HUGGINGFACE_MODELS = None) \<longrightarrow>
           (\<exists>cat ws. HuggingFaceImageProvider \<lparr>apiKey = key, allowedModels = Some allow\<rparr>
                       = Inr (\<lparr>ptype = HUGGINGFACE, credential = the key, catalog = cat\<rparr>, ws)
               \<and> (if set allow \<subseteq> {''__proto__''}
                    then cat = take 1 HUGGINGFACE_MODELS \<and> ws = [NoValidModels HUGGINGFACE]
                    else set (js_keys cat) = set allow - {''__proto__''}
                         \<and> (\<forall>(k, v) \<in> set cat. v = k) \<and> ws = [])))"
proof (intro conjI impI)
  assume "\<forall>m \<in> set allow. m \<notin> set (js_values OPENAI_MODELS)"
  then have "\<forall>m \<in> set allow. find (by_value m) OPENAI_MODELS = None"
    by (auto simp: find_None_iff by_value_def js_values_def)
  from choose_catalog_no_hit[OF assms(2) this]
  show "OpenAIImageProvider \<lparr>apiKey = key, allowedModels = Some allow\<rparr>
             = Inr (\<lparr>ptype = OPENAI, credential = the key, catalog = OPENAI_MODELS\<rparr>,
                    map (UnknownModel OPENAI) allow @ [NoValidModels OPENAI])"
    using assms(1) by (simp add: OpenAIImageProvider_def)
next
  assume "\<forall>m \<in> set allow. m \<notin> set (js_values STABILITY_MODELS)"
  then have "\<forall>m \<in> set allow. find (by_value m) STABILITY_MODELS = None"
    by (auto simp: find_None_iff by_value_def js_values_def)
  from choose_catalog_no_hit[OF assms(2) this]
  show "StabilityImageProvider \<lparr>apiKey = key, allowedModels = Some allow\<rparr>
             = Inr (\<lparr>ptype = STABILITY, credential = the key, catalog = STABILITY_MODELS\<rparr>,
                    map (UnknownModel STABILITY) allow @ [NoValidModels STABILITY])"
    using assms(1) by (simp add: StabilityImageProvider_def)
next
  assume h: "\<forall>m \<in> set allow. find (replicate_hit m) REPLICATE_MODELS = None"
  have fb: "[(''STABLE_DIFFUSION_XL'', the (map_of REPLICATE_MODELS ''STABLE_DIFFUSION_XL''))]
              = take 1 REPLICATE_MODELS"
    by (simp add: REPLICATE_MODELS_def)
  from choose_catalog_passthrough[OF assms(2) h, of REPLICATE "take 1 REPLICATE_MODELS"]
  obtain cat ws where
    c: "choose_catalog REPLICATE REPLICATE_MODELS (take 1 REPLICATE_MODELS) replicate_hit True (Some allow)
          = (cat, ws)"
    and p: "if set allow \<subseteq> {''__proto__''}
            then cat = take 1 REPLICATE_MODELS \<and> ws = [NoValidModels REPLICATE]
            else set (js_keys cat) = set allow - {''__proto__''}
                 \<and> (\<forall>(k, v) \<in> set cat. v = k) \<and> ws = []"
    by blast
  have "ReplicateImageProvider \<lparr>apiKey = key, allowedModels = Some allow\<rparr>
          = Inr (\<lparr>ptype = REPLICATE, credential = the key, catalog = cat\<rparr>, ws)"
    using assms(1) c unfolding ReplicateImageProvider_def fb by simp
  with p show "\<exists>cat ws. ReplicateImageProvider \<lparr>apiKey = key, allowedModels = Some allow\<rparr>
                       = Inr (\<lparr>ptype = REPLICATE, credential = the key, catalog = cat\<rparr>, ws)
               \<and> (if set allow \<subseteq> {''__proto__''}
                    then cat = take 1 REPLICATE_MODELS \<and> ws = [NoValidModels REPLICATE]
                    else set (js_keys cat) = set allow - {''__proto__''}
                         \<and> (\<forall>(k, v) \<in> set cat. v = k) \<and> ws = [])"
    by blast
next
  assume h: "\<forall>m \<in> set allow. find (huggingface_hit m) HUGGINGFACE_MODELS = None"
  have fb: "[(''STABLE_DIFFUSION_XL'', the (map_of HUGGINGFACE_MODELS ''STABLE_DIFFUSION_XL''))]
              = take 1 HUGGINGFACE_MODELS"
    by (simp add: HUGGINGFACE_MODELS_def)
  from choose_catalog_passthrough[OF assms(2) h, of HUGGINGFACE "take 1 HUGGINGFACE_MODELS"]
  obtain cat ws where
    c: "choose_catalog HUGGINGFACE HUGGINGFACE_MODELS (take 1 HUGGINGFACE_MODELS) huggingface_hit True (Some allow)
          = (cat, ws)"
    and p: "if set allow \<subseteq> {''__proto__''}
            then cat = take 1 HUGGINGFACE_MODELS \<and> ws = [NoValidModels HUGGINGFACE]
            else set (js_keys cat) = set allow - {''__proto__''}
                 \<and> (\<forall>(k, v) \<in> set cat. v = k) \<and> ws = []"
    by blast
  have "HuggingFaceImageProvider \<lparr>apiKey = key, allowedModels = Some allow\<rparr>
          = Inr (\<lparr>ptype = HUGGINGFACE, credential = the key, catalog = cat\<rparr>, ws)"
    using assms(1) c unfolding HuggingFaceImageProvider_def fb by simp
  with p show "\<exists>cat ws. HuggingFaceImageProvider \<lparr>apiKey = key, allowedModels = Some allow\<rparr>
                       = Inr (\<lparr>ptype = HUGGINGFACE, credential = the key, catalog = cat\<rparr>, ws)
               \<and> (if set allow \<subseteq> {''__proto__''}
                    then cat = take 1 HUGGINGFACE_MODELS \<and> ws = [NoValidModels HUGGINGFACE]
                    else set (js_keys cat) = set allow - {''__proto__''}
                         \<and> (\<forall>(k, v) \<in> set cat. v = k) \<and> ws = [])"
    by blast
qed

theorem unmatched_allow_list_catalog_witness:
  "OpenAIImageProvider \<lparr>apiKey = Some ''sk-test'', allowedModels = Some [''my-model'']\<rparr>
     = Inr (\<lparr>ptype = OPENAI, credential = ''sk-test'', catalog = OPENAI_MODELS\<rparr>,
            [UnknownModel OPENAI ''my-model'', NoValidModels OPENAI])
   \<and> StabilityImageProvider \<lparr>apiKey = Some ''sk-test'', allowedModels = Some [''my-model'']\<rparr>
     = Inr (\<lparr>ptype = STABILITY, credential = ''sk-test'', catalog = STABILITY_MODELS\<rparr>,
            [UnknownModel STABILITY ''my-model'', NoValidModels STABILITY])
   \<and> (\<exists>cat. ReplicateImageProvider \<lparr>apiKey = Some ''sk-test'', allowedModels = Some [''my-model'']\<rparr>
         = Inr (\<lparr>ptype = REPLICATE, credential = ''sk-test'', catalog = cat\<rparr>, [])
        \<and> set (js_keys cat) = {''my-model''})
   \<and> (\<exists>cat. HuggingFaceImageProvider \<lparr>apiKey = Some ''sk-test'', allowedModels = Some [''my-model'']\<rparr>
         = Inr (\<lparr>ptype = HUGGINGFACE, credential = ''sk-test'', catalog = cat\<rparr>, [])
        \<and> set (js_keys cat) = {''my-model''})"
proof -
  have t: "truthy (Some ''sk-test'')" by (simp add: truthy_def)
  have n: "[''my-model''] \<noteq> []" by simp
  have o: "\<forall>m \<in> set [''my-model'']. m \<notin> set (js_values OPENAI_MODELS)"
    by (simp add: OPENAI_MODELS_def js_values_def)
  have s: "\<forall>m \<in> set [''my-model'']. m \<notin> set (js_values STABILITY_MODELS)"
    by (simp add: STABILITY_MODELS_def js_values_def)
  have r: "\<forall>m \<in> set [''my-model'']. find (replicate_hit m) REPLICATE_MODELS = None"
    by (simp add: my_model_no_replicate_hit)
  have h: "\<forall>m \<in> set [''my-model'']. find (huggingface_hit m) HUGGINGFACE_MODELS = None"
    by (simp add: my_model_no_huggingface_hit)
  have p: "\<not> set [''my-model''] \<subseteq> {''__proto__''}" by simp
  show ?thesis
    using unmatched_allow_list_catalog[OF t n] o s r h p by auto
qed

text \<open>
  Claim C7 as stated fails for the Replicate client: the allow-list \<open>my-model\<close>
  matches no key and no value of \<open>REPLICATE_MODELS\<close>, construction succeeds
  without a warning, and the exposed catalog is the single pass-through entry.
\<close>

theorem replicate_unmatched_entry_is_exposed:
  "find (replicate_hit ''my-model'') REPLICATE_MODELS = None
   \<and> ''my-model'' \<notin> set (js_keys REPLICATE_MODELS)
   \<and> ''my-model'' \<notin> set (js_values REPLICATE_MODELS)
   \<and> ReplicateImageProvider \<lparr>apiKey = Some ''r8-test'', allowedModels = Some [''my-model'']\<rparr>
       = Inr (\<lparr>ptype = REPLICATE, credential = ''r8-test'',
               catalog = [(''my-model'', ''my-model'')]\<rparr>, [])
   \<and> [(''my-model'', ''my-model'')] \<noteq> REPLICATE_MODELS"
  by (simp add: my_model_no_replicate_hit ReplicateImageProvider_def choose_catalog_def truthy_def
        js_set_def js_keys_def is_array_index_def is_digit_def)
     (simp add: REPLICATE_MODELS_def js_values_def)

section \<open>Validation before the backend call\<close>

lemma OpenAIImageClient_generateImages_eq:
  "OpenAIImageClient_generateImages p w req = OpenAIImageProvider_generateImages p w req"
  by (simp add: OpenAIImageClient_generateImages_def OpenAIImageProvider_generateImages_def
        validateParams_def Let_def)

lemma generate_cascade:
  "OpenAIImageProvider_generateImages p w req =
     (let r = generation_requestParams p req in
      if prompt req = [] then (Inl (Error ''Prompt is required''), [])
      else if not_allowed p r
      then (Inl (model_not_allowed (rq_model r) (js_values (catalog p))), [])
      else if too_many r then (Inl (Error ''dall-e-3 model only supports n=1''), [])
      else if bad_size2 r
      then (Inl (Error ''dall-e-2 only supports sizes 256x256, 512x512, or 1024x1024''), [])
      else if bad_size3 r
      then (Inl (Error ''dall-e-3 only supports sizes 1024x1024, 1792x1024, or 1024x1792''), [])
      else if bad_transparency r
      then (Inl (Error ''When background is transparent, output_format must be png or webp''), [])
      else
        (let r2 = (if rq_model r \<noteq> Some (Str ''dall-e-3'') then r\<lparr>rq_style := None\<rparr> else r);
             cleanedParams =
               (if rq_model r \<noteq> Some (Str ''dall-e-2'') \<and> rq_model r \<noteq> Some (Str ''dall-e-3'')
                then r2\<lparr>rq_response_format := None\<rparr> else r2);
             request = \<lparr>target = OpenAI_baseUrl, authorization = ''Bearer '' @ credential p,
                        payload = JsonBody cleanedParams\<rparr>
         in (api_reply ''OpenAI'' (fetch_images w request), [Fetch request])))"
proof -
  define r where "r = generation_requestParams p req"
  have n: "(case rq_n r of None \<Rightarrow> False | Some k \<Rightarrow> k \<noteq> 0 \<and> k > 1)
            = (\<exists>k. rq_n r = Some k \<and> k > 1)"
    by (cases "rq_n r") auto
  have s: "(truthy x \<and> x \<noteq> Some a \<and> x \<noteq> Some b \<and> x \<noteq> Some c)
             = (truthy x \<and> the x \<notin> {a, b, c})" for x a b c
    by (cases x) auto
  have t: "(truthy x \<and> x \<noteq> Some a \<and> x \<noteq> Some b) = (truthy x \<and> the x \<notin> {a, b})" for x a b
    by (cases x) auto
  show ?thesis
    unfolding OpenAIImageProvider_generateImages_def validateParams_def Let_def r_def[symmetric]
      not_allowed_def too_many_def bad_size2_def bad_size3_def bad_transparency_def
      n[symmetric] s[symmetric] t[symmetric]
    by (simp split: if_splits)
qed

text \<open>
  Claim C3, as amended. Let \<open>r\<close> be the request after the defaults are applied. If
  \<open>r\<close> asks dall-e-3 for more than one image, or gives dall-e-2 or dall-e-3 a
  non-empty size outside that model's list, or asks for a transparent background with a
  non-empty output format other than png or webp, then \<open>generateImages\<close>, of the
  provider and of the earlier client alike, throws an \<open>Error\<close> and issues no backend
  call. The message is that of the first check that fails, in the order: prompt,
  allow-list, image count, dall-e-2 sizes, dall-e-3 sizes, transparency; so with a
  non-empty prompt and a model of the allow-list it names a violated constraint.
\<close>

theorem constraint_violation_rejected_before_fetch:
  assumes "r = generation_requestParams p req"
    and "(rq_model r = Some (Str ''dall-e-3'') \<and> (\<exists>k. rq_n r = Some k \<and> k > 1))
       \<or> (rq_model r = Some (Str ''dall-e-2'') \<and> truthy (rq_size r)
            \<and> the (rq_size r) \<notin> {''256x256'', ''512x512'', ''1024x1024''})
       \<or> (rq_model r = Some (Str ''dall-e-3'') \<and> truthy (rq_size r)
            \<and> the (rq_size r) \<notin> {''1024x1024'', ''1792x1024'', ''1024x1792''})
       \<or> (rq_background r = Some ''transparent'' \<and> truthy (rq_output_format r)
            \<and> the (rq_output_format r) \<notin> {''png'', ''webp''})"
  shows "\<exists>msg. OpenAIImageProvider_generateImages p w req = (Inl (Error msg), [])
           \<and> OpenAIImageClient_generateImages p w req = (Inl (Error msg), [])
           \<and> msg =
               (if prompt req = [] then ''Prompt is required''
                else if truthy_value (rq_model r)
                        \<and> \<not> includes_value (js_values (catalog p)) (the (rq_model r))
                then error_text (model_not_allowed (rq_model r) (js_values (catalog p)))
                else if rq_model r = Some (Str ''dall-e-3'') \<and> (\<exists>k. rq_n r = Some k \<and> k > 1)
                then ''dall-e-3 model only supports n=1''
                else if rq_model r = Some (Str ''dall-e-2'') \<and> truthy (rq_size r)
                        \<and> the (rq_size r) \<notin> {''256x256'', ''512x512'', ''1024x1024''}
                then ''dall-e-2 only supports sizes 256x256, 512x512, or 1024x1024''
                else if rq_model r = Some (Str ''dall-e-3'') \<and> truthy (rq_size r)
                        \<and> the (rq_size r) \<notin> {''1024x1024'', ''1792x1024'', ''1024x1792''}
                then ''dall-e-3 only supports sizes 1024x1024, 1792x1024, or 1024x1792''
                else ''When background is transparent, output_format must be png or webp'')"
proof -
  have v: "too_many r \<or> bad_size2 r \<or> bad_size3 r \<or> bad_transparency r"
    using assms(2) unfolding too_many_def bad_size2_def bad_size3_def bad_transparency_def .
  have "\<exists>msg. OpenAIImageProvider_generateImages p w req = (Inl (Error msg), [])
           \<and> OpenAIImageProvider_generateImages p w req = (Inl (Error msg), [])
           \<and> msg =
               (if prompt req = [] then ''Prompt is required''
                else if not_allowed p r
                then error_text (model_not_allowed (rq_model r) (js_values (catalog p)))
                else if too_many r then ''dall-e-3 model only supports n=1''
                else if bad_size2 r
                then ''dall-e-2 only supports sizes 256x256, 512x512, or 1024x1024''
                else if bad_size3 r
                then ''dall-e-3 only supports sizes 1024x1024, 1792x1024, or 1024x1792''
                else ''When background is transparent, output_format must be png or webp'')"
    using v by (auto simp add: generate_cascade Let_def assms(1)[symmetric] model_not_allowed_def)
  then show ?thesis
    unfolding OpenAIImageClient_generateImages_eq
      not_allowed_def too_many_def bad_size2_def bad_size3_def bad_transparency_def .
qed

lemma example_generation_body:
  "rq_model (generation_requestParams c (generation_request m k sz)) = Some (Str m)"
  "rq_n (generation_requestParams c (generation_request m k sz)) = Some k"
  "rq_size (generation_requestParams c (generation_request m k sz))
     = spread (Some ''1024x1024'') sz"
  "rq_background (generation_requestParams c (generation_request m k sz)) = Some ''auto''"
  "prompt (generation_request m k sz) = ''a red circle''"
  by (simp_all add: generation_requestParams_def generation_request_def spread_def)

lemma example_catalogs:
  "js_values (catalog openai_client) = [''gpt-image-1'', ''dall-e-2'', ''dall-e-3'']"
  "js_values (catalog openai_gpt_only_client) = [''gpt-image-1'']"
  by (simp_all add: openai_client_def openai_gpt_only_client_def OPENAI_MODELS_def js_values_def)

theorem constraint_violation_rejected_before_fetch_witness:
  "OpenAIImageProvider_generateImages openai_client world_one_file
       (generation_request ''dall-e-3'' 2 Omitted)
     = (Inl (Error ''dall-e-3 model only supports n=1''), [])
   \<and> OpenAIImageClient_generateImages openai_client world_one_file
       (generation_request ''dall-e-3'' 2 Omitted)
     = (Inl (Error ''dall-e-3 model only supports n=1''), [])"
proof -
  let ?r = "generation_requestParams openai_client (generation_request ''dall-e-3'' 2 Omitted)"
  have h: "(rq_model ?r = Some (Str ''dall-e-3'') \<and> (\<exists>k. rq_n ?r = Some k \<and> k > 1))
       \<or> (rq_model ?r = Some (Str ''dall-e-2'') \<and> truthy (rq_size ?r)
            \<and> the (rq_size ?r) \<notin> {''256x256'', ''512x512'', ''1024x1024''})
       \<or> (rq_model ?r = Some (Str ''dall-e-3'') \<and> truthy (rq_size ?r)
            \<and> the (rq_size ?r) \<notin> {''1024x1024'', ''1792x1024'', ''1024x1792''})
       \<or> (rq_background ?r = Some ''transparent'' \<and> truthy (rq_output_format ?r)
            \<and> the (rq_output_format ?r) \<notin> {''png'', ''webp''})"
    by (simp add: example_generation_body)
  from constraint_violation_rejected_before_fetch[OF refl h, of world_one_file]
  show ?thesis
    by (simp add: example_generation_body example_catalogs includes_value_def truthy_value_def)
qed

text \<open>
  Claim C3 as stated fails at two requests. A request for dall-e-2 with the empty
  string as size, which is outside the list of dall-e-2, is sent to the backend: the
  size checks are guarded by \<open>requestParams.size &&\<close>. A request for two images from
  dall-e-3, made of a client whose allow-list holds gpt-image-1 only, fails with the
  error of the allow-list, which names no constraint of dall-e-3.
\<close>

theorem empty_size_reaches_backend:
  "rq_model (generation_requestParams openai_client (generation_request ''dall-e-2'' 1 (Given [])))
     = Some (Str ''dall-e-2'')
   \<and> rq_size (generation_requestParams openai_client (generation_request ''dall-e-2'' 1 (Given [])))
     = Some []
   \<and> [] \<notin> {''256x256'', ''512x512'', ''1024x1024''}
   \<and> fst (OpenAIImageProvider_generateImages openai_client world_one_file
             (generation_request ''dall-e-2'' 1 (Given [])))
       = Inr \<lparr>created = 0, data = []\<rparr>
   \<and> length (snd (OpenAIImageProvider_generateImages openai_client world_one_file
                     (generation_request ''dall-e-2'' 1 (Given [])))) = 1
   \<and> rq_model (generation_requestParams openai_gpt_only_client
                 (generation_request ''dall-e-3'' 2 Omitted)) = Some (Str ''dall-e-3'')
   \<and> rq_n (generation_requestParams openai_gpt_only_client
             (generation_request ''dall-e-3'' 2 Omitted)) = Some 2
   \<and> OpenAIImageProvider_generateImages openai_gpt_only_client world_one_file
         (generation_request ''dall-e-3'' 2 Omitted)
       = (Inl (Error (''Model '' @ [CHR 0x22] @ ''dall-e-3'' @ [CHR 0x22]
                       @ '' is not allowed. Allowed models: gpt-image-1'')), [])"
proof -
  have w: "fetch_images world_one_file = (\<lambda>r. Ok \<lparr>created = 0, data = []\<rparr>)"
    by (simp add: world_one_file_def)
  have a: "fst (OpenAIImageProvider_generateImages openai_client world_one_file
             (generation_request ''dall-e-2'' 1 (Given [])))
       = Inr \<lparr>created = 0, data = []\<rparr>
     \<and> length (snd (OpenAIImageProvider_generateImages openai_client world_one_file
                     (generation_request ''dall-e-2'' 1 (Given [])))) = 1"
    by (simp add: generate_cascade Let_def example_generation_body example_catalogs
          not_allowed_def too_many_def bad_size2_def bad_size3_def bad_transparency_def
          includes_value_def truthy_value_def spread_def api_reply_def w)
  have b: "OpenAIImageProvider_generateImages openai_gpt_only_client world_one_file
         (generation_request ''dall-e-3'' 2 Omitted)
       = (Inl (Error (''Model '' @ [CHR 0x22] @ ''dall-e-3'' @ [CHR 0x22]
                       @ '' is not allowed. Allowed models: gpt-image-1'')), [])"
    by (simp add: generate_cascade Let_def example_generation_body example_catalogs
          not_allowed_def includes_value_def truthy_value_def model_not_allowed_def
          js_to_string_def)
  show ?thesis using a b by (simp add: example_generation_body spread_def)
qed

section \<open>Editing: files are checked before the backend is called\<close>

lemma read_images_Inr:
  "read_images w fs = Inr files \<Longrightarrow> \<forall>f \<in> set fs. existsSync w f"
  by (induction fs arbitrary: files) (auto split: sum.splits if_splits)

lemma read_images_missing:
  "\<exists>f \<in> set fs. \<not> existsSync w f \<Longrightarrow> \<exists>e. read_images w fs = Inl e"
  using read_images_Inr[of w fs] by (cases "read_images w fs") auto

lemma read_images_first_missing:
  "\<forall>f \<in> set fs. existsSync w f \<longrightarrow> \<not> isl (readFileSync w f) \<Longrightarrow>
   find (\<lambda>f. \<not> existsSync w f) fs = Some f \<Longrightarrow>
   read_images w fs = Inl (Error (''Image file not found: '' @ f))"
  by (induction fs) (auto split: sum.splits if_splits)

lemma read_images_all_present:
  "\<forall>f \<in> set fs. existsSync w f \<and> \<not> isl (readFileSync w f) \<Longrightarrow>
   \<exists>files. read_images w fs = Inr files"
  by (induction fs) (auto split: sum.splits)

lemma read_mask_missing:
  "truthy m \<Longrightarrow> \<not> existsSync w (the m) \<Longrightarrow>
   read_mask w m = Inl (Error (''Mask file not found: '' @ the m))"
  by (simp add: read_mask_def)

lemma OpenAI_edit_missing:
  assumes "(\<exists>f \<in> set (images req). \<not> existsSync w f)
           \<or> (truthy (defined (mask req)) \<and> \<not> existsSync w (the (defined (mask req))))"
  shows "\<exists>e. OpenAIImageProvider_editImages p w req = (Inl e, [])"
proof (cases "OpenAI_edit_checks p req")
  case (Some e)
  then show ?thesis by (simp add: OpenAIImageProvider_editImages_def)
next
  case None
  show ?thesis
  proof (cases "read_images w (images req)")
    case (Inl e)
    then show ?thesis using None by (simp add: OpenAIImageProvider_editImages_def)
  next
    case (Inr files)
    then have "\<not> (\<exists>f \<in> set (images req). \<not> existsSync w f)"
      using read_images_missing[of "images req" w] by auto
    then have "read_mask w (defined (mask req))
                 = Inl (Error (''Mask file not found: '' @ the (defined (mask req))))"
      using assms read_mask_missing by blast
    then show ?thesis using None Inr by (simp add: OpenAIImageProvider_editImages_def)
  qed
qed

lemma OpenAI_edit_names_path:
  assumes "OpenAI_edit_checks p req = None"
    and "\<forall>f \<in> set (images req). existsSync w f \<longrightarrow> \<not> isl (readFileSync w f)"
    and "(\<exists>f \<in> set (images req). \<not> existsSync w f)
           \<or> (truthy (defined (mask req)) \<and> \<not> existsSync w (the (defined (mask req))))"
  shows "OpenAIImageProvider_editImages p w req =
           (Inl (Error (case find (\<lambda>f. \<not> existsSync w f) (images req) of
                          Some f \<Rightarrow> ''Image file not found: '' @ f
                        | None \<Rightarrow> ''Mask file not found: '' @ the (defined (mask req)))), [])"
proof (cases "find (\<lambda>f. \<not> existsSync w f) (images req)")
  case (Some f)
  from read_images_first_missing[OF assms(2) Some]
  show ?thesis using assms(1) Some by (simp add: OpenAIImageProvider_editImages_def)
next
  case None
  then have all: "\<forall>f \<in> set (images req). existsSync w f \<and> \<not> isl (readFileSync w f)"
    using assms(2) by (auto simp: find_None_iff)
  then obtain files where f: "read_images w (images req) = Inr files"
    using read_images_all_present by blast
  have "read_mask w (defined (mask req))
          = Inl (Error (''Mask file not found: '' @ the (defined (mask req))))"
    using assms(3) all read_mask_missing by blast
  then show ?thesis using assms(1) None f by (simp add: OpenAIImageProvider_editImages_def)
qed

lemma first_file_cases:
  "(\<not> existsSync w f \<or> isl (readFileSync w f))
   \<or> (existsSync w f \<and> (\<exists>b. readFileSync w f = Inr b))"
  by (cases "readFileSync w f") auto

lemma Stability_edit_missing:
  assumes "\<not> existsSync w (hd (images req))
           \<or> (truthy (defined (mask req)) \<and> \<not> existsSync w (the (defined (mask req))))"
  shows "\<exists>e. StabilityImageProvider_editImages p w req = (Inl e, [])"
  using assms
  by (cases "Stability_edit_model p req"; cases "readFileSync w (hd (images req))")
     (auto simp: StabilityImageProvider_editImages_def Let_def read_mask_missing)

lemma Stability_edit_names_path:
  assumes "Stability_edit_model p req = Inr m"
  shows "\<not> existsSync w (hd (images req)) \<Longrightarrow>
         StabilityImageProvider_editImages p w req
           = (Inl (Error (''Image file not found: '' @ hd (images req))), [])"
    and "existsSync w (hd (images req)) \<Longrightarrow> \<not> isl (readFileSync w (hd (images req))) \<Longrightarrow>
         truthy (defined (mask req)) \<Longrightarrow> \<not> existsSync w (the (defined (mask req))) \<Longrightarrow>
         StabilityImageProvider_editImages p w req
           = (Inl (Error (''Mask file not found: '' @ the (defined (mask req)))), [])"
  using assms
  by (cases "readFileSync w (hd (images req))";
      auto simp: StabilityImageProvider_editImages_def Let_def read_mask_missing)+

lemma Replicate_try_missing:
  assumes "\<not> existsSync w (hd (images req))
           \<or> (truthy (defined (mask req)) \<and> \<not> existsSync w (the (defined (mask req))))"
  shows "\<exists>e. Replicate_edit_try w req m mv = (Inl e, [])"
  using assms
  by (cases "readFileSync w (hd (images req))")
     (auto simp: Replicate_edit_try_def Let_def read_mask_missing)

lemma Replicate_edit_missing:
  assumes "\<not> existsSync w (hd (images req))
           \<or> (truthy (defined (mask req)) \<and> \<not> existsSync w (the (defined (mask req))))"
  shows "\<exists>e. ReplicateImageProvider_editImages p w req = (Inl e, [])"
proof (cases "named_model p req")
  case (Inl e)
  then show ?thesis by (simp add: ReplicateImageProvider_editImages_def)
next
  case (Inr r)
  obtain m mv where r: "r = (m, mv)" by (cases r)
  from Replicate_try_missing[OF assms, of m mv]
  show ?thesis using Inr r by (auto simp: ReplicateImageProvider_editImages_def)
qed

lemma Replicate_edit_names_path:
  assumes "named_model p req = Inr (m, mv)"
  shows "\<not> existsSync w (hd (images req)) \<Longrightarrow>
         ReplicateImageProvider_editImages p w req
           = (Inl (Error (''Replicate API error: Image file not found: '' @ hd (images req))), [])"
    and "existsSync w (hd (images req)) \<Longrightarrow> \<not> isl (readFileSync w (hd (images req))) \<Longrightarrow>
         truthy (defined (mask req)) \<Longrightarrow> \<not> existsSync w (the (defined (mask req))) \<Longrightarrow>
         ReplicateImageProvider_editImages p w req
           = (Inl (Error (''Replicate API error: Mask file not found: ''
                           @ the (defined (mask req)))), [])"
  using assms
  by (cases "readFileSync w (hd (images req))";
      auto simp: ReplicateImageProvider_editImages_def Replicate_edit_try_def Let_def
        read_mask_missing)+

lemma HuggingFace_edit_missing:
  assumes "\<not> existsSync w (hd (images req))"
  shows "\<exists>e. HuggingFaceImageProvider_editImages p w req = (Inl e, [])"
  using assms
  by (cases "named_model p req")
     (auto simp: HuggingFaceImageProvider_editImages_def HuggingFace_edit_try_def Let_def)

lemma HuggingFace_edit_names_path:
  assumes "named_model p req = Inr (m, mv)" "\<not> existsSync w (hd (images req))"
  shows "HuggingFaceImageProvider_editImages p w req
           = (Inl (Error (''HuggingFace API error: Image file not found: '' @ hd (images req))), [])"
  using assms
  by (auto simp: HuggingFaceImageProvider_editImages_def HuggingFace_edit_try_def Let_def)


lemma example_edit_facts:
  "images (edit_request fs) = fs" "defined (mask (edit_request fs)) = None"
  "prompt (edit_request fs) = ''add a hat''" "model (edit_request fs) = Omitted"
  "img_size (edit_request fs) = Omitted"
  by (simp_all add: edit_request_def defined_def)

lemma example_world_facts:
  "existsSync world_one_file f
     = (f \<in> {''/'', ''/tmp'', ''/tmp/a.png'', ''/tmp/locked.png''})"
  "readFileSync world_one_file ''/tmp/a.png'' = Inr [1, 2, 3]"
  by (simp_all add: world_one_file_def)

lemma example_checks:
  "OpenAI_edit_checks openai_client (edit_request [f]) = None"
  "Stability_edit_model stability_client (edit_request [f]) = Inr ''stable-diffusion-xl-1024-v1-0''"
  "\<exists>m. named_model replicate_client (edit_request (f # fs)) = Inr m"
  "\<exists>m. named_model huggingface_client (edit_request [f]) = Inr m"
     apply (simp add: OpenAI_edit_checks_def example_edit_facts validateParams_def spread_def
        openai_client_def OPENAI_MODELS_def js_values_def truthy_value_def includes_value_def)
    apply (simp add: Stability_edit_model_def example_edit_facts validateParams_def value_or_def
        stability_client_def STABILITY_MODELS_def js_values_def truthy_value_def
        getDefaultModel_def defined_def)
   apply (simp add: named_model_def example_edit_facts validateParams_def value_or_def
        replicate_client_def REPLICATE_MODELS_def js_keys_def js_get_def truthy_value_def
        element_at_def defined_def js_to_string_def)
  apply (simp add: named_model_def example_edit_facts validateParams_def value_or_def
        huggingface_client_def HUGGINGFACE_MODELS_def js_keys_def js_get_def truthy_value_def
        element_at_def defined_def js_to_string_def)
  done

lemma Stability_edit_first_only:
  "images req \<noteq> [] \<Longrightarrow>
   StabilityImageProvider_editImages p w req
     = StabilityImageProvider_editImages p w (req\<lparr>images := [hd (images req)]\<rparr>)"
  by (simp add: StabilityImageProvider_editImages_def Stability_edit_model_def Let_def
       cong: sum.case_cong option.case_cong prod.case_cong js_value.case_cong if_cong)

lemma Replicate_edit_first_only:
  "images req \<noteq> [] \<Longrightarrow>
   ReplicateImageProvider_editImages p w req
     = ReplicateImageProvider_editImages p w (req\<lparr>images := [hd (images req)]\<rparr>)"
  by (simp add: ReplicateImageProvider_editImages_def named_model_def Replicate_edit_try_def
        Let_def cong: sum.case_cong option.case_cong prod.case_cong js_value.case_cong if_cong)

lemma HuggingFace_edit_first_only:
  "images req \<noteq> [] \<Longrightarrow>
   HuggingFaceImageProvider_editImages p w req
     = HuggingFaceImageProvider_editImages p w (req\<lparr>images := [hd (images req)]\<rparr>)"
  by (simp add: HuggingFaceImageProvider_editImages_def named_model_def
        HuggingFace_edit_try_def Let_def
        cong: sum.case_cong option.case_cong prod.case_cong js_value.case_cong if_cong)

lemma HuggingFace_edit_ignores_mask:
  "HuggingFaceImageProvider_editImages p w req
     = HuggingFaceImageProvider_editImages p w (req\<lparr>mask := Omitted\<rparr>)"
  by (simp add: HuggingFaceImageProvider_editImages_def named_model_def
        HuggingFace_edit_try_def Let_def
        cong: sum.case_cong option.case_cong prod.case_cong js_value.case_cong if_cong)

text \<open>
  Claim C4, as amended, for a request with at least one source image.
  The OpenAI client looks at every source image, in order, and then at the mask: if
  one of these files does not exist the call ends in an error with no backend call,
  and once its earlier checks have passed and the source images that exist can be
  read, the message names the first missing path.
  The Stability and the Replicate client look at the first source image and then at
  the mask: if one of the two does not exist the call ends in an error with no backend
  call; once the checks of prompt and model have passed, the message names the first
  source image when that is missing, and names the mask when the first source image
  exists and can be read.
  The Hugging Face client looks at the first source image: if it does not exist the
  call ends in an error with no backend call, and once the checks of prompt and model
  have passed the message names it.
  The messages of the Replicate and the Hugging Face client stand behind the prefix
  \<open>Replicate API error:\<close> resp. \<open>HuggingFace API error:\<close>.
  The Stability, Replicate and Hugging Face clients do not look at a source image after
  the first: the call does what it does on the request with the first source image
  alone. The Hugging Face client does not look at the mask: the call does what it does
  on the request without its mask.
\<close>

theorem missing_file_rejected_before_backend:
  "(images req \<noteq> []
      \<and> ((\<exists>f \<in> set (images req). \<not> existsSync w f)
           \<or> (truthy (defined (mask req)) \<and> \<not> existsSync w (the (defined (mask req)))))
    \<longrightarrow> (\<exists>e. OpenAIImageProvider_editImages p w req = (Inl e, []))
        \<and> (OpenAI_edit_checks p req = None
             \<and> (\<forall>f \<in> set (images req). existsSync w f \<longrightarrow> \<not> isl (readFileSync w f))
            \<longrightarrow> OpenAIImageProvider_editImages p w req =
                  (Inl (Error (case find (\<lambda>f. \<not> existsSync w f) (images req) of
                                 Some f \<Rightarrow> ''Image file not found: '' @ f
                               | None \<Rightarrow> ''Mask file not found: '' @ the (defined (mask req)))),
                   [])))
   \<and> (images req \<noteq> [] \<and> \<not> existsSync w (hd (images req))
    \<longrightarrow> (\<exists>e. StabilityImageProvider_editImages p w req = (Inl e, []))
        \<and> (\<exists>e. ReplicateImageProvider_editImages p w req = (Inl e, []))
        \<and> (\<exists>e. HuggingFaceImageProvider_editImages p w req = (Inl e, []))
        \<and> ((\<exists>m. Stability_edit_model p req = Inr m)
            \<longrightarrow> StabilityImageProvider_editImages p w req
                  = (Inl (Error (''Image file not found: '' @ hd (images req))), []))
        \<and> ((\<exists>m. named_model p req = Inr m)
            \<longrightarrow> ReplicateImageProvider_editImages p w req
                  = (Inl (Error (''Replicate API error: Image file not found: ''
                                  @ hd (images req))), [])
              \<and> HuggingFaceImageProvider_editImages p w req
                  = (Inl (Error (''HuggingFace API error: Image file not found: ''
                                  @ hd (images req))), [])))
   \<and> (images req \<noteq> []
       \<and> truthy (defined (mask req)) \<and> \<not> existsSync w (the (defined (mask req)))
    \<longrightarrow> (\<exists>e. StabilityImageProvider_editImages p w req = (Inl e, []))
        \<and> (\<exists>e. ReplicateImageProvider_editImages p w req = (Inl e, []))
        \<and> (existsSync w (hd (images req)) \<and> \<not> isl (readFileSync w (hd (images req)))
            \<longrightarrow> ((\<exists>m. Stability_edit_model p req = Inr m)
                  \<longrightarrow> StabilityImageProvider_editImages p w req
                        = (Inl (Error (''Mask file not found: '' @ the (defined (mask req)))), []))
                \<and> ((\<exists>m. named_model p req = Inr m)
                  \<longrightarrow> ReplicateImageProvider_editImages p w req
                        = (Inl (Error (''Replicate API error: Mask file not found: ''
                                        @ the (defined (mask req)))), []))))
   \<and> (images req \<noteq> []
    \<longrightarrow> StabilityImageProvider_editImages p w req
          = StabilityImageProvider_editImages p w (req\<lparr>images := [hd (images req)]\<rparr>)
        \<and> ReplicateImageProvider_editImages p w req
          = ReplicateImageProvider_editImages p w (req\<lparr>images := [hd (images req)]\<rparr>)
        \<and> HuggingFaceImageProvider_editImages p w req
          = HuggingFaceImageProvider_editImages p w (req\<lparr>images := [hd (images req)]\<rparr>))
   \<and> HuggingFaceImageProvider_editImages p w req
        = HuggingFaceImageProvider_editImages p w (req\<lparr>mask := Omitted\<rparr>)"
proof (intro conjI impI)
  assume a: "images req \<noteq> []
      \<and> ((\<exists>f \<in> set (images req). \<not> existsSync w f)
           \<or> (truthy (defined (mask req)) \<and> \<not> existsSync w (the (defined (mask req)))))"
  then show "\<exists>e. OpenAIImageProvider_editImages p w req = (Inl e, [])"
    using OpenAI_edit_missing[of req w p] by blast
  assume "OpenAI_edit_checks p req = None
             \<and> (\<forall>f \<in> set (images req). existsSync w f \<longrightarrow> \<not> isl (readFileSync w f))"
  then show "OpenAIImageProvider_editImages p w req =
                  (Inl (Error (case find (\<lambda>f. \<not> existsSync w f) (images req) of
                                 Some f \<Rightarrow> ''Image file not found: '' @ f
                               | None \<Rightarrow> ''Mask file not found: '' @ the (defined (mask req)))),
                   [])"
    using a OpenAI_edit_names_path[of p req w] by blast
next
  assume a: "images req \<noteq> [] \<and> \<not> existsSync w (hd (images req))"
  then have n: "\<not> existsSync w (hd (images req))" by simp
  show "\<exists>e. StabilityImageProvider_editImages p w req = (Inl e, [])"
    using n Stability_edit_missing[of w req p] by blast
  show "\<exists>e. ReplicateImageProvider_editImages p w req = (Inl e, [])"
    using n Replicate_edit_missing[of w req p] by blast
  show "\<exists>e. HuggingFaceImageProvider_editImages p w req = (Inl e, [])"
    using n HuggingFace_edit_missing[of w req p] by blast
  {
    assume "\<exists>m. Stability_edit_model p req = Inr m"
    then obtain m where "Stability_edit_model p req = Inr m" by blast
    from Stability_edit_names_path(1)[OF this n]
    show "StabilityImageProvider_editImages p w req
                  = (Inl (Error (''Image file not found: '' @ hd (images req))), [])" .
  }
  {
    assume "\<exists>m. named_model p req = Inr m"
    then obtain m mv where m: "named_model p req = Inr (m, mv)" by auto
    from Replicate_edit_names_path(1)[OF m n]
    show "ReplicateImageProvider_editImages p w req
                  = (Inl (Error (''Replicate API error: Image file not found: ''
                                  @ hd (images req))), [])" .
    from HuggingFace_edit_names_path[OF m n]
    show "HuggingFaceImageProvider_editImages p w req
                  = (Inl (Error (''HuggingFace API error: Image file not found: ''
                                  @ hd (images req))), [])" .
  }
next
  assume a: "images req \<noteq> []
       \<and> truthy (defined (mask req)) \<and> \<not> existsSync w (the (defined (mask req)))"
  then have t: "truthy (defined (mask req))" and n: "\<not> existsSync w (the (defined (mask req)))"
    by simp_all
  show "\<exists>e. StabilityImageProvider_editImages p w req = (Inl e, [])"
    using t n Stability_edit_missing[of w req p] by blast
  show "\<exists>e. ReplicateImageProvider_editImages p w req = (Inl e, [])"
    using t n Replicate_edit_missing[of w req p] by blast
  assume r: "existsSync w (hd (images req)) \<and> \<not> isl (readFileSync w (hd (images req)))"
  {
    assume "\<exists>m. Stability_edit_model p req = Inr m"
    then obtain m where "Stability_edit_model p req = Inr m" by blast
    from Stability_edit_names_path(2)[OF this _ _ t n] r
    show "StabilityImageProvider_editImages p w req
                        = (Inl (Error (''Mask file not found: '' @ the (defined (mask req)))), [])"
      by blast
  }
  {
    assume "\<exists>m. named_model p req = Inr m"
    then obtain m mv where m: "named_model p req = Inr (m, mv)" by auto
    from Replicate_edit_names_path(2)[OF m _ _ t n] r
    show "ReplicateImageProvider_editImages p w req
                        = (Inl (Error (''Replicate API error: Mask file not found: ''
                                        @ the (defined (mask req)))), [])"
      by blast
  }
next
  assume a: "images req \<noteq> []"
  show "StabilityImageProvider_editImages p w req
          = StabilityImageProvider_editImages p w (req\<lparr>images := [hd (images req)]\<rparr>)"
    using a by (rule Stability_edit_first_only)
  show "ReplicateImageProvider_editImages p w req
          = ReplicateImageProvider_editImages p w (req\<lparr>images := [hd (images req)]\<rparr>)"
    using a by (rule Replicate_edit_first_only)
  show "HuggingFaceImageProvider_editImages p w req
          = HuggingFaceImageProvider_editImages p w (req\<lparr>images := [hd (images req)]\<rparr>)"
    using a by (rule HuggingFace_edit_first_only)
next
  show "HuggingFaceImageProvider_editImages p w req
        = HuggingFaceImageProvider_editImages p w (req\<lparr>mask := Omitted\<rparr>)"
    by (rule HuggingFace_edit_ignores_mask)
qed

theorem missing_file_rejected_before_backend_witness:
  "OpenAIImageProvider_editImages openai_client world_one_file (edit_request [''/tmp/missing.png''])
     = (Inl (Error ''Image file not found: /tmp/missing.png''), [])
   \<and> StabilityImageProvider_editImages stability_client world_one_file
         (edit_request [''/tmp/missing.png''])
     = (Inl (Error ''Image file not found: /tmp/missing.png''), [])
   \<and> ReplicateImageProvider_editImages replicate_client world_one_file
         (edit_request [''/tmp/missing.png''])
     = (Inl (Error ''Replicate API error: Image file not found: /tmp/missing.png''), [])
   \<and> HuggingFaceImageProvider_editImages huggingface_client world_one_file
         (edit_request [''/tmp/missing.png''])
     = (Inl (Error ''HuggingFace API error: Image file not found: /tmp/missing.png''), [])
   \<and> StabilityImageProvider_editImages stability_client world_one_file
         ((edit_request [''/tmp/a.png''])\<lparr>mask := Given ''/tmp/nomask.png''\<rparr>)
     = (Inl (Error ''Mask file not found: /tmp/nomask.png''), [])"
proof -
  let ?r = "edit_request [''/tmp/missing.png'']"
  let ?m = "(edit_request [''/tmp/a.png''])\<lparr>mask := Given ''/tmp/nomask.png''\<rparr>"
  have k: "images ?m \<noteq> [] \<and> truthy (defined (mask ?m))
             \<and> \<not> existsSync world_one_file (the (defined (mask ?m)))"
    and k1: "existsSync world_one_file (hd (images ?m))
             \<and> \<not> isl (readFileSync world_one_file (hd (images ?m)))"
    and k2: "\<exists>v. Stability_edit_model stability_client ?m = Inr v"
    by (simp_all add: example_edit_facts example_world_facts defined_def
          Stability_edit_model_def validateParams_def value_or_def stability_client_def
          STABILITY_MODELS_def js_values_def truthy_value_def getDefaultModel_def)
  have h: "images ?r \<noteq> [] \<and> \<not> existsSync world_one_file (hd (images ?r))"
    and h1: "images ?r \<noteq> []
      \<and> ((\<exists>f \<in> set (images ?r). \<not> existsSync world_one_file f)
           \<or> (truthy (defined (mask ?r))
               \<and> \<not> existsSync world_one_file (the (defined (mask ?r)))))"
    and h2: "\<forall>f \<in> set (images ?r). existsSync world_one_file f
               \<longrightarrow> \<not> isl (readFileSync world_one_file f)"
    and h3: "find (\<lambda>f. \<not> existsSync world_one_file f) (images ?r) = Some ''/tmp/missing.png''"
    by (simp_all add: example_edit_facts example_world_facts)
  have "OpenAIImageProvider_editImages openai_client world_one_file ?r
     = (Inl (Error ''Image file not found: /tmp/missing.png''), [])"
    using missing_file_rejected_before_backend[of ?r world_one_file openai_client]
      h1 h2 h3 example_checks(1)[of "''/tmp/missing.png''"] by simp
  moreover have "StabilityImageProvider_editImages stability_client world_one_file ?r
     = (Inl (Error ''Image file not found: /tmp/missing.png''), [])"
    using missing_file_rejected_before_backend[of ?r world_one_file stability_client]
      h example_checks(2)[of "''/tmp/missing.png''"] by (simp add: example_edit_facts)
  moreover have "ReplicateImageProvider_editImages replicate_client world_one_file ?r
     = (Inl (Error ''Replicate API error: Image file not found: /tmp/missing.png''), [])"
    using missing_file_rejected_before_backend[of ?r world_one_file replicate_client]
      h example_checks(3)[of "''/tmp/missing.png''" "[]"] by (simp add: example_edit_facts)
  moreover have "HuggingFaceImageProvider_editImages huggingface_client world_one_file ?r
     = (Inl (Error ''HuggingFace API error: Image file not found: /tmp/missing.png''), [])"
    using missing_file_rejected_before_backend[of ?r world_one_file huggingface_client]
      h example_checks(4)[of "''/tmp/missing.png''"] by (simp add: example_edit_facts)
  moreover have "StabilityImageProvider_editImages stability_client world_one_file ?m
     = (Inl (Error ''Mask file not found: /tmp/nomask.png''), [])"
    using missing_file_rejected_before_backend[of ?m world_one_file stability_client]
      k k1 k2 by (simp add: defined_def)
  ultimately show ?thesis by blast
qed

text \<open>
  Claim C4 as stated fails for the Replicate client: with a first source image that
  exists and a second that does not, \<open>editImages\<close> returns a result and has called
  the backend once.
\<close>

theorem replicate_ignores_second_image:
  "''/tmp/missing.png'' \<in> set (images (edit_request [''/tmp/a.png'', ''/tmp/missing.png'']))
   \<and> \<not> existsSync world_one_file ''/tmp/missing.png''
   \<and> fst (ReplicateImageProvider_editImages replicate_client world_one_file
             (edit_request [''/tmp/a.png'', ''/tmp/missing.png'']))
       = Inr \<lparr>created = 0, data = []\<rparr>
   \<and> length (snd (ReplicateImageProvider_editImages replicate_client world_one_file
                     (edit_request [''/tmp/a.png'', ''/tmp/missing.png'']))) = 1"
proof -
  have m: "named_model replicate_client (edit_request [''/tmp/a.png'', ''/tmp/missing.png''])
             = Inr (Some (Str ''STABLE_DIFFUSION_XL''),
                    Str ''stability-ai/sdxl:7762fd07cf82c948538e41f63f77d685e02b063e37e496e96eefd46c929f9bdc'')"
    by (simp add: named_model_def example_edit_facts validateParams_def value_or_def
        replicate_client_def REPLICATE_MODELS_def js_keys_def js_get_def truthy_value_def
        element_at_def defined_def js_to_string_def)
  have w: "replicate_run world_one_file = (\<lambda>v i. Inr [])" "now world_one_file = 0"
    by (simp_all add: world_one_file_def)
  have t: "\<exists>c. Replicate_edit_try world_one_file
                  (edit_request [''/tmp/a.png'', ''/tmp/missing.png''])
                  (Some (Str ''STABLE_DIFFUSION_XL''))
                  (Str ''stability-ai/sdxl:7762fd07cf82c948538e41f63f77d685e02b063e37e496e96eefd46c929f9bdc'')
               = (Inr \<lparr>created = 0, data = []\<rparr>, [c])"
    by (simp add: Replicate_edit_try_def example_edit_facts example_world_facts read_mask_def w
          Let_def)
  show ?thesis
    using t by (auto simp: ReplicateImageProvider_editImages_def m example_edit_facts
        example_world_facts)
qed

section \<open>Persistence: decoding and path resolution\<close>

lemma b64_index_char: "\<forall>i \<in> set [0 ..< 64]. b64_index (b64_char i) = Some i"
  by code_simp

lemma b64_char_not_special:
  "\<forall>i \<in> set [0 ..< 64]. b64_char i \<noteq> CHR ''='' \<and> b64_char i \<noteq> CHR '',''"
  by code_simp

lemma unat_byte: "unat (a :: 8 word) < 256"
  using unsigned_less[of a, where 'a=nat] by simp

lemma byte_of_unat: "(of_nat (unat (a :: 8 word)) :: 8 word) = a"
  by simp

lemma sextets_bound: "\<forall>s \<in> set (to_sextets bs). s < 64"
proof (induction bs rule: to_sextets.induct)
  case 1
  then show ?case by simp
next
  case (2 a)
  show ?case using unat_byte[of a] by auto
next
  case (3 a b)
  show ?case using unat_byte[of a] unat_byte[of b] by auto
next
  case (4 a b c rest)
  then show ?case using unat_byte[of a] unat_byte[of b] unat_byte[of c] by auto
qed

lemma regroup1: "x div 4 * 4 + (x mod 4 * 16 + y div 16) div 16 = (x :: nat)" if "y < 256"
proof -
  have "y div 16 < 16" using that by simp
  then have "(x mod 4 * 16 + y div 16) div 16 = x mod 4" by simp
  then show ?thesis by simp
qed

lemma regroup2:
  "(x mod 4 * 16 + y div 16) mod 16 * 16 + (y mod 16 * 4 + z div 64) div 4 = (y :: nat)"
  if "y < 256" "z < 256"
proof -
  have "y div 16 < 16" using that by simp
  then have 1: "(x mod 4 * 16 + y div 16) mod 16 = y div 16" by simp
  have "z div 64 < 4" using that by simp
  then have 2: "(y mod 16 * 4 + z div 64) div 4 = y mod 16" by simp
  show ?thesis unfolding 1 2 by simp
qed

lemma regroup3: "(y mod 16 * 4 + z div 64) mod 4 * 64 + z mod 64 = (z :: nat)" if "z < 256"
proof -
  have "z div 64 < 4" using that by simp
  then have "(y mod 16 * 4 + z div 64) mod 4 = z div 64" by simp
  then show ?thesis by simp
qed

lemma from_to_sextets: "from_sextets (to_sextets bs) = bs"
proof (induction bs rule: to_sextets.induct)
  case 1
  then show ?case by simp
next
  case (2 a)
  have "unat a div 4 * 4 + (unat a mod 4 * 16) div 16 = unat a" by simp
  then show ?case using byte_of_unat[of a] by simp
next
  case (3 a b)
  have "unat a div 4 * 4 + (unat a mod 4 * 16 + unat b div 16) div 16 = unat a"
    using regroup1[OF unat_byte[of b]] .
  moreover have "(unat a mod 4 * 16 + unat b div 16) mod 16 * 16 + (unat b mod 16 * 4) div 4
                   = unat b"
    using regroup2[OF unat_byte[of b], of 0 "unat a"] by simp
  ultimately show ?case using byte_of_unat[of a] byte_of_unat[of b] by simp
next
  case (4 a b c rest)
  have "unat a div 4 * 4 + (unat a mod 4 * 16 + unat b div 16) div 16 = unat a"
    using regroup1[OF unat_byte[of b]] .
  moreover have "(unat a mod 4 * 16 + unat b div 16) mod 16 * 16
                   + (unat b mod 16 * 4 + unat c div 64) div 4 = unat b"
    using regroup2[OF unat_byte[of b] unat_byte[of c]] .
  moreover have "(unat b mod 16 * 4 + unat c div 64) mod 4 * 64 + unat c mod 64 = unat c"
    using regroup3[OF unat_byte[of c]] .
  ultimately show ?case
    using 4 byte_of_unat[of a] byte_of_unat[of b] byte_of_unat[of c] by simp
qed

lemma map_filter_index_char:
  "\<forall>s \<in> set xs. s < 64 \<Longrightarrow> List.map_filter b64_index (map b64_char xs) = xs"
proof (induction xs)
  case Nil
  then show ?case by (simp add: List.map_filter_simps)
next
  case (Cons x xs)
  then have "b64_index (b64_char x) = Some x" using b64_index_char by simp
  then show ?case using Cons by (simp add: List.map_filter_simps)
qed

lemma takeWhile_encoded:
  "\<forall>s \<in> set xs. s < 64 \<Longrightarrow>
   takeWhile (\<lambda>c. c \<noteq> CHR ''='') (map b64_char xs @ replicate k CHR ''='') = map b64_char xs"
proof -
  assume a: "\<forall>s \<in> set xs. s < 64"
  have p: "\<forall>c \<in> set (map b64_char xs). c \<noteq> CHR ''=''"
    using a b64_char_not_special by auto
  have r: "takeWhile (\<lambda>c. c \<noteq> CHR ''='') (replicate k CHR ''='') = []"
    by (cases k) simp_all
  have "takeWhile (\<lambda>c. c \<noteq> CHR ''='') (map b64_char xs @ replicate k CHR ''='')
          = map b64_char xs @ takeWhile (\<lambda>c. c \<noteq> CHR ''='') (replicate k CHR ''='')"
    using p by (intro takeWhile_append2) blast
  then show ?thesis unfolding r by simp
qed

lemma base64_decode_encode: "base64_decode (base64_encode bs) = bs"
  unfolding base64_decode_def base64_encode_def
  by (simp add: takeWhile_encoded[OF sextets_bound] map_filter_index_char[OF sextets_bound]
        from_to_sextets)

lemma no_comma_encoded: "CHR '','' \<notin> set (base64_encode bs)"
  using sextets_bound[of bs] b64_char_not_special by (auto simp: base64_encode_def)

lemma starts_with_subset: "starts_with s sub \<Longrightarrow> set sub \<subseteq> set s"
  by (induction s sub rule: starts_with.induct) auto

lemma js_includes_subset: "js_includes s sub \<Longrightarrow> set sub \<subseteq> set s"
proof (induction s)
  case Nil
  then show ?case by simp
next
  case (Cons a s)
  from Cons.prems have "starts_with (a # s) sub \<or> js_includes s sub" by simp
  then show ?case
  proof
    assume "starts_with (a # s) sub"
    then show ?thesis by (rule starts_with_subset)
  next
    assume "js_includes s sub"
    then have "set sub \<subseteq> set s" by (rule Cons.IH)
    then show ?thesis by auto
  qed
qed

lemma split_str_no_occurrence:
  "c \<in> set sep \<Longrightarrow> c \<notin> set s \<Longrightarrow> split_str sep cur s = [rev cur @ s]"
proof (induction sep cur s rule: split_str.induct)
  case (1 sep cur)
  then show ?case by simp
next
  case (2 sep cur x xs)
  have "\<not> starts_with (x # xs) sep" using 2(3,4) starts_with_subset by blast
  then show ?case using 2 by simp
qed

lemma strip_prefixed:
  assumes "CHR '','' \<notin> set e"
  shows "js_includes (''data:image/png;base64,'' @ e) ''base64,''"
    and "element_at (js_split (''data:image/png;base64,'' @ e) ''base64,'') 1 = Some e"
proof -
  show "js_includes (''data:image/png;base64,'' @ e) ''base64,''" by simp
  have "split_str ''base64,'' [] e = [e]"
    using split_str_no_occurrence[of "CHR '',''" "''base64,''" e "[]"] assms by simp
  then show "element_at (js_split (''data:image/png;base64,'' @ e) ''base64,'') 1 = Some e"
    by (simp add: js_split_def element_at_def)
qed

lemma strip_plain:
  assumes "CHR '','' \<notin> set e"
  shows "\<not> js_includes e ''base64,''"
  using assms js_includes_subset[of e "''base64,''"] by auto

lemma base64ToBuffer_round_trip:
  "base64ToBuffer (''data:image/png;base64,'' @ base64_encode b) = b"
  "base64ToBuffer (base64_encode b) = b"
  using strip_prefixed[OF no_comma_encoded[of b]] strip_plain[OF no_comma_encoded[of b]]
  by (simp_all add: base64ToBuffer_def base64_decode_encode del: append.simps)

lemma base64ToBuffer_inline:
  "base64_decode (if js_includes d ''base64,''
                  then (case element_at (js_split d ''base64,'') 1 of Some s \<Rightarrow> s | None \<Rightarrow> [])
                  else d) = base64ToBuffer d"
  by (simp add: base64ToBuffer_def Let_def)

lemma save_cases:
  "saveImageToTempFile w uuid d outputFormat outputPath =
     (let name = uuid @ ''.'' @ (case outputFormat of None \<Rightarrow> ''png'' | Some f \<Rightarrow> f);
          buffer = base64ToBuffer d;
          write = (\<lambda>filePath calls.
                     case writeFileSync_throws w filePath of
                       Some m \<Rightarrow> (Inl (SystemError m), calls)
                     | None \<Rightarrow> (Inr filePath, calls @ [WriteFile filePath buffer]));
          make = (\<lambda>dirPath filePath.
                    if existsSync w dirPath then write filePath []
                    else case mkdirSync_throws w dirPath of
                           Some m \<Rightarrow> (Inl (SystemError m), [])
                         | None \<Rightarrow> write filePath [Mkdir dirPath])
      in if truthy outputPath then
           (if ext (path_parse (the outputPath)) \<noteq> []
            then make (dir (path_parse (the outputPath))) (the outputPath)
            else make (the outputPath) (path_join (the outputPath) name))
         else write (path_join ''/tmp'' name) [])"
  unfolding saveImageToTempFile_def ensure_directory_def Let_def base64ToBuffer_inline
  by (simp split: option.splits)









lemma save_to_file:
  "truthy outputPath \<and> ext (path_parse (the outputPath)) \<noteq> []
   \<and> (existsSync w (dir (path_parse (the outputPath)))
        \<or> mkdirSync_throws w (dir (path_parse (the outputPath))) = None)
   \<and> writeFileSync_throws w (the outputPath) = None \<longrightarrow>
   saveImageToTempFile w uuid d outputFormat outputPath =
     (Inr (the outputPath),
      (if existsSync w (dir (path_parse (the outputPath))) then []
       else [Mkdir (dir (path_parse (the outputPath)))])
      @ [WriteFile (the outputPath) (base64ToBuffer d)])"
  unfolding save_cases Let_def by auto

lemma save_to_directory:
  "truthy outputPath \<and> ext (path_parse (the outputPath)) = []
   \<and> (existsSync w (the outputPath) \<or> mkdirSync_throws w (the outputPath) = None)
   \<and> writeFileSync_throws w
        (path_join (the outputPath)
           (uuid @ ''.'' @ (case outputFormat of None \<Rightarrow> ''png'' | Some f \<Rightarrow> f))) = None \<longrightarrow>
   saveImageToTempFile w uuid d outputFormat outputPath =
     (Inr (path_join (the outputPath)
             (uuid @ ''.'' @ (case outputFormat of None \<Rightarrow> ''png'' | Some f \<Rightarrow> f))),
      (if existsSync w (the outputPath) then [] else [Mkdir (the outputPath)])
      @ [WriteFile
           (path_join (the outputPath)
              (uuid @ ''.'' @ (case outputFormat of None \<Rightarrow> ''png'' | Some f \<Rightarrow> f)))
           (base64ToBuffer d)])"
  unfolding save_cases Let_def by auto

lemma save_to_tmp:
  "\<not> truthy outputPath
   \<and> writeFileSync_throws w
        (path_join ''/tmp''
           (uuid @ ''.'' @ (case outputFormat of None \<Rightarrow> ''png'' | Some f \<Rightarrow> f))) = None \<longrightarrow>
   saveImageToTempFile w uuid d outputFormat outputPath =
     (Inr (path_join ''/tmp''
             (uuid @ ''.'' @ (case outputFormat of None \<Rightarrow> ''png'' | Some f \<Rightarrow> f))),
      [WriteFile
         (path_join ''/tmp''
            (uuid @ ''.'' @ (case outputFormat of None \<Rightarrow> ''png'' | Some f \<Rightarrow> f)))
         (base64ToBuffer d)])"
  unfolding save_cases Let_def by auto





lemma parse_examples:
  "ext (path_parse ''/tmp/out.png'') = ''.png''" "dir (path_parse ''/tmp/out.png'') = ''/tmp''"
  "ext (path_parse ''/tmp/outdir'') = []" "ext (path_parse ''/tmp/output'') = []"
  "ext (path_parse ''/tmp/new/out.png'') = ''.png''"
  "dir (path_parse ''/tmp/new/out.png'') = ''/tmp/new''"
  "ext (path_parse ''/readonly/out.png'') = ''.png''"
  "dir (path_parse ''/readonly/out.png'') = ''/readonly''"
  "ext (path_parse ''/tmp/locked.png'') = ''.png''"
  "dir (path_parse ''/tmp/locked.png'') = ''/tmp''"
  by code_simp+

lemma world_one_file_fs:
  "mkdirSync_throws world_one_file [] \<noteq> None"
  "mkdirSync_throws world_one_file ''/tmp/new'' = None"
  "mkdirSync_throws world_one_file ''/tmp/outdir'' = None"
  "mkdirSync_throws world_one_file ''/readonly'' = Some ''EROFS: read-only file system''"
  "writeFileSync_throws world_one_file x
     = (if x = ''/tmp/locked.png'' then Some ''EACCES: permission denied'' else None)"
  "existsSync world_one_file x = (x \<in> {''/'', ''/tmp'', ''/tmp/a.png'', ''/tmp/locked.png''})"
  by (simp_all add: world_one_file_def)

lemma join_outdir:
  "path_join ''/tmp/outdir'' (uuid_example @ ''.png'')
     = ''/tmp/outdir/3f2b8c1e-5a4d-4e6f-9b7a-0c1d2e3f4a5b.png''"
  "path_join ''/tmp'' (uuid_example @ ''.png'')
     = ''/tmp/3f2b8c1e-5a4d-4e6f-9b7a-0c1d2e3f4a5b.png''"
  by code_simp+



text \<open>
  Claim C6. Let \<open>d\<close> be the base64 encoding of a byte sequence \<open>b\<close>, with or without
  the prefix \<open>data:image/png;base64,\<close> before it. The buffer the code decodes from
  \<open>d\<close> is \<open>b\<close>, and \<open>saveImageToTempFile\<close> on \<open>d\<close> writes exactly \<open>b\<close>: in each
  of its three cases, if the directory it uses exists or can be created and the path
  it resolves can be written, it returns that path after the directory creation (if
  any) and one write of \<open>b\<close> to that path.
\<close>

theorem base64_round_trip:
  assumes "d = ''data:image/png;base64,'' @ base64_encode b \<or> d = base64_encode b"
  shows "base64ToBuffer d = b
   \<and> (truthy outputPath \<and> ext (path_parse (the outputPath)) \<noteq> []
    \<and> (existsSync w (dir (path_parse (the outputPath)))
         \<or> mkdirSync_throws w (dir (path_parse (the outputPath))) = None)
    \<and> writeFileSync_throws w (the outputPath) = None \<longrightarrow>
    saveImageToTempFile w uuid d outputFormat outputPath =
      (Inr (the outputPath),
       (if existsSync w (dir (path_parse (the outputPath))) then []
        else [Mkdir (dir (path_parse (the outputPath)))])
       @ [WriteFile (the outputPath) b]))
   \<and> (truthy outputPath \<and> ext (path_parse (the outputPath)) = []
    \<and> (existsSync w (the outputPath) \<or> mkdirSync_throws w (the outputPath) = None)
    \<and> writeFileSync_throws w
         (path_join (the outputPath)
            (uuid @ ''.'' @ (case outputFormat of None \<Rightarrow> ''png'' | Some f \<Rightarrow> f))) = None \<longrightarrow>
    saveImageToTempFile w uuid d outputFormat outputPath =
      (Inr (path_join (the outputPath)
              (uuid @ ''.'' @ (case outputFormat of None \<Rightarrow> ''png'' | Some f \<Rightarrow> f))),
       (if existsSync w (the outputPath) then [] else [Mkdir (the outputPath)])
       @ [WriteFile
            (path_join (the outputPath)
               (uuid @ ''.'' @ (case outputFormat of None \<Rightarrow> ''png'' | Some f \<Rightarrow> f)))
            b]))
   \<and> (\<not> truthy outputPath
    \<and> writeFileSync_throws w
         (path_join ''/tmp''
            (uuid @ ''.'' @ (case outputFormat of None \<Rightarrow> ''png'' | Some f \<Rightarrow> f))) = None \<longrightarrow>
    saveImageToTempFile w uuid d outputFormat outputPath =
      (Inr (path_join ''/tmp''
              (uuid @ ''.'' @ (case outputFormat of None \<Rightarrow> ''png'' | Some f \<Rightarrow> f))),
       [WriteFile
          (path_join ''/tmp''
             (uuid @ ''.'' @ (case outputFormat of None \<Rightarrow> ''png'' | Some f \<Rightarrow> f)))
          b]))"
proof -
  have bb: "base64ToBuffer d = b"
    using assms base64ToBuffer_round_trip by blast
  show ?thesis
    unfolding bb[symmetric]
    by (intro conjI refl save_to_file save_to_directory save_to_tmp)
qed

theorem base64_round_trip_witness:
  "base64_encode [1, 2, 3, 255, 0] = ''AQID/wA=''
   \<and> mkdirSync_throws world_one_file [] \<noteq> None
   \<and> saveImageToTempFile world_one_file uuid_example (''data:image/png;base64,AQID/wA='')
        (Some ''png'') (Some ''/tmp/new/out.png'')
      = (Inr ''/tmp/new/out.png'',
         [Mkdir ''/tmp/new'', WriteFile ''/tmp/new/out.png'' [1, 2, 3, 255, 0]])
   \<and> saveImageToTempFile world_one_file uuid_example ''AQID/wA='' (Some ''png'') None
      = (Inr ''/tmp/3f2b8c1e-5a4d-4e6f-9b7a-0c1d2e3f4a5b.png'',
         [WriteFile ''/tmp/3f2b8c1e-5a4d-4e6f-9b7a-0c1d2e3f4a5b.png'' [1, 2, 3, 255, 0]])"
proof -
  have e: "base64_encode [1, 2, 3, 255, 0] = ''AQID/wA=''" by code_simp
  have d1: "''data:image/png;base64,AQID/wA='' = ''data:image/png;base64,'' @ base64_encode [1, 2, 3, 255, 0]
            \<or> ''data:image/png;base64,AQID/wA='' = base64_encode [1, 2, 3, 255, 0]"
    by (simp add: e)
  have d2: "''AQID/wA='' = ''data:image/png;base64,'' @ base64_encode [1, 2, 3, 255, 0]
            \<or> ''AQID/wA='' = base64_encode [1, 2, 3, 255, 0]"
    by (simp add: e)
  note t1 = base64_round_trip[OF d1, where outputPath = "Some ''/tmp/new/out.png''"
              and w = world_one_file and uuid = uuid_example and outputFormat = "Some ''png''"]
  note t2 = base64_round_trip[OF d2, where outputPath = None
              and w = world_one_file and uuid = uuid_example and outputFormat = "Some ''png''"]
  have h1: "truthy (Some ''/tmp/new/out.png'')
      \<and> ext (path_parse (the (Some ''/tmp/new/out.png''))) \<noteq> []
      \<and> (existsSync world_one_file (dir (path_parse (the (Some ''/tmp/new/out.png''))))
          \<or> mkdirSync_throws world_one_file (dir (path_parse (the (Some ''/tmp/new/out.png''))))
              = None)
      \<and> writeFileSync_throws world_one_file (the (Some ''/tmp/new/out.png'')) = None"
    by (simp add: parse_examples world_one_file_fs)
  have h3: "\<not> truthy None
      \<and> writeFileSync_throws world_one_file
           (path_join ''/tmp''
              (uuid_example @ ''.'' @ (case Some ''png'' of None \<Rightarrow> ''png'' | Some f \<Rightarrow> f))) = None"
    using join_outdir(2) by (simp add: world_one_file_fs)
  show ?thesis
    using e t1[THEN conjunct2, THEN conjunct1, rule_format, OF h1]
      t2[THEN conjunct2, THEN conjunct2, THEN conjunct2, rule_format, OF h3] join_outdir(2)
    by (simp add: parse_examples world_one_file_fs)
qed

section \<open>The tools: which client is called and with which model\<close>

lemma fold_js_set_keys:
  "set (js_keys (fold (\<lambda>(k, v) acc. js_set acc k v) xs acc)) \<subseteq> set (js_keys acc) \<union> fst ` set xs"
proof (induction xs arbitrary: acc)
  case Nil
  then show ?case by simp
next
  case (Cons x xs)
  obtain k v where x: "x = (k, v)" by (cases x)
  have "set (js_keys (js_set acc k v)) \<subseteq> insert k (set (js_keys acc))"
    unfolding keys_js_set by auto
  then show ?case using Cons[of "js_set acc k v"] x by auto
qed

lemma flat_keys_prefixed:
  assumes "x \<in> set (js_keys (flatModels f))"
  shows "\<exists>(t, q) \<in> set (live f). \<exists>k \<in> set (js_keys (catalog q)). x = provider_id t @ ''/'' @ k"
proof -
  have "x \<in> fst ` set (concat (map snd (getAllProviderModels f)))"
    using assms fold_js_set_keys[of "concat (map snd (getAllProviderModels f))" "[]"]
    by (auto simp: flatModels_def js_keys_def)
  then show ?thesis
    by (auto simp: getAllProviderModels_def getAllowedModels_def js_keys_def) force
qed

lemma defaultModel_prefixed:
  "js_keys (flatModels f) \<noteq> [] \<longrightarrow>
   (\<exists>(t, q) \<in> set (live f). \<exists>k \<in> set (js_keys (catalog q)).
      defaultModel f dp = Some (provider_id t @ ''/'' @ k))"
proof
  assume a: "js_keys (flatModels f) \<noteq> []"
  obtain x xs where k: "js_keys (flatModels f) = x # xs"
    using a by (cases "js_keys (flatModels f)") auto
  then have "x \<in> set (js_keys (flatModels f))" by simp
  from flat_keys_prefixed[OF this] obtain t q k' where
    tq: "(t, q) \<in> set (live f)" "k' \<in> set (js_keys (catalog q))" "x = provider_id t @ ''/'' @ k'"
    by auto
  have "x \<noteq> []" using tq(3) by (cases t) auto
  then have "defaultModel f dp = Some x"
    using k by (simp add: defaultModel_def element_at_def or_else_def)
  then show "\<exists>(t, q) \<in> set (live f). \<exists>k \<in> set (js_keys (catalog q)).
      defaultModel f dp = Some (provider_id t @ ''/'' @ k)"
    using tq by auto
qed

lemma choose_target_explicit:
  assumes "getDefaultProvider f = Inr dp" "map_of (live f) t = Some p"
  shows "choose_target f dflt (Some t) modelArg = Inr (p, map_option Str (or_else modelArg dflt))"
  using assms by (simp add: choose_target_def getProvider_def Let_def)

lemma choose_target_resolved:
  assumes "getDefaultProvider f = Inr dp" "truthy modelArg"
  shows "choose_target f dflt None modelArg =
           (case getProviderFromModel f (the modelArg) of Inl e \<Rightarrow> Inl e
            | Inr (q, m) \<Rightarrow> Inr (q, Some m))"
  using assms by (simp add: choose_target_def Let_def)

lemma callback_text_call:
  assumes "choose_target f dflt (arg_provider args) (arg_model args) = Inr (q, m)"
  shows "map (\<lambda>(c, r). (c, model r)) (fst (snd (text_to_image_callback f dflt gen w uuid args)))
           = [(q, to_field m)]"
  using assms unfolding text_to_image_callback_def Let_def
  by (auto split: sum.splits prod.splits)

lemma callback_text_no_call:
  assumes "choose_target f dflt (arg_provider args) (arg_model args) = Inl e"
  shows "fst (snd (text_to_image_callback f dflt gen w uuid args)) = []"
  using assms unfolding text_to_image_callback_def Let_def by simp

lemma callback_edit_call:
  assumes "choose_target f dflt (ed_provider args) (ed_model args) = Inr (q, m)"
  shows "map (\<lambda>(c, r). (c, model r)) (fst (snd (image_to_image_callback f dflt edit w uuid args)))
           = [(q, to_field m)]"
  using assms unfolding image_to_image_callback_def Let_def
  by (auto split: sum.splits prod.splits)

lemma callback_edit_no_call:
  assumes "choose_target f dflt (ed_provider args) (ed_model args) = Inl e"
  shows "fst (snd (image_to_image_callback f dflt edit w uuid args)) = []"
  using assms unfolding image_to_image_callback_def Let_def by simp

lemma provider_of_id_inverse: "provider_of_id (provider_id t) = Some t"
  by (cases t) (simp_all add: provider_of_id_def)

lemma live_provider:
  assumes "zod_enum_optional (map provider_id (getAvailableProviders f)) (Some s)"
  shows "\<exists>t p. provider_id t = s \<and> map_of (live f) t = Some p"
proof -
  from assms obtain t where t: "t \<in> fst ` set (live f)" "provider_id t = s"
    by (auto simp: zod_enum_optional_def getAvailableProviders_def)
  then obtain p where "map_of (live f) t = Some p"
    by (meson domD domI map_of_eq_None_iff not_None_eq)
  then show ?thesis using t by blast
qed

lemma text_schema_accepts:
  assumes "text_to_image_schema f dflt input = Some args"
  shows "arg_model args = zod_default dflt (tti_model input)"
    and "arg_provider args
           = (case tti_provider input of None \<Rightarrow> None | Some s \<Rightarrow> provider_of_id s)"
    and "zod_enum_optional (map provider_id (getAvailableProviders f)) (tti_provider input)"
    and "zod_enum_optional (js_values (flatModels f)) (zod_default dflt (tti_model input))"
  using assms unfolding text_to_image_schema_def Let_def
  by (auto split: if_splits)

lemma edit_schema_accepts:
  assumes "image_to_image_schema f dflt input = Some args"
  shows "ed_model args = zod_default dflt (iti_model input)"
    and "ed_provider args
           = (case iti_provider input of None \<Rightarrow> None | Some s \<Rightarrow> provider_of_id s)"
    and "zod_enum_optional (map provider_id (getAvailableProviders f)) (iti_provider input)"
    and "zod_enum_optional (js_values (flatModels f)) (zod_default dflt (iti_model input))"
  using assms unfolding image_to_image_schema_def Let_def
  by (auto split: if_splits)

lemma text_schema_rejects:
  "tti_model input = Some m \<and> m \<notin> set (js_values (flatModels f)) \<Longrightarrow>
   text_to_image_schema f dflt input = None"
  by (simp add: text_to_image_schema_def Let_def zod_default_def zod_enum_optional_def)

lemma edit_schema_rejects:
  "iti_model input = Some m \<and> m \<notin> set (js_values (flatModels f)) \<Longrightarrow>
   image_to_image_schema f dflt input = None"
  by (simp add: image_to_image_schema_def Let_def zod_default_def zod_enum_optional_def)

lemma text_tool_rejected:
  assumes "getDefaultProvider f = Inr dp"
  shows "tti_model input = Some m \<and> m \<notin> set (js_values (flatModels f)) \<longrightarrow>
         text_to_image f gen w uuid input = (InvalidParams, [], [])"
  using assms text_schema_rejects[of input m f "defaultModel f dp"]
  by (simp add: text_to_image_def Let_def)

lemma edit_tool_rejected:
  assumes "getDefaultProvider f = Inr dp"
  shows "iti_model input = Some m \<and> m \<notin> set (js_values (flatModels f)) \<longrightarrow>
         image_to_image f edit w uuid input = (InvalidParams, [], [])"
  using assms edit_schema_rejects[of input m f "defaultModel f dp"]
  by (simp add: image_to_image_def Let_def)

lemma text_tool_calls:
  assumes "getDefaultProvider f = Inr dp"
    and "text_to_image_schema f (defaultModel f dp) input = Some args"
  shows "fst (snd (text_to_image f gen w uuid input))
           = fst (snd (text_to_image_callback f (defaultModel f dp) gen w uuid args))"
  using assms by (simp add: text_to_image_def Let_def split: prod.splits)

lemma edit_tool_calls:
  assumes "getDefaultProvider f = Inr dp"
    and "image_to_image_schema f (defaultModel f dp) input = Some args"
  shows "fst (snd (image_to_image f edit w uuid input))
           = fst (snd (image_to_image_callback f (defaultModel f dp) edit w uuid args))"
  using assms by (simp add: image_to_image_def Let_def split: prod.splits)

lemma text_tool_explicit:
  assumes "getDefaultProvider f = Inr dp"
  shows "text_to_image_schema f (defaultModel f dp) input \<noteq> None
         \<and> tti_provider input = Some s \<and> tti_model input = Some m \<and> m \<noteq> [] \<longrightarrow>
         (\<exists>t p. provider_id t = s \<and> map_of (live f) t = Some p
            \<and> map (\<lambda>(c, r). (c, model r)) (fst (snd (text_to_image f gen w uuid input)))
                = [(p, Given (Str m))])"
proof
  assume a: "text_to_image_schema f (defaultModel f dp) input \<noteq> None
         \<and> tti_provider input = Some s \<and> tti_model input = Some m \<and> m \<noteq> []"
  then obtain args where s: "text_to_image_schema f (defaultModel f dp) input = Some args"
    by blast
  from text_schema_accepts(3)[OF s] a obtain t p
    where tp: "provider_id t = s" "map_of (live f) t = Some p"
    using live_provider by force
  have pr: "arg_provider args = Some t"
    using text_schema_accepts(2)[OF s] a tp(1) provider_of_id_inverse by auto
  have mo: "arg_model args = Some m"
    using text_schema_accepts(1)[OF s] a by (simp add: zod_default_def)
  have "choose_target f (defaultModel f dp) (arg_provider args) (arg_model args)
          = Inr (p, Some (Str m))"
    using choose_target_explicit[OF assms tp(2)] a pr mo by (simp add: or_else_def)
  from callback_text_call[OF this]
  have "map (\<lambda>(c, r). (c, model r)) (fst (snd (text_to_image f gen w uuid input)))
          = [(p, Given (Str m))]"
    unfolding text_tool_calls[OF assms s] by (simp add: to_field_def)
  then show "\<exists>t p. provider_id t = s \<and> map_of (live f) t = Some p
            \<and> map (\<lambda>(c, r). (c, model r)) (fst (snd (text_to_image f gen w uuid input)))
                = [(p, Given (Str m))]"
    using tp by auto
qed

lemma edit_tool_explicit:
  assumes "getDefaultProvider f = Inr dp"
  shows "image_to_image_schema f (defaultModel f dp) input \<noteq> None
         \<and> iti_provider input = Some s \<and> iti_model input = Some m \<and> m \<noteq> [] \<longrightarrow>
         (\<exists>t p. provider_id t = s \<and> map_of (live f) t = Some p
            \<and> map (\<lambda>(c, r). (c, model r)) (fst (snd (image_to_image f edit w uuid input)))
                = [(p, Given (Str m))])"
proof
  assume a: "image_to_image_schema f (defaultModel f dp) input \<noteq> None
         \<and> iti_provider input = Some s \<and> iti_model input = Some m \<and> m \<noteq> []"
  then obtain args where s: "image_to_image_schema f (defaultModel f dp) input = Some args"
    by blast
  from edit_schema_accepts(3)[OF s] a obtain t p
    where tp: "provider_id t = s" "map_of (live f) t = Some p"
    using live_provider by force
  have pr: "ed_provider args = Some t"
    using edit_schema_accepts(2)[OF s] a tp(1) provider_of_id_inverse by auto
  have mo: "ed_model args = Some m"
    using edit_schema_accepts(1)[OF s] a by (simp add: zod_default_def)
  have "choose_target f (defaultModel f dp) (ed_provider args) (ed_model args)
          = Inr (p, Some (Str m))"
    using choose_target_explicit[OF assms tp(2)] a pr mo by (simp add: or_else_def)
  from callback_edit_call[OF this]
  have "map (\<lambda>(c, r). (c, model r)) (fst (snd (image_to_image f edit w uuid input)))
          = [(p, Given (Str m))]"
    unfolding edit_tool_calls[OF assms s] by (simp add: to_field_def)
  then show "\<exists>t p. provider_id t = s \<and> map_of (live f) t = Some p
            \<and> map (\<lambda>(c, r). (c, model r)) (fst (snd (image_to_image f edit w uuid input)))
                = [(p, Given (Str m))]"
    using tp by auto
qed

lemma text_tool_resolved:
  assumes "getDefaultProvider f = Inr dp"
  shows "text_to_image_schema f (defaultModel f dp) input \<noteq> None
         \<and> tti_provider input = None \<and> tti_model input = Some m \<and> m \<noteq> [] \<longrightarrow>
         map (\<lambda>(c, r). (c, model r)) (fst (snd (text_to_image f gen w uuid input)))
           = (case getProviderFromModel f m of
                Inl e \<Rightarrow> []
              | Inr (q, v) \<Rightarrow> [(q, Given v)])"
proof
  assume a: "text_to_image_schema f (defaultModel f dp) input \<noteq> None
         \<and> tti_provider input = None \<and> tti_model input = Some m \<and> m \<noteq> []"
  then obtain args where s: "text_to_image_schema f (defaultModel f dp) input = Some args"
    by blast
  have pr: "arg_provider args = None"
    using text_schema_accepts(2)[OF s] a by simp
  have mo: "arg_model args = Some m"
    using text_schema_accepts(1)[OF s] a by (simp add: zod_default_def)
  have c: "choose_target f (defaultModel f dp) (arg_provider args) (arg_model args)
          = (case getProviderFromModel f m of Inl e \<Rightarrow> Inl e
             | Inr (q, v) \<Rightarrow> Inr (q, Some v))"
    using choose_target_resolved[OF assms, of "Some m"] a pr mo by simp
  show "map (\<lambda>(c, r). (c, model r)) (fst (snd (text_to_image f gen w uuid input)))
           = (case getProviderFromModel f m of
                Inl e \<Rightarrow> []
              | Inr (q, v) \<Rightarrow> [(q, Given v)])"
  proof (cases "getProviderFromModel f m")
    case (Inl e)
    then show ?thesis
      using c callback_text_no_call[of f "defaultModel f dp" args e gen w uuid]
      unfolding text_tool_calls[OF assms s] by simp
  next
    case (Inr r)
    obtain q v where r: "r = (q, v)" by (cases r)
    then show ?thesis
      using c Inr callback_text_call[of f "defaultModel f dp" args q "Some v" gen w uuid]
      unfolding text_tool_calls[OF assms s] by (simp add: to_field_def)
  qed
qed

lemma edit_tool_resolved:
  assumes "getDefaultProvider f = Inr dp"
  shows "image_to_image_schema f (defaultModel f dp) input \<noteq> None
         \<and> iti_provider input = None \<and> iti_model input = Some m \<and> m \<noteq> [] \<longrightarrow>
         map (\<lambda>(c, r). (c, model r)) (fst (snd (image_to_image f edit w uuid input)))
           = (case getProviderFromModel f m of
                Inl e \<Rightarrow> []
              | Inr (q, v) \<Rightarrow> [(q, Given v)])"
proof
  assume a: "image_to_image_schema f (defaultModel f dp) input \<noteq> None
         \<and> iti_provider input = None \<and> iti_model input = Some m \<and> m \<noteq> []"
  then obtain args where s: "image_to_image_schema f (defaultModel f dp) input = Some args"
    by blast
  have pr: "ed_provider args = None"
    using edit_schema_accepts(2)[OF s] a by simp
  have mo: "ed_model args = Some m"
    using edit_schema_accepts(1)[OF s] a by (simp add: zod_default_def)
  have c: "choose_target f (defaultModel f dp) (ed_provider args) (ed_model args)
          = (case getProviderFromModel f m of Inl e \<Rightarrow> Inl e
             | Inr (q, v) \<Rightarrow> Inr (q, Some v))"
    using choose_target_resolved[OF assms, of "Some m"] a pr mo by simp
  show "map (\<lambda>(c, r). (c, model r)) (fst (snd (image_to_image f edit w uuid input)))
           = (case getProviderFromModel f m of
                Inl e \<Rightarrow> []
              | Inr (q, v) \<Rightarrow> [(q, Given v)])"
  proof (cases "getProviderFromModel f m")
    case (Inl e)
    then show ?thesis
      using c callback_edit_no_call[of f "defaultModel f dp" args e edit w uuid]
      unfolding edit_tool_calls[OF assms s] by simp
  next
    case (Inr r)
    obtain q v where r: "r = (q, v)" by (cases r)
    then show ?thesis
      using c Inr callback_edit_call[of f "defaultModel f dp" args q "Some v" edit w uuid]
      unfolding edit_tool_calls[OF assms s] by (simp add: to_field_def)
  qed
qed

lemma example_registry:
  "getDefaultProvider factory_openai_huggingface = Inr openai_client"
  "defaultModel factory_openai_huggingface openai_client = Some ''openai/GPT_IMAGE''"
  "map_of (live factory_openai_huggingface) t
     = (if t = OPENAI then Some openai_client
        else if t = HUGGINGFACE then Some huggingface_client else None)"
  "js_values (flatModels factory_openai_huggingface)
     = [''gpt-image-1'', ''dall-e-2'', ''dall-e-3'',
        ''stabilityai/stable-diffusion-xl-base-1.0'', ''stabilityai/stable-diffusion-2-1'',
        ''dalle-mini/dalle-mini'', ''black-forest-labs/FLUX.1-schnell'',
        ''stabilityai/stable-diffusion-3-medium-diffusers'',
        ''playgroundai/playground-v2.5-1024px-aesthetic'']"
  "map provider_id (getAvailableProviders factory_openai_huggingface)
     = [''openai'', ''huggingface'']"
      apply (simp add: getDefaultProvider_def getProvider_def factory_openai_huggingface_def)
     apply (simp add: defaultModel_def flatModels_def getAllProviderModels_def
      getAllowedModels_def factory_openai_huggingface_def openai_client_def
      huggingface_client_def OPENAI_MODELS_def HUGGINGFACE_MODELS_def js_set_def js_keys_def
      is_array_index_def is_digit_def element_at_def or_else_def)
    apply (simp add: factory_openai_huggingface_def)
   apply (simp add: flatModels_def getAllProviderModels_def
      getAllowedModels_def factory_openai_huggingface_def openai_client_def
      huggingface_client_def OPENAI_MODELS_def HUGGINGFACE_MODELS_def js_set_def js_keys_def
      js_values_def is_array_index_def is_digit_def)
  apply (simp add: getAvailableProviders_def factory_openai_huggingface_def)
  done

lemma example_schemas:
  "m \<in> set (js_values (flatModels factory_openai_huggingface)) \<Longrightarrow>
   t \<in> {None, Some ''openai'', Some ''huggingface''} \<Longrightarrow>
   text_to_image_schema factory_openai_huggingface (Some ''openai/GPT_IMAGE'')
     (text_input t (Some m)) \<noteq> None"
  "m \<in> set (js_values (flatModels factory_openai_huggingface)) \<Longrightarrow>
   t \<in> {None, Some ''openai'', Some ''huggingface''} \<Longrightarrow>
   image_to_image_schema factory_openai_huggingface (Some ''openai/GPT_IMAGE'')
     (edit_input t (Some m)) \<noteq> None"
   apply (auto simp add: text_to_image_schema_def text_input_def Let_def zod_default_def
      zod_enum_optional_def example_registry(5) SIZES_def STYLES_def OUTPUT_FORMATS_def
      MODERATION_LEVELS_def BACKGROUNDS_def QUALITIES_def)[1]
  apply (auto simp add: image_to_image_schema_def edit_input_def Let_def zod_default_def
      zod_enum_optional_def example_registry(5) SIZES_def OUTPUT_FORMATS_def QUALITIES_def)[1]
  done

text \<open>
  Claim C10, as amended. A tool call runs its callback only when the arguments pass the
  input schema, and the schema accepts as model only the values of \<open>flatModels\<close>, the
  catalog values: a call whose model string is not one of them is answered with
  invalid parameters and calls no client. The keys of \<open>flatModels\<close>, of the form
  \<open>providerId/modelKey\<close>, are not among these values unless a catalog has such a
  value; the schema default is the first of these keys.
  For an accepted call with a provider argument and a non-empty model string, in both
  tools, the provider argument names a live client, exactly that client is called,
  and the model of the request is the model string as given:
  \<open>getProviderFromModel\<close> is not applied. For an accepted call with a non-empty
  model string and no provider argument the registry resolves the model: the client
  and the model that \<open>getProviderFromModel\<close> returns are the ones of the call, and
  no client is called when it throws. The list of calls is projected to the client and
  the \<open>model\<close> field of the request.
\<close>

theorem explicit_provider_passes_accepted_model:
  assumes "getDefaultProvider f = Inr dp"
  shows "(tti_model input = Some m \<and> m \<notin> set (js_values (flatModels f)) \<longrightarrow>
            text_to_image f gen w uuid input = (InvalidParams, [], []))
       \<and> (iti_model einput = Some m \<and> m \<notin> set (js_values (flatModels f)) \<longrightarrow>
            image_to_image f edit w uuid einput = (InvalidParams, [], []))
       \<and> (text_to_image_schema f (defaultModel f dp) input \<noteq> None
            \<and> tti_provider input = Some s \<and> tti_model input = Some m \<and> m \<noteq> [] \<longrightarrow>
            (\<exists>t p. provider_id t = s \<and> map_of (live f) t = Some p
               \<and> map (\<lambda>(c, r). (c, model r)) (fst (snd (text_to_image f gen w uuid input)))
                   = [(p, Given (Str m))]))
       \<and> (image_to_image_schema f (defaultModel f dp) einput \<noteq> None
            \<and> iti_provider einput = Some s \<and> iti_model einput = Some m \<and> m \<noteq> [] \<longrightarrow>
            (\<exists>t p. provider_id t = s \<and> map_of (live f) t = Some p
               \<and> map (\<lambda>(c, r). (c, model r)) (fst (snd (image_to_image f edit w uuid einput)))
                   = [(p, Given (Str m))]))
       \<and> (text_to_image_schema f (defaultModel f dp) input \<noteq> None
            \<and> tti_provider input = None \<and> tti_model input = Some m \<and> m \<noteq> [] \<longrightarrow>
            map (\<lambda>(c, r). (c, model r)) (fst (snd (text_to_image f gen w uuid input)))
              = (case getProviderFromModel f m of
                   Inl e \<Rightarrow> []
                 | Inr (q, v) \<Rightarrow> [(q, Given v)]))
       \<and> (image_to_image_schema f (defaultModel f dp) einput \<noteq> None
            \<and> iti_provider einput = None \<and> iti_model einput = Some m \<and> m \<noteq> [] \<longrightarrow>
            map (\<lambda>(c, r). (c, model r)) (fst (snd (image_to_image f edit w uuid einput)))
              = (case getProviderFromModel f m of
                   Inl e \<Rightarrow> []
                 | Inr (q, v) \<Rightarrow> [(q, Given v)]))
       \<and> (js_keys (flatModels f) \<noteq> [] \<longrightarrow>
            (\<exists>(t, c) \<in> set (live f). \<exists>k \<in> set (js_keys (catalog c)).
               defaultModel f dp = Some (provider_id t @ ''/'' @ k)))"
  by (intro conjI text_tool_rejected[OF assms] edit_tool_rejected[OF assms]
        text_tool_explicit[OF assms] edit_tool_explicit[OF assms]
        text_tool_resolved[OF assms] edit_tool_resolved[OF assms] defaultModel_prefixed)

theorem explicit_provider_passes_accepted_model_witness:
  "map (\<lambda>(c, r). (c, model r))
     (fst (snd (text_to_image factory_openai_huggingface example_generateImages world_one_file
                  uuid_example
                  (text_input (Some ''openai'') (Some ''stabilityai/stable-diffusion-2-1'')))))
     = [(openai_client, Given (Str ''stabilityai/stable-diffusion-2-1''))]
   \<and> map (\<lambda>(c, r). (c, model r))
     (fst (snd (image_to_image factory_openai_huggingface example_editImages world_one_file
                  uuid_example (edit_input (Some ''huggingface'') (Some ''gpt-image-1'')))))
     = [(huggingface_client, Given (Str ''gpt-image-1''))]
   \<and> map (\<lambda>(c, r). (c, model r))
     (fst (snd (image_to_image factory_openai_huggingface example_editImages world_one_file
                  uuid_example (edit_input None (Some ''gpt-image-1'')))))
     = [(openai_client, Given (Str ''gpt-image-1''))]
   \<and> map (\<lambda>(c, r). (c, model r))
     (fst (snd (text_to_image factory_openai_huggingface example_generateImages world_one_file
                  uuid_example (text_input None (Some ''dall-e-2'')))))
     = [(openai_client, Given (Str ''dall-e-2''))]
   \<and> text_to_image factory_openai_huggingface example_generateImages world_one_file
        uuid_example (text_input (Some ''huggingface'') (Some ''huggingface/DALLE_MINI''))
     = (InvalidParams, [], [])
   \<and> image_to_image factory_openai_huggingface example_editImages world_one_file
        uuid_example (edit_input (Some ''openai'') (Some ''DALLE2''))
     = (InvalidParams, [], [])"
proof -
  note t = explicit_provider_passes_accepted_model[OF example_registry(1),
             where gen = example_generateImages and edit = example_editImages
               and w = world_one_file and uuid = uuid_example]
  note rejected = t[THEN conjunct1, rule_format]
  note rejected_edit = t[THEN conjunct2, THEN conjunct1, rule_format]
  note resolved_text = t[THEN conjunct2, THEN conjunct2, THEN conjunct2, THEN conjunct2,
                         THEN conjunct1, rule_format]
  note explicit_text = t[THEN conjunct2, THEN conjunct2, THEN conjunct1, rule_format]
  note explicit_edit = t[THEN conjunct2, THEN conjunct2, THEN conjunct2, THEN conjunct1,
                         rule_format]
  note resolved_edit = t[THEN conjunct2, THEN conjunct2, THEN conjunct2, THEN conjunct2,
                         THEN conjunct2, THEN conjunct1, rule_format]
  have h1: "text_to_image_schema factory_openai_huggingface
              (defaultModel factory_openai_huggingface openai_client)
              (text_input (Some ''openai'') (Some ''stabilityai/stable-diffusion-2-1'')) \<noteq> None
            \<and> tti_provider (text_input (Some ''openai'') (Some ''stabilityai/stable-diffusion-2-1''))
                = Some ''openai''
            \<and> tti_model (text_input (Some ''openai'') (Some ''stabilityai/stable-diffusion-2-1''))
                = Some ''stabilityai/stable-diffusion-2-1''
            \<and> ''stabilityai/stable-diffusion-2-1'' \<noteq> []"
    using example_schemas(1)[of "''stabilityai/stable-diffusion-2-1''" "Some ''openai''"]
    by (simp add: example_registry text_input_def)
  have h2: "image_to_image_schema factory_openai_huggingface
              (defaultModel factory_openai_huggingface openai_client)
              (edit_input (Some ''huggingface'') (Some ''gpt-image-1'')) \<noteq> None
            \<and> iti_provider (edit_input (Some ''huggingface'') (Some ''gpt-image-1''))
                = Some ''huggingface''
            \<and> iti_model (edit_input (Some ''huggingface'') (Some ''gpt-image-1''))
                = Some ''gpt-image-1''
            \<and> ''gpt-image-1'' \<noteq> []"
    using example_schemas(2)[of "''gpt-image-1''" "Some ''huggingface''"]
    by (simp add: example_registry edit_input_def)
  have h3: "image_to_image_schema factory_openai_huggingface
              (defaultModel factory_openai_huggingface openai_client)
              (edit_input None (Some ''gpt-image-1'')) \<noteq> None
            \<and> iti_provider (edit_input None (Some ''gpt-image-1'')) = None
            \<and> iti_model (edit_input None (Some ''gpt-image-1'')) = Some ''gpt-image-1''
            \<and> ''gpt-image-1'' \<noteq> []"
    using example_schemas(2)[of "''gpt-image-1''" None]
    by (simp add: example_registry edit_input_def)
  have h4: "tti_model (text_input (Some ''huggingface'') (Some ''huggingface/DALLE_MINI''))
              = Some ''huggingface/DALLE_MINI''
            \<and> ''huggingface/DALLE_MINI'' \<notin> set (js_values (flatModels factory_openai_huggingface))"
    by (simp add: example_registry text_input_def)
  have h5: "text_to_image_schema factory_openai_huggingface
              (defaultModel factory_openai_huggingface openai_client)
              (text_input None (Some ''dall-e-2'')) \<noteq> None
            \<and> tti_provider (text_input None (Some ''dall-e-2'')) = None
            \<and> tti_model (text_input None (Some ''dall-e-2'')) = Some ''dall-e-2''
            \<and> ''dall-e-2'' \<noteq> []"
    using example_schemas(1)[of "''dall-e-2''" None]
    by (simp add: example_registry text_input_def)
  have h6: "iti_model (edit_input (Some ''openai'') (Some ''DALLE2'')) = Some ''DALLE2''
            \<and> ''DALLE2'' \<notin> set (js_values (flatModels factory_openai_huggingface))"
    by (simp add: example_registry edit_input_def)
  have r2: "getProviderFromModel factory_openai_huggingface ''dall-e-2''
             = Inr (openai_client, Str ''dall-e-2'')"
    by (simp add: factory_openai_huggingface_def getProviderFromModel_def prefixed_match_def
        getAllowedModels_def huggingface_client_def openai_client_def HUGGINGFACE_MODELS_def
        OPENAI_MODELS_def js_values_def js_keys_def js_get_def truthy_value_def
        Object_prototype_def lookup_or_self_def)
  have r: "getProviderFromModel factory_openai_huggingface ''gpt-image-1''
             = Inr (openai_client, Str ''gpt-image-1'')"
    by (simp add: factory_openai_huggingface_def getProviderFromModel_def prefixed_match_def
        getAllowedModels_def huggingface_client_def openai_client_def HUGGINGFACE_MODELS_def
        OPENAI_MODELS_def js_values_def js_keys_def js_get_def truthy_value_def
        Object_prototype_def lookup_or_self_def)
  from explicit_text[OF h1] obtain t1 p1 where
    1: "provider_id t1 = ''openai''" "map_of (live factory_openai_huggingface) t1 = Some p1"
       "map (\<lambda>(c, r). (c, model r))
          (fst (snd (text_to_image factory_openai_huggingface example_generateImages
                       world_one_file uuid_example
                       (text_input (Some ''openai'') (Some ''stabilityai/stable-diffusion-2-1'')))))
        = [(p1, Given (Str ''stabilityai/stable-diffusion-2-1''))]"
    by auto
  have "t1 = OPENAI" using 1(1) by (cases t1) simp_all
  then have p1: "p1 = openai_client" using 1(2) by (simp add: example_registry)
  from explicit_edit[OF h2] obtain t2 p2 where
    2: "provider_id t2 = ''huggingface''" "map_of (live factory_openai_huggingface) t2 = Some p2"
       "map (\<lambda>(c, r). (c, model r))
          (fst (snd (image_to_image factory_openai_huggingface example_editImages
                       world_one_file uuid_example
                       (edit_input (Some ''huggingface'') (Some ''gpt-image-1'')))))
        = [(p2, Given (Str ''gpt-image-1''))]"
    by auto
  have "t2 = HUGGINGFACE" using 2(1) by (cases t2) simp_all
  then have p2: "p2 = huggingface_client" using 2(2) by (simp add: example_registry)
  show ?thesis
    using 1(3) 2(3) resolved_edit[OF h3] rejected[OF h4] resolved_text[OF h5]
      rejected_edit[OF h6]
    unfolding p1 p2 r r2 by simp
qed

text \<open>
  Claim C10 as stated fails at the tools as they are registered. With OpenAI (the
  default) and Hugging Face live, the schema default is the key \<open>openai/GPT_IMAGE\<close>.
  A call that names the provider \<open>openai\<close> and gives that prefixed string as model
  is not accepted by the schema of either tool, so no client receives it.
\<close>

theorem prefixed_model_rejected_by_schema:
  "getDefaultProvider factory_openai_huggingface = Inr openai_client
   \<and> defaultModel factory_openai_huggingface openai_client = Some ''openai/GPT_IMAGE''
   \<and> tti_provider (text_input (Some ''openai'') (Some ''openai/GPT_IMAGE'')) = Some ''openai''
   \<and> tti_model (text_input (Some ''openai'') (Some ''openai/GPT_IMAGE'')) = Some ''openai/GPT_IMAGE''
   \<and> text_to_image factory_openai_huggingface example_generateImages world_one_file
        uuid_example (text_input (Some ''openai'') (Some ''openai/GPT_IMAGE''))
       = (InvalidParams, [], [])
   \<and> image_to_image factory_openai_huggingface example_editImages world_one_file
        uuid_example (edit_input (Some ''openai'') (Some ''openai/GPT_IMAGE''))
       = (InvalidParams, [], [])"
proof -
  have a: "text_to_image_schema factory_openai_huggingface (Some ''openai/GPT_IMAGE'')
             (text_input (Some ''openai'') (Some ''openai/GPT_IMAGE'')) = None"
    by (simp add: text_to_image_schema_def text_input_def Let_def zod_default_def
          zod_enum_optional_def example_registry)
  have b: "image_to_image_schema factory_openai_huggingface (Some ''openai/GPT_IMAGE'')
             (edit_input (Some ''openai'') (Some ''openai/GPT_IMAGE'')) = None"
    by (simp add: image_to_image_schema_def edit_input_def Let_def zod_default_def
          zod_enum_optional_def example_registry)
  show ?thesis
    using a b
    by (simp add: text_to_image_def image_to_image_def Let_def example_registry
          text_input_def)
qed

end
